theory Spec2Isabelle
  imports Main "HOL-Library.Word"
begin

unbundle bit_operations_syntax

section \<open>The fixed-pool static allocator (iot\_static\_memory\_common.c)\<close>

text \<open>
  \<^verbatim>\<open>IotStaticMemory_FindFree( bool * const pInUse, int limit )\<close> scans the flags
  \<open>pInUse[0]\<close>, \<open>pInUse[1]\<close>, ... while \<open>i < limit\<close>. The first flag that is
  \<open>false\<close> is set to \<open>true\<close> and its index is returned (\<open>break\<close>); when the loop
  runs off \<open>limit\<close> the result is \<open>-1\<close> and nothing was written.

  The flag array is a \<open>bool list\<close>; the C \<open>int\<close>s \<open>i\<close>, \<open>limit\<close> and \<open>freeIndex\<close>
  are \<open>int\<close> (the loop only counts from 0 up to \<open>limit\<close>, so \<open>i++\<close> never leaves
  the range of a C \<open>int\<close>). A read of \<open>pInUse[i]\<close> beyond the end of the array is
  undefined behaviour in C: the model returns \<open>None\<close> there. The mutex around the loop
  has no effect on a single thread and is left out.
\<close>

function FindFree_loop :: "bool list \<Rightarrow> int \<Rightarrow> int \<Rightarrow> (bool list \<times> int) option" where
  "FindFree_loop pInUse limit i =
     (if i < limit then
        (if i < 0 \<or> int (length pInUse) \<le> i then None
         else if pInUse ! nat i = False then Some (pInUse[nat i := True], i)
         else FindFree_loop pInUse limit (i + 1))
      else Some (pInUse, -1))"
  by pat_completeness auto
termination
  by (relation "measure (\<lambda>(pInUse, limit, i). nat (limit - i))") auto

definition IotStaticMemory_FindFree :: "bool list \<Rightarrow> int \<Rightarrow> (bool list \<times> int) option" where
  "IotStaticMemory_FindFree pInUse limit = FindFree_loop pInUse limit 0"

section \<open>The MQTT client runtime (iot\_mqtt\_api.c): data model\<close>

text \<open>
  The status codes and operation kinds of the library. \<open>IotMqttQos_t\<close> is the C enum of
  the three MQTT quality-of-service levels, so \<open>qos > IOT_MQTT_QOS_0\<close> in the source is
  \<open>qos \<noteq> IOT_MQTT_QOS_0\<close> here.
\<close>

datatype IotMqttError_t =
    IOT_MQTT_SUCCESS | IOT_MQTT_STATUS_PENDING | IOT_MQTT_INIT_FAILED
  | IOT_MQTT_BAD_PARAMETER | IOT_MQTT_NO_MEMORY | IOT_MQTT_NETWORK_ERROR
  | IOT_MQTT_SCHEDULING_ERROR | IOT_MQTT_BAD_RESPONSE | IOT_MQTT_TIMEOUT
  | IOT_MQTT_SERVER_REFUSED | IOT_MQTT_RETRY_NO_RESPONSE

datatype IotMqttOperationType_t =
    IOT_MQTT_CONNECT | IOT_MQTT_PUBLISH_TO_SERVER | IOT_MQTT_PUBACK | IOT_MQTT_SUBSCRIBE
  | IOT_MQTT_UNSUBSCRIBE | IOT_MQTT_PINGREQ | IOT_MQTT_DISCONNECT

datatype IotMqttQos_t = IOT_MQTT_QOS_0 | IOT_MQTT_QOS_1 | IOT_MQTT_QOS_2

type_synonym packet = "8 word list"

text \<open>
  An \<open>IotMqttReference_t\<close> is a pointer to an operation; operations live in a store
  indexed by \<open>nat\<close>, and \<open>IOT_MQTT_REFERENCE_INITIALIZER\<close> (\<open>NULL\<close>) is \<open>None\<close>.
\<close>

type_synonym IotMqttReference_t = "nat option"

definition IOT_MQTT_REFERENCE_INITIALIZER :: IotMqttReference_t where
  "IOT_MQTT_REFERENCE_INITIALIZER = None"

text \<open>
  Modelled from the spec: the public flags \<open>IOT_MQTT_FLAG_WAITABLE\<close> and
  \<open>IOT_MQTT_FLAG_CLEANUP_ONLY\<close> are defined in iot\_mqtt.h, which is not among the
  sources; the spec names them as bits of the 32-bit \<open>flags\<close> word, and the lowest bit
  is taken for each (each is only ever tested in the call it is passed to).
\<close>

definition IOT_MQTT_FLAG_WAITABLE :: "32 word" where
  "IOT_MQTT_FLAG_WAITABLE = 1"

definition IOT_MQTT_FLAG_CLEANUP_ONLY :: "32 word" where
  "IOT_MQTT_FLAG_CLEANUP_ONLY = 1"

definition UINT16_MAX :: nat where
  "UINT16_MAX = 65535"

text \<open>
  Modelled from the spec: \<open>IOT_MQTT_RESPONSE_WAIT_MS\<close> is a configuration constant
  ("default short, typically 1000 ms") that iot\_mqtt\_api.c only checks to be positive.
\<close>

definition IOT_MQTT_RESPONSE_WAIT_MS :: "64 word" where
  "IOT_MQTT_RESPONSE_WAIT_MS = 1000"

subsection \<open>What the user passes in\<close>

text \<open>
  A pointer with a count (\<open>pSubscriptionList\<close>, \<open>subscriptionCount\<close>) is a list; a
  pointer that may be \<open>NULL\<close> is an \<open>option\<close>. \<open>payloadLength\<close> is a \<open>size_t\<close> that
  the code only compares. A callback record is identified by a number.
\<close>

record IotMqttPublishInfo_t =
  qos :: IotMqttQos_t
  pTopicName :: string
  payloadLength :: nat
  retryMs :: nat
  retryLimit :: int

record IotMqttSubscription_t =
  sub_qos :: IotMqttQos_t
  pTopicFilter :: string
  callback :: nat

record IotMqttConnectInfo_t =
  ci_awsIotMqttMode :: bool
  cleanSession :: bool
  pPreviousSubscriptions :: "IotMqttSubscription_t list option"
  pWillInfo :: "IotMqttPublishInfo_t option"
  keepAliveSeconds :: "16 word"

text \<open>
  A serializer writes its results through pointers: the status it returns, the packet,
  its size and, where the packet has one, the packet identifier (for PUBLISH also the
  place of the identifier's high byte in the packet). The override table
  \<open>IotMqttSerializer_t\<close> holds function pointers that may be \<open>NULL\<close>.
\<close>

type_synonym serialized = "IotMqttError_t \<times> packet option \<times> nat"
type_synonym serializedId = "IotMqttError_t \<times> packet option \<times> nat \<times> 16 word"
type_synonym serializedPublish = "IotMqttError_t \<times> packet option \<times> nat \<times> 16 word \<times> nat option"

record IotMqttSerializer_t =
  serialize_connect :: "(IotMqttConnectInfo_t \<Rightarrow> serialized) option"
  serialize_publish :: "(IotMqttPublishInfo_t \<Rightarrow> serializedPublish) option"
  serialize_subscribe :: "(IotMqttSubscription_t list \<Rightarrow> serializedId) option"
  serialize_unsubscribe :: "(IotMqttSubscription_t list \<Rightarrow> serializedId) option"
  serialize_pingreq :: "serialized option"
  serialize_disconnect :: "serialized option"

record IotMqttNetworkInfo_t =
  createNetworkConnection :: bool
  ni_pNetworkConnection :: "nat option"
  pMqttSerializer :: "IotMqttSerializer_t option"

subsection \<open>Subscriptions, operations, the connection\<close>

text \<open>
  Modelled from the spec: the structs \<open>_mqttSubscription_t\<close>, \<open>_mqttOperation_t\<close> and
  \<open>_mqttConnection_t\<close> are declared in private/iot\_mqtt\_internal.h, which is not among
  the sources. The records hold the attributes the spec lists for them (section 3) under
  the field names iot\_mqtt\_api.c uses. The two mutexes of a connection are left out:
  the model runs one call at a time.
\<close>

record mqttSubscription =
  topicFilter :: string
  requestedQos :: IotMqttQos_t
  subscriptionCallback :: nat
  subscriptionPacketIdentifier :: "16 word"
  subscriptionReferences :: int
  unsubscribed :: bool

record mqttOperation =
  operation :: IotMqttOperationType_t
  operationFlags :: "32 word"
  operationReferences :: int
  status :: IotMqttError_t
  pMqttPacket :: "packet option"
  packetSize :: nat
  packetIdentifier :: "16 word"
  pPacketIdentifierHigh :: "nat option"
  retryLimitOp :: int
  retryNextPeriod :: nat
  notifyCallback :: "nat option"
  jobScheduled :: bool

record mqttConnection =
  awsIotMqttMode :: bool
  ownNetworkConnection :: bool
  pNetworkConnection :: "nat option"
  pSerializer :: "IotMqttSerializer_t option"
  disconnected :: bool
  references :: int
  pendingProcessing :: "nat list"
  pendingResponse :: "nat list"
  subscriptionList :: "mqttSubscription list"
  keepAliveMs :: "32 word"
  nextKeepAliveMs :: "32 word"
  keepAliveJob :: bool
  pPingreqPacket :: "packet option"
  pingreqPacketSize :: nat

text \<open>
  The calls that leave the library (transport, task pool, allocator hooks, the table and
  operation modules) are recorded in a trace, in the order they are made. The removal by
  topic filter is recorded with the topic filters it is handed. The three steps that make
  and send a packet (creating the operation, serializing it, submitting its send job) are
  recorded with the subscription table of the connection at that moment: the table an
  inbound PUBLISH would be dispatched against while the step is taken.
\<close>

datatype event =
    EvNetworkCreate | EvSetReceiveCallback | EvNetworkClose | EvNetworkDestroy
  | EvCreateOperation "mqttSubscription list" | EvDestroyOperation nat
  | EvSerialize IotMqttOperationType_t "mqttSubscription list"
  | EvScheduleOperation nat "mqttSubscription list" | EvTryCancel nat
  | EvSemaphoreTimedWait nat | EvAddSubscriptions "16 word"
  | EvRemoveSubscriptionByTopicFilter "string list"
  | EvRemoveSubscriptionByPacket "16 word" | EvScheduleKeepAlive | EvFreeConnection

text \<open>
  The state the calls work on: one connection object (and whether it was freed), the
  store of operations, and the trace.
\<close>

record mqttState =
  connection :: mqttConnection
  connectionFreed :: bool
  operations :: "nat \<Rightarrow> mqttOperation option"
  nextOperation :: nat
  events :: "event list"

text \<open>
  Everything the file calls but does not define is a parameter: the two keep-alive limits
  of private/iot\_mqtt\_internal.h, the allocator hooks and mutex creation (true when they
  succeed), the default serializers, the validators, the task pool and the transport. A
  wait on a semaphore is where the other threads run: it returns whether the semaphore
  was posted in time, and the state they left.
\<close>

record externals =
  AWS_IOT_MQTT_SERVER_MIN_KEEPALIVE :: int
  AWS_IOT_MQTT_SERVER_MAX_KEEPALIVE :: int
  IotMqtt_MallocConnection :: bool
  IotMqtt_MallocOperation :: bool
  IotMqtt_MallocSubscription :: bool
  IotMutex_Create_referencesMutex :: bool
  IotMutex_Create_subscriptionMutex :: bool
  IotMqtt_SerializeConnect :: "IotMqttConnectInfo_t \<Rightarrow> serialized"
  IotMqtt_SerializePublish :: "IotMqttPublishInfo_t \<Rightarrow> serializedPublish"
  IotMqtt_SerializeSubscribe :: "IotMqttSubscription_t list \<Rightarrow> serializedId"
  IotMqtt_SerializeUnsubscribe :: "IotMqttSubscription_t list \<Rightarrow> serializedId"
  IotMqtt_SerializePingreq :: serialized
  IotMqtt_SerializeDisconnect :: serialized
  IotMqtt_ValidateConnect :: "IotMqttConnectInfo_t option \<Rightarrow> bool"
  IotMqtt_ValidatePublish :: "bool \<Rightarrow> IotMqttPublishInfo_t \<Rightarrow> bool"
  IotMqtt_ValidateSubscriptionList ::
    "IotMqttOperationType_t \<Rightarrow> bool \<Rightarrow> IotMqttSubscription_t list \<Rightarrow> bool"
  IotMqtt_ValidateReference :: "mqttOperation \<Rightarrow> bool"
  IotTaskPool_Schedule :: bool
  IotTaskPool_ScheduleDeferred :: bool
  IotTaskPool_TryCancel :: "nat \<Rightarrow> mqttState \<Rightarrow> bool"
  IotSemaphore_TimedWait :: "nat \<Rightarrow> 64 word \<Rightarrow> mqttState \<Rightarrow> bool \<times> mqttState"
  network_create :: "nat option"
  network_setReceiveCallback :: bool

section \<open>Creating and destroying a connection\<close>

text \<open>
  The source tests its invariants with \<open>IotMqtt_Assert\<close>, which compiles to nothing
  when \<open>IOT_MQTT_ENABLE_ASSERTS\<close> is 0; the model is of that build, and the inputs the
  theorems are tried on satisfy the assertions.

  A serializer is chosen as the source does: the default one, unless the override table
  is there and has an entry for it.
\<close>

definition chooseSerializer ::
  "'f \<Rightarrow> IotMqttSerializer_t option \<Rightarrow> (IotMqttSerializer_t \<Rightarrow> 'f option) \<Rightarrow> 'f" where
  "chooseSerializer dflt pOverrides entry =
     (case pOverrides of
        None \<Rightarrow> dflt
      | Some table \<Rightarrow> (case entry table of None \<Rightarrow> dflt | Some f \<Rightarrow> f))"

text \<open>
  \<open>_createKeepAliveJob\<close>: \<open>keepAliveSeconds * 1000\<close> is computed on C \<open>int\<close>s (a
  \<open>uint16_t\<close> is promoted), so it is at most 65,535,000 and the stored \<open>keepAliveMs\<close>
  is exact. The serializer writes the packet and its size into the connection whatever
  status it returns. After a successful serialization the job is created (for the
  pre-allocated job the source only asserts success) and the keep-alive takes a reference.
\<close>

definition createKeepAliveJob ::
  "externals \<Rightarrow> IotMqttNetworkInfo_t \<Rightarrow> 16 word \<Rightarrow> mqttConnection \<Rightarrow> bool \<times> mqttConnection" where
  "createKeepAliveJob ext pNetworkInfo keepAliveSecs pMqttConnection =
     (let c1 = pMqttConnection\<lparr>keepAliveMs := word_of_nat (unat keepAliveSecs * 1000)\<rparr>;
          c2 = c1\<lparr>nextKeepAliveMs := keepAliveMs c1\<rparr>;
          serializePingreq = chooseSerializer (IotMqtt_SerializePingreq ext)
                               (pMqttSerializer pNetworkInfo) serialize_pingreq;
          (serializeStatus, pkt, size) = serializePingreq;
          c3 = c2\<lparr>pPingreqPacket := pkt, pingreqPacketSize := size\<rparr>
      in if serializeStatus \<noteq> IOT_MQTT_SUCCESS then (False, c3)
         else (True, c3\<lparr>keepAliveJob := True, references := references c3 + 1\<rparr>))"

text \<open>The connection object after \<open>memset( pMqttConnection, 0x00, ... )\<close>.\<close>

definition zeroedConnection :: mqttConnection where
  "zeroedConnection =
     \<lparr>awsIotMqttMode = False, ownNetworkConnection = False, pNetworkConnection = None,
      pSerializer = None, disconnected = False, references = 0, pendingProcessing = [],
      pendingResponse = [], subscriptionList = [], keepAliveMs = 0, nextKeepAliveMs = 0,
      keepAliveJob = False, pPingreqPacket = None, pingreqPacketSize = 0\<rparr>"

text \<open>
  The adjustment of the keep-alive interval in \<open>_createMqttConnection\<close> (lines 350 to
  374), branch by branch. The two limits are C \<open>int\<close> constants: the \<open>uint16_t\<close> is
  promoted for the comparison and the constant is converted on assignment.
\<close>

definition adjustKeepAlive :: "externals \<Rightarrow> bool \<Rightarrow> 16 word \<Rightarrow> 16 word" where
  "adjustKeepAlive ext awsMode keepAliveSecs =
     (if awsMode then
        (if uint keepAliveSecs < AWS_IOT_MQTT_SERVER_MIN_KEEPALIVE ext
           then word_of_int (AWS_IOT_MQTT_SERVER_MIN_KEEPALIVE ext)
         else if uint keepAliveSecs > AWS_IOT_MQTT_SERVER_MAX_KEEPALIVE ext
           then word_of_int (AWS_IOT_MQTT_SERVER_MAX_KEEPALIVE ext)
         else if keepAliveSecs = 0
           then word_of_int (AWS_IOT_MQTT_SERVER_MAX_KEEPALIVE ext)
         else keepAliveSecs)
      else keepAliveSecs)"

text \<open>
  \<open>_createMqttConnection\<close> returns the new connection, or \<open>NULL\<close> (\<open>None\<close>) when the
  allocation, one of the two mutexes or the keep-alive job fails; the cleanup then frees
  what was made.
\<close>

definition createMqttConnection ::
  "externals \<Rightarrow> bool \<Rightarrow> IotMqttNetworkInfo_t \<Rightarrow> 16 word \<Rightarrow> mqttConnection option" where
  "createMqttConnection ext awsMode pNetworkInfo keepAliveSecs =
     (if \<not> IotMqtt_MallocConnection ext then None
      else
        let c = zeroedConnection\<lparr>awsIotMqttMode := awsMode, references := 1\<rparr> in
        if \<not> IotMutex_Create_referencesMutex ext then None
        else if \<not> IotMutex_Create_subscriptionMutex ext then None
        else
          let c' = c\<lparr>subscriptionList := [], pendingProcessing := [], pendingResponse := []\<rparr>;
              keepAliveSecs' = adjustKeepAlive ext awsMode keepAliveSecs
          in if keepAliveSecs' \<noteq> 0 then
               (case createKeepAliveJob ext pNetworkInfo keepAliveSecs' c' of
                  (False, _) \<Rightarrow> None
                | (True, c'') \<Rightarrow> Some c'')
             else Some c')"

text \<open>
  \<open>_mqttSubscription_setUnsubscribe\<close> sets the flag and always matches;
  \<open>_mqttSubscription_tryDestroy\<close> frees a subscription whose reference count is 0.
  \<open>IotListDouble_RemoveAllMatches\<close> with these two unlinks every subscription, so the
  list of the connection is empty afterwards (a subscription that a running callback
  still references is unlinked, not freed).
\<close>

definition mqttSubscription_setUnsubscribe :: "mqttSubscription \<Rightarrow> bool \<times> mqttSubscription" where
  "mqttSubscription_setUnsubscribe pSubscription = (True, pSubscription\<lparr>unsubscribed := True\<rparr>)"

definition mqttSubscription_tryDestroy :: "mqttSubscription \<Rightarrow> mqttSubscription option" where
  "mqttSubscription_tryDestroy pSubscription =
     (if subscriptionReferences pSubscription = 0 then None else Some pSubscription)"

definition removeAllSubscriptions :: "mqttSubscription list \<Rightarrow> mqttSubscription list" where
  "removeAllSubscriptions subs =
     filter (\<lambda>sub. \<not> fst (mqttSubscription_setUnsubscribe sub)) subs"

text \<open>
  \<open>_destroyMqttConnection\<close>: the keep-alive, if still allocated, is cleaned up and its
  reference dropped; the subscriptions are removed; a transport the connection owns is
  destroyed; the connection is freed. The record returned holds the members as they were
  when \<open>IotMqtt_FreeConnection\<close> was called.
\<close>

definition destroyMqttConnection :: "mqttState \<Rightarrow> mqttState" where
  "destroyMqttConnection s =
     (let c = connection s;
          c1 = (if keepAliveMs c \<noteq> 0
                then c\<lparr>keepAliveMs := 0, pPingreqPacket := None, pingreqPacketSize := 0,
                        references := references c - 1\<rparr>
                else c);
          c2 = c1\<lparr>subscriptionList := removeAllSubscriptions (subscriptionList c1)\<rparr>;
          ev = (if ownNetworkConnection c2 then [EvNetworkDestroy] else [])
      in s\<lparr>connection := c2, connectionFreed := True,
            events := events s @ ev @ [EvFreeConnection]\<rparr>)"

definition IotMqtt_IncrementConnectionReferences :: "mqttState \<Rightarrow> bool \<times> mqttState" where
  "IotMqtt_IncrementConnectionReferences s =
     (let c = connection s in
      if disconnected c = False
        then (True, s\<lparr>connection := c\<lparr>references := references c + 1\<rparr>\<rparr>)
        else (False, s))"

definition IotMqtt_DecrementConnectionReferences :: "mqttState \<Rightarrow> mqttState" where
  "IotMqtt_DecrementConnectionReferences s =
     (let c = connection s;
          s1 = s\<lparr>connection := c\<lparr>references := references c - 1\<rparr>\<rparr>
      in if references (connection s1) = 0 then destroyMqttConnection s1 else s1)"

section \<open>The operation engine and the subscription table\<close>

definition updateOperation :: "nat \<Rightarrow> (mqttOperation \<Rightarrow> mqttOperation) \<Rightarrow> mqttState \<Rightarrow> mqttState" where
  "updateOperation op f s = s\<lparr>operations := (operations s)(op := map_option f (operations s op))\<rparr>"

definition logEvent :: "event \<Rightarrow> mqttState \<Rightarrow> mqttState" where
  "logEvent e s = s\<lparr>events := events s @ [e]\<rparr>"

text \<open>
  Modelled from the spec: \<open>_IotMqtt_CreateOperation\<close> is defined in
  iot\_mqtt\_operation.c, which is not among the sources. The spec (section 4.2):
  creation "allocates an operation, installs it into the owning connection's list
  (initially pendingProcessing), creates the completion semaphore iff WAITABLE, increments
  the connection's refcount by 1, and sets status = PENDING, refcount = 1 + (WAITABLE ? 1 :
  0)"; an allocation failure returns NO\_MEMORY "without allocating any of the partial
  structure". The other members are zero.
\<close>

definition IotMqtt_CreateOperation ::
  "externals \<Rightarrow> mqttState \<Rightarrow> 32 word \<Rightarrow> nat option \<Rightarrow> mqttState \<times> (IotMqttError_t + nat)" where
  "IotMqtt_CreateOperation ext s flags pCallbackInfo =
     (let s0 = logEvent (EvCreateOperation (subscriptionList (connection s))) s in
      if \<not> IotMqtt_MallocOperation ext then (s0, Inl IOT_MQTT_NO_MEMORY)
      else
        let op = nextOperation s0;
            c = connection s0;
            newOperation =
              \<lparr>operation = IOT_MQTT_CONNECT, operationFlags = flags,
               operationReferences =
                 1 + (if flags AND IOT_MQTT_FLAG_WAITABLE = IOT_MQTT_FLAG_WAITABLE then 1 else 0),
               status = IOT_MQTT_STATUS_PENDING, pMqttPacket = None, packetSize = 0,
               packetIdentifier = 0, pPacketIdentifierHigh = None, retryLimitOp = 0,
               retryNextPeriod = 0, notifyCallback = pCallbackInfo, jobScheduled = False\<rparr>
        in (s0\<lparr>connection := c\<lparr>references := references c + 1,
                                  pendingProcessing := pendingProcessing c @ [op]\<rparr>,
                operations := (operations s0)(op \<mapsto> newOperation),
                nextOperation := op + 1\<rparr>,
            Inr op))"

text \<open>
  Modelled from the spec: \<open>_IotMqtt_ScheduleOperation\<close> (iot\_mqtt\_operation.c, not
  among the sources) is the "thin layer submitting operation-processing jobs" to the task
  pool; a failed submission is the status SCHEDULING\_ERROR of the spec's taxonomy. A
  submitted job can be cancelled until it runs.
\<close>

definition IotMqtt_ScheduleOperation ::
  "externals \<Rightarrow> mqttState \<Rightarrow> nat \<Rightarrow> IotMqttError_t \<times> mqttState" where
  "IotMqtt_ScheduleOperation ext s op =
     (let s0 = logEvent (EvScheduleOperation op (subscriptionList (connection s))) s in
      if IotTaskPool_Schedule ext
        then (IOT_MQTT_SUCCESS, updateOperation op (\<lambda>x. x\<lparr>jobScheduled := True\<rparr>) s0)
        else (IOT_MQTT_SCHEDULING_ERROR, s0))"

text \<open>
  Modelled from the spec: \<open>_IotMqtt_DecrementOperationReferences\<close> (not among the
  sources) "optionally asks the task pool to cancel the pending job (which, on success,
  represents one reference); then under the connection's references mutex decrements
  op.refcount and returns true iff it reached zero". After a failed cancellation nothing
  is decremented (section 5: "success frees the task pool's reference. An operation whose
  job cannot be cancelled (already running) completes normally").
\<close>

definition IotMqtt_DecrementOperationReferences ::
  "externals \<Rightarrow> mqttState \<Rightarrow> nat \<Rightarrow> bool \<Rightarrow> bool \<times> mqttState" where
  "IotMqtt_DecrementOperationReferences ext s op cancelJob =
     (let cancelled = IotTaskPool_TryCancel ext op s;
          s0 = (if cancelJob then logEvent (EvTryCancel op) s else s)
      in if cancelJob \<and> \<not> cancelled then (False, s0)
         else
           (case operations s0 op of
              None \<Rightarrow> (False, s0)
            | Some x \<Rightarrow>
                let x' = x\<lparr>operationReferences := operationReferences x - 1,
                           jobScheduled := (if cancelJob then False else jobScheduled x)\<rparr>
                in (operationReferences x' = 0, s0\<lparr>operations := (operations s0)(op \<mapsto> x')\<rparr>)))"

text \<open>
  Modelled from the spec: \<open>_IotMqtt_DestroyOperation\<close> (not among the sources)
  "removes the operation from whatever list it's in, frees its packet bytes via the
  allocator hook, destroys its semaphore if any, and decrements the connection's reference
  count".
\<close>

definition IotMqtt_DestroyOperation :: "mqttState \<Rightarrow> nat \<Rightarrow> mqttState" where
  "IotMqtt_DestroyOperation s op =
     (let c = connection s;
          s1 = (logEvent (EvDestroyOperation op) s)
                 \<lparr>connection := c\<lparr>pendingProcessing := removeAll op (pendingProcessing c),
                                   pendingResponse := removeAll op (pendingResponse c)\<rparr>,
                  operations := (operations s)(op := None)\<rparr>
      in IotMqtt_DecrementConnectionReferences s1)"

text \<open>\<open>_mqttOperation_tryDestroy\<close>, the function \<open>IotMqtt_Disconnect\<close> frees the queues with.\<close>

definition mqttOperation_tryDestroy :: "externals \<Rightarrow> mqttState \<Rightarrow> nat \<Rightarrow> mqttState" where
  "mqttOperation_tryDestroy ext s op =
     (case IotMqtt_DecrementOperationReferences ext s op True of
        (True, s') \<Rightarrow> IotMqtt_DestroyOperation s' op
      | (False, s') \<Rightarrow> s')"

text \<open>
  Modelled from the spec: \<open>_IotMqtt_CloseNetworkConnection\<close> (iot\_mqtt\_network.c, not
  among the sources). Section 4.1: "close the transport (which also terminates
  keep-alive), set disconnected=true"; section 4.5: "cancel the keep-alive job; free the
  pre-serialized PINGREQ; zero keep-alive fields; drop the keep-alive reference".
\<close>

definition IotMqtt_CloseNetworkConnection :: "mqttState \<Rightarrow> mqttState" where
  "IotMqtt_CloseNetworkConnection s =
     (let c = (connection s)\<lparr>disconnected := True\<rparr>;
          c' = (if keepAliveMs c \<noteq> 0
                then c\<lparr>keepAliveJob := False, pPingreqPacket := None, pingreqPacketSize := 0,
                        keepAliveMs := 0, nextKeepAliveMs := 0, references := references c - 1\<rparr>
                else c)
      in logEvent EvNetworkClose (s\<lparr>connection := c'\<rparr>))"

text \<open>
  Modelled from the spec: the subscription table of iot\_mqtt\_subscription.c (not among
  the sources), section 4.4. \<open>AddSubscriptions\<close>: "for each entry: if an existing
  subscription has the same topic filter and callback, update its QoS; otherwise append a
  new subscription tagged with packetIdentifier"; when the allocator refuses, NO\_MEMORY
  and no change. Removal tombstones the matching entries and drops at once those with
  reference count 0 (\<open>RemoveByTopicFilter\<close>: "tombstone entries whose topic filter
  matches any in the given list; remove those with refcount=0 immediately";
  \<open>RemoveByPacket\<close>: "tombstone entries carrying that identifier; order=-1 means match
  all with this id", the only order iot\_mqtt\_api.c passes).
\<close>

definition sameSubscription :: "IotMqttSubscription_t \<Rightarrow> mqttSubscription \<Rightarrow> bool" where
  "sameSubscription new old \<longleftrightarrow>
     topicFilter old = pTopicFilter new \<and> subscriptionCallback old = callback new"

definition addSubscription ::
  "16 word \<Rightarrow> mqttSubscription list \<Rightarrow> IotMqttSubscription_t \<Rightarrow> mqttSubscription list" where
  "addSubscription packetId subs new =
     (if list_ex (sameSubscription new) subs
      then map (\<lambda>old. if sameSubscription new old then old\<lparr>requestedQos := sub_qos new\<rparr> else old) subs
      else subs @ [\<lparr>topicFilter = pTopicFilter new, requestedQos = sub_qos new,
                    subscriptionCallback = callback new,
                    subscriptionPacketIdentifier = packetId,
                    subscriptionReferences = 0, unsubscribed = False\<rparr>])"

definition IotMqtt_AddSubscriptions ::
  "externals \<Rightarrow> mqttState \<Rightarrow> 16 word \<Rightarrow> IotMqttSubscription_t list \<Rightarrow> IotMqttError_t \<times> mqttState" where
  "IotMqtt_AddSubscriptions ext s packetId pSubscriptionList =
     (let s0 = logEvent (EvAddSubscriptions packetId) s; c = connection s0 in
      if \<not> IotMqtt_MallocSubscription ext then (IOT_MQTT_NO_MEMORY, s0)
      else (IOT_MQTT_SUCCESS,
            s0\<lparr>connection :=
                 c\<lparr>subscriptionList := foldl (addSubscription packetId) (subscriptionList c)
                                          pSubscriptionList\<rparr>\<rparr>))"

definition removeMatching ::
  "(mqttSubscription \<Rightarrow> bool) \<Rightarrow> mqttSubscription list \<Rightarrow> mqttSubscription list" where
  "removeMatching matches subs =
     map (\<lambda>sub. if matches sub then sub\<lparr>unsubscribed := True\<rparr> else sub)
         (filter (\<lambda>sub. \<not> (matches sub \<and> subscriptionReferences sub = 0)) subs)"

definition IotMqtt_RemoveSubscriptionByTopicFilter ::
  "mqttState \<Rightarrow> IotMqttSubscription_t list \<Rightarrow> mqttState" where
  "IotMqtt_RemoveSubscriptionByTopicFilter s pSubscriptionList =
     (let s0 = logEvent (EvRemoveSubscriptionByTopicFilter (map pTopicFilter pSubscriptionList)) s;
          c = connection s0 in
      s0\<lparr>connection :=
           c\<lparr>subscriptionList :=
                removeMatching (\<lambda>sub. topicFilter sub \<in> set (map pTopicFilter pSubscriptionList))
                  (subscriptionList c)\<rparr>\<rparr>)"

definition IotMqtt_RemoveSubscriptionByPacket :: "mqttState \<Rightarrow> 16 word \<Rightarrow> mqttState" where
  "IotMqtt_RemoveSubscriptionByPacket s packetId =
     (let s0 = logEvent (EvRemoveSubscriptionByPacket packetId) s; c = connection s0 in
      s0\<lparr>connection :=
           c\<lparr>subscriptionList :=
                removeMatching (\<lambda>sub. subscriptionPacketIdentifier sub = packetId)
                  (subscriptionList c)\<rparr>\<rparr>)"

section \<open>SUBSCRIBE and UNSUBSCRIBE\<close>

text \<open>
  \<open>_subscriptionCommon\<close>. An output pointer \<open>pSubscriptionRef\<close> is \<open>None\<close> when
  \<open>NULL\<close>, and otherwise holds the reference it points to; the function returns its
  status, the new state and what the pointer holds afterwards. Every
  \<open>_IOT_GOTO_CLEANUP\<close> ends in the cleanup block (lines 701 to 720): a failed call
  destroys the operation if one was created, a successful one returns STATUS\_PENDING.
\<close>

definition subscriptionCommon_cleanup ::
  "IotMqttError_t \<Rightarrow> nat option \<Rightarrow> mqttState \<Rightarrow> IotMqttError_t \<times> mqttState" where
  "subscriptionCommon_cleanup st pSubscriptionOperation s =
     (if st \<noteq> IOT_MQTT_SUCCESS then
        (case pSubscriptionOperation of
           Some op \<Rightarrow> (st, IotMqtt_DestroyOperation s op)
         | None \<Rightarrow> (st, s))
      else (IOT_MQTT_STATUS_PENDING, s))"

text \<open>Lines 674 to 699: the reference is set, the send job scheduled, and a failure rolled back.\<close>

definition subscriptionCommon_schedule ::
  "externals \<Rightarrow> IotMqttOperationType_t \<Rightarrow> mqttState \<Rightarrow> nat \<Rightarrow> 16 word \<Rightarrow>
   IotMqttReference_t option \<Rightarrow> (IotMqttError_t \<times> mqttState) \<times> IotMqttReference_t option" where
  "subscriptionCommon_schedule ext operation' s op packetId pSubscriptionRef =
     (let ref1 = (if pSubscriptionRef \<noteq> None then Some (Some op) else pSubscriptionRef);
          (st, s1) = IotMqtt_ScheduleOperation ext s op
      in if st \<noteq> IOT_MQTT_SUCCESS then
           let s2 = (if operation' = IOT_MQTT_SUBSCRIBE
                     then IotMqtt_RemoveSubscriptionByPacket s1 packetId else s1);
               ref2 = (if ref1 \<noteq> None then Some IOT_MQTT_REFERENCE_INITIALIZER else ref1)
           in (subscriptionCommon_cleanup st (Some op) s2, ref2)
         else (subscriptionCommon_cleanup st (Some op) s1, ref1))"

text \<open>Lines 633 to 666: the operation is serialized and, for a SUBSCRIBE, the table extended.\<close>

definition subscriptionCommon_send ::
  "externals \<Rightarrow> IotMqttOperationType_t \<Rightarrow> mqttState \<Rightarrow> nat \<Rightarrow> IotMqttSubscription_t list \<Rightarrow>
   IotMqttReference_t option \<Rightarrow> (IotMqttError_t \<times> mqttState) \<times> IotMqttReference_t option" where
  "subscriptionCommon_send ext operation' s op pSubscriptionList pSubscriptionRef =
     (let c = connection s;
          serializeSubscription =
            (if operation' = IOT_MQTT_SUBSCRIBE
             then chooseSerializer (IotMqtt_SerializeSubscribe ext) (pSerializer c) serialize_subscribe
             else chooseSerializer (IotMqtt_SerializeUnsubscribe ext) (pSerializer c) serialize_unsubscribe);
          s1 = updateOperation op (\<lambda>x. x\<lparr>operation := operation'\<rparr>) s;
          (st, pkt, size, packetId) = serializeSubscription pSubscriptionList;
          s2 = logEvent (EvSerialize operation' (subscriptionList c))
                 (updateOperation op
                    (\<lambda>x. x\<lparr>pMqttPacket := pkt, packetSize := size, packetIdentifier := packetId\<rparr>) s1)
      in if st \<noteq> IOT_MQTT_SUCCESS then (subscriptionCommon_cleanup st (Some op) s2, pSubscriptionRef)
         else
           let (st', s3) = (if operation' = IOT_MQTT_SUBSCRIBE
                            then IotMqtt_AddSubscriptions ext s2 packetId pSubscriptionList
                            else (st, s2))
           in if st' \<noteq> IOT_MQTT_SUCCESS
              then (subscriptionCommon_cleanup st' (Some op) s3, pSubscriptionRef)
              else subscriptionCommon_schedule ext operation' s3 op packetId pSubscriptionRef)"

definition subscriptionCommon ::
  "externals \<Rightarrow> IotMqttOperationType_t \<Rightarrow> mqttState \<Rightarrow> IotMqttSubscription_t list \<Rightarrow> 32 word \<Rightarrow>
   nat option \<Rightarrow> IotMqttReference_t option \<Rightarrow>
   (IotMqttError_t \<times> mqttState) \<times> IotMqttReference_t option" where
  "subscriptionCommon ext operation' s pSubscriptionList flags pCallbackInfo pSubscriptionRef =
     (if \<not> IotMqtt_ValidateSubscriptionList ext operation' (awsIotMqttMode (connection s))
             pSubscriptionList
      then (subscriptionCommon_cleanup IOT_MQTT_BAD_PARAMETER None s, pSubscriptionRef)
      else if flags AND IOT_MQTT_FLAG_WAITABLE = IOT_MQTT_FLAG_WAITABLE \<and> pSubscriptionRef = None
      then (subscriptionCommon_cleanup IOT_MQTT_BAD_PARAMETER None s, pSubscriptionRef)
      else
        let s1 = (if operation' = IOT_MQTT_UNSUBSCRIBE
                  then IotMqtt_RemoveSubscriptionByTopicFilter s pSubscriptionList else s)
        in (case IotMqtt_CreateOperation ext s1 flags pCallbackInfo of
              (s2, Inl st) \<Rightarrow> (subscriptionCommon_cleanup st None s2, pSubscriptionRef)
            | (s2, Inr op) \<Rightarrow>
                subscriptionCommon_send ext operation' s2 op pSubscriptionList pSubscriptionRef))"

definition IotMqtt_Subscribe ::
  "externals \<Rightarrow> mqttState \<Rightarrow> IotMqttSubscription_t list \<Rightarrow> 32 word \<Rightarrow> nat option \<Rightarrow>
   IotMqttReference_t option \<Rightarrow> (IotMqttError_t \<times> mqttState) \<times> IotMqttReference_t option" where
  "IotMqtt_Subscribe ext s pSubscriptionList flags pCallbackInfo pSubscribeRef =
     subscriptionCommon ext IOT_MQTT_SUBSCRIBE s pSubscriptionList flags pCallbackInfo pSubscribeRef"

definition IotMqtt_Unsubscribe ::
  "externals \<Rightarrow> mqttState \<Rightarrow> IotMqttSubscription_t list \<Rightarrow> 32 word \<Rightarrow> nat option \<Rightarrow>
   IotMqttReference_t option \<Rightarrow> (IotMqttError_t \<times> mqttState) \<times> IotMqttReference_t option" where
  "IotMqtt_Unsubscribe ext s pSubscriptionList flags pCallbackInfo pUnsubscribeRef =
     subscriptionCommon ext IOT_MQTT_UNSUBSCRIBE s pSubscriptionList flags pCallbackInfo pUnsubscribeRef"

section \<open>PUBLISH\<close>

text \<open>
  \<open>IotMqtt_Publish\<close>, in the order of the source: the checks (lines 1463 to 1525), the
  creation and serialization of the operation, the retry settings, the reference, the
  send job, and the cleanup block that sets the status returned.
\<close>

definition Publish_cleanup ::
  "IotMqttPublishInfo_t \<Rightarrow> IotMqttError_t \<Rightarrow> nat option \<Rightarrow> mqttState \<Rightarrow> IotMqttError_t \<times> mqttState" where
  "Publish_cleanup pPublishInfo st pPublishOperation s =
     (if st \<noteq> IOT_MQTT_SUCCESS then
        (case pPublishOperation of
           Some op \<Rightarrow> (st, IotMqtt_DestroyOperation s op)
         | None \<Rightarrow> (st, s))
      else if qos pPublishInfo \<noteq> IOT_MQTT_QOS_0 then (IOT_MQTT_STATUS_PENDING, s)
      else (st, s))"

definition Publish_parametersValid ::
  "externals \<Rightarrow> mqttState \<Rightarrow> IotMqttPublishInfo_t \<Rightarrow> 32 word \<Rightarrow> nat option \<Rightarrow>
   IotMqttReference_t option \<Rightarrow> bool" where
  "Publish_parametersValid ext s pPublishInfo flags pCallbackInfo pPublishRef =
     (if \<not> IotMqtt_ValidatePublish ext (awsIotMqttMode (connection s)) pPublishInfo then False
      else if qos pPublishInfo = IOT_MQTT_QOS_0 \<and> pCallbackInfo \<noteq> None then False
      else if qos pPublishInfo = IOT_MQTT_QOS_0 \<and> flags AND IOT_MQTT_FLAG_WAITABLE \<noteq> 0 then False
      else if flags AND IOT_MQTT_FLAG_WAITABLE = IOT_MQTT_FLAG_WAITABLE \<and> pPublishRef = None
        then False
      else True)"

definition Publish_send ::
  "externals \<Rightarrow> mqttState \<Rightarrow> nat \<Rightarrow> IotMqttPublishInfo_t \<Rightarrow> IotMqttReference_t option \<Rightarrow>
   (IotMqttError_t \<times> mqttState) \<times> IotMqttReference_t option" where
  "Publish_send ext s op pPublishInfo pPublishRef =
     (let c = connection s;
          s1 = updateOperation op (\<lambda>x. x\<lparr>operation := IOT_MQTT_PUBLISH_TO_SERVER\<rparr>) s;
          serializePublish =
            chooseSerializer (IotMqtt_SerializePublish ext) (pSerializer c) serialize_publish;
          (st, pkt, size, packetId, idHigh) = serializePublish pPublishInfo;
          s2 = logEvent (EvSerialize IOT_MQTT_PUBLISH_TO_SERVER (subscriptionList c))
                 (updateOperation op
                    (\<lambda>x. x\<lparr>pMqttPacket := pkt, packetSize := size, packetIdentifier := packetId,
                            pPacketIdentifierHigh :=
                              (if awsIotMqttMode c then idHigh else pPacketIdentifierHigh x)\<rparr>) s1)
      in if st \<noteq> IOT_MQTT_SUCCESS then (Publish_cleanup pPublishInfo st (Some op) s2, pPublishRef)
         else
           let s3 = (if retryLimit pPublishInfo > 0 \<and> qos pPublishInfo \<noteq> IOT_MQTT_QOS_0
                     then updateOperation op
                            (\<lambda>x. x\<lparr>retryLimitOp := retryLimit pPublishInfo,
                                    retryNextPeriod := retryMs pPublishInfo\<rparr>) s2
                     else s2);
               ref1 = (if qos pPublishInfo \<noteq> IOT_MQTT_QOS_0 \<and> pPublishRef \<noteq> None
                       then Some (Some op) else pPublishRef);
               (st', s4) = IotMqtt_ScheduleOperation ext s3 op
           in if st' \<noteq> IOT_MQTT_SUCCESS then
                let ref2 = (if qos pPublishInfo \<noteq> IOT_MQTT_QOS_0 \<and> ref1 \<noteq> None
                            then Some IOT_MQTT_REFERENCE_INITIALIZER else ref1)
                in (Publish_cleanup pPublishInfo st' (Some op) s4, ref2)
              else (Publish_cleanup pPublishInfo st' (Some op) s4, ref1))"

definition IotMqtt_Publish ::
  "externals \<Rightarrow> mqttState \<Rightarrow> IotMqttPublishInfo_t \<Rightarrow> 32 word \<Rightarrow> nat option \<Rightarrow>
   IotMqttReference_t option \<Rightarrow> (IotMqttError_t \<times> mqttState) \<times> IotMqttReference_t option" where
  "IotMqtt_Publish ext s pPublishInfo flags pCallbackInfo pPublishRef =
     (if \<not> Publish_parametersValid ext s pPublishInfo flags pCallbackInfo pPublishRef
      then (Publish_cleanup pPublishInfo IOT_MQTT_BAD_PARAMETER None s, pPublishRef)
      else
        (case IotMqtt_CreateOperation ext s flags pCallbackInfo of
           (s1, Inl st) \<Rightarrow> (Publish_cleanup pPublishInfo st None s1, pPublishRef)
         | (s1, Inr op) \<Rightarrow> Publish_send ext s1 op pPublishInfo pPublishRef))"

section \<open>Waiting for an operation\<close>

text \<open>
  \<open>IotMqtt_Wait\<close> reads \<open>pOperation->pMqttConnection\<close> before anything else, so a
  reference that is \<open>NULL\<close> or does not point to a live operation is undefined
  behaviour: the result is \<open>None\<close>. The operation is read again after the wait, when
  the other threads have run.

  Lines 1839 to 1848, the end of the block that a valid reference enters: the caller's
  reference is given up, and the operation destroyed when it was the last one.
\<close>

definition Wait_release ::
  "externals \<Rightarrow> IotMqttError_t \<Rightarrow> mqttState \<Rightarrow> nat \<Rightarrow> IotMqttError_t \<times> mqttState" where
  "Wait_release ext st s op =
     (case IotMqtt_DecrementOperationReferences ext s op False of
        (True, s') \<Rightarrow> (st, IotMqtt_DestroyOperation s' op)
      | (False, s') \<Rightarrow> (st, s'))"

definition IotMqtt_Wait ::
  "externals \<Rightarrow> mqttState \<Rightarrow> IotMqttReference_t \<Rightarrow> 64 word \<Rightarrow> (IotMqttError_t \<times> mqttState) option" where
  "IotMqtt_Wait ext s reference timeoutMs =
     (case reference of
        None \<Rightarrow> None
      | Some op \<Rightarrow>
          (case operations s op of
             None \<Rightarrow> None
           | Some pOperation \<Rightarrow>
               if \<not> IotMqtt_ValidateReference ext pOperation then Some (IOT_MQTT_BAD_PARAMETER, s)
               else if disconnected (connection s)
                 then Some (Wait_release ext IOT_MQTT_NETWORK_ERROR s op)
               else
                 let (posted, s1) =
                       IotSemaphore_TimedWait ext op timeoutMs (logEvent (EvSemaphoreTimedWait op) s)
                 in (case operations s1 op of
                       None \<Rightarrow> None
                     | Some pOperation' \<Rightarrow>
                         if \<not> posted then
                           let (_, s2) = IotMqtt_DecrementOperationReferences ext s1 op True;
                               s3 = (if operation pOperation' = IOT_MQTT_SUBSCRIBE
                                     then IotMqtt_RemoveSubscriptionByPacket s2
                                            (packetIdentifier pOperation')
                                     else s2)
                           in Some (Wait_release ext IOT_MQTT_TIMEOUT s3 op)
                         else Some (Wait_release ext (status pOperation') s1 op))))"

section \<open>DISCONNECT\<close>

text \<open>
  \<open>IotListDouble_RemoveAll\<close> unlinks every element of a queue and calls
  \<open>_mqttOperation_tryDestroy\<close> on each, front to back.
\<close>

definition removeAll_pendingProcessing :: "externals \<Rightarrow> mqttState \<Rightarrow> mqttState" where
  "removeAll_pendingProcessing ext s =
     foldl (mqttOperation_tryDestroy ext)
       (s\<lparr>connection := (connection s)\<lparr>pendingProcessing := []\<rparr>\<rparr>)
       (pendingProcessing (connection s))"

definition removeAll_pendingResponse :: "externals \<Rightarrow> mqttState \<Rightarrow> mqttState" where
  "removeAll_pendingResponse ext s =
     foldl (mqttOperation_tryDestroy ext)
       (s\<lparr>connection := (connection s)\<lparr>pendingResponse := []\<rparr>\<rparr>)
       (pendingResponse (connection s))"

text \<open>
  Lines 1205 to 1296 of \<open>IotMqtt_Disconnect\<close>: the DISCONNECT packet is created,
  serialized, scheduled and waited for. The status of the wait is only logged.
\<close>

definition Disconnect_send :: "externals \<Rightarrow> mqttState \<Rightarrow> mqttState option" where
  "Disconnect_send ext s =
     (case IotMqtt_CreateOperation ext s IOT_MQTT_FLAG_WAITABLE None of
        (s1, Inl st) \<Rightarrow> Some s1
      | (s1, Inr op) \<Rightarrow>
          let s2 = updateOperation op (\<lambda>x. x\<lparr>operation := IOT_MQTT_DISCONNECT\<rparr>) s1;
              serializeDisconnect =
                chooseSerializer (IotMqtt_SerializeDisconnect ext) (pSerializer (connection s2))
                  serialize_disconnect;
              (st, pkt, size) = serializeDisconnect;
              s3 = logEvent (EvSerialize IOT_MQTT_DISCONNECT (subscriptionList (connection s2)))
                     (updateOperation op (\<lambda>x. x\<lparr>pMqttPacket := pkt, packetSize := size\<rparr>) s2)
          in if st = IOT_MQTT_SUCCESS then
               (case IotMqtt_ScheduleOperation ext s3 op of
                  (st', s4) \<Rightarrow>
                    if st' \<noteq> IOT_MQTT_SUCCESS then Some (IotMqtt_DestroyOperation s4 op)
                    else map_option snd (IotMqtt_Wait ext s4 (Some op) IOT_MQTT_RESPONSE_WAIT_MS))
             else Some s3)"

text \<open>
  Lines 1308 to 1329, which every call reaches: the transport is closed, both queues are
  emptied, and the reference of the user is given up.
\<close>

definition Disconnect_release :: "externals \<Rightarrow> mqttState \<Rightarrow> mqttState" where
  "Disconnect_release ext s =
     IotMqtt_DecrementConnectionReferences
       (removeAll_pendingResponse ext
          (removeAll_pendingProcessing ext (IotMqtt_CloseNetworkConnection s)))"

definition IotMqtt_Disconnect :: "externals \<Rightarrow> mqttState \<Rightarrow> 32 word \<Rightarrow> mqttState option" where
  "IotMqtt_Disconnect ext s flags =
     (let sent = (if disconnected (connection s) = False
                  then (if flags AND IOT_MQTT_FLAG_CLEANUP_ONLY = 0
                        then Disconnect_send ext s else Some s)
                  else Some s)
      in map_option (Disconnect_release ext) sent)"

section \<open>CONNECT\<close>

text \<open>
  The cleanup block of \<open>IotMqtt_Connect\<close> (lines 1128 to 1180). A failed call closes the
  transport if there is one, destroys the CONNECT operation if it still holds it and
  destroys the connection object if it made one; a successful call sets the output
  parameter (the last component of the result).
\<close>

definition Connect_cleanup ::
  "IotMqttError_t \<Rightarrow> bool \<Rightarrow> nat option \<Rightarrow> bool \<Rightarrow> mqttState \<Rightarrow> IotMqttError_t \<times> mqttState \<times> bool" where
  "Connect_cleanup st networkCreated pConnectOperation newConnection s =
     (if st \<noteq> IOT_MQTT_SUCCESS then
        let s1 = (if networkCreated then logEvent EvNetworkClose s else s);
            s2 = (case pConnectOperation of
                    Some op \<Rightarrow> IotMqtt_DestroyOperation s1 op
                  | None \<Rightarrow> s1);
            s3 = (if newConnection then destroyMqttConnection s2 else s2)
        in (st, s3, False)
      else (st, s, True))"

text \<open>
  The check of the will message (lines 871 to 895): true when the connect info passes.
\<close>

definition Connect_willValid :: "externals \<Rightarrow> IotMqttConnectInfo_t \<Rightarrow> bool" where
  "Connect_willValid ext pConnectInfo =
     (case pWillInfo pConnectInfo of
        Some will \<Rightarrow>
          if \<not> IotMqtt_ValidatePublish ext (ci_awsIotMqttMode pConnectInfo) will then False
          else if payloadLength will > UINT16_MAX then False
          else True
      | None \<Rightarrow> True)"

text \<open>The check of the subscriptions of a previous session (lines 897 to 922).\<close>

definition Connect_previousSubscriptionsValid :: "externals \<Rightarrow> IotMqttConnectInfo_t \<Rightarrow> bool" where
  "Connect_previousSubscriptionsValid ext pConnectInfo =
     (if cleanSession pConnectInfo = False then
        (case pPreviousSubscriptions pConnectInfo of
           Some subs \<Rightarrow>
             IotMqtt_ValidateSubscriptionList ext IOT_MQTT_SUBSCRIBE
               (ci_awsIotMqttMode pConnectInfo) subs
         | None \<Rightarrow> True)
      else True)"

text \<open>
  Lines 1059 to 1126: the CONNECT packet is serialized and scheduled, the CONNACK waited
  for (the wait gives up the operation), and the first keep-alive job scheduled.
\<close>

definition Connect_send ::
  "externals \<Rightarrow> mqttState \<Rightarrow> nat \<Rightarrow> IotMqttConnectInfo_t \<Rightarrow> 64 word \<Rightarrow>
   (IotMqttError_t \<times> mqttState \<times> bool) option" where
  "Connect_send ext s op pConnectInfo timeoutMs =
     (let serializeConnect =
            chooseSerializer (IotMqtt_SerializeConnect ext) (pSerializer (connection s))
              serialize_connect;
          (st, pkt, size) = serializeConnect pConnectInfo;
          s1 = logEvent (EvSerialize IOT_MQTT_CONNECT (subscriptionList (connection s)))
                 (updateOperation op (\<lambda>x. x\<lparr>pMqttPacket := pkt, packetSize := size\<rparr>) s)
      in if st \<noteq> IOT_MQTT_SUCCESS then Some (Connect_cleanup st True (Some op) True s1)
         else
           (case IotMqtt_ScheduleOperation ext s1 op of
              (st', s2) \<Rightarrow>
                if st' \<noteq> IOT_MQTT_SUCCESS then Some (Connect_cleanup st' True (Some op) True s2)
                else
                  (case IotMqtt_Wait ext s2 (Some op) timeoutMs of
                     None \<Rightarrow> None
                   | Some (st'', s3) \<Rightarrow>
                       if st'' = IOT_MQTT_SUCCESS \<and> keepAliveMs (connection s3) \<noteq> 0 then
                         (if \<not> IotTaskPool_ScheduleDeferred ext
                          then Some (Connect_cleanup IOT_MQTT_SCHEDULING_ERROR True None True
                                       (logEvent EvScheduleKeepAlive s3))
                          else Some (Connect_cleanup st'' True None True
                                       (logEvent EvScheduleKeepAlive s3)))
                       else Some (Connect_cleanup st'' True None True s3))))"

text \<open>
  Lines 924 to 1038: the transport is created or adopted, the connection object made and
  put in the state, the receive callback set, the CONNECT operation created and the
  subscriptions of a previous session added under the packet identifier 2.
\<close>

definition Connect_establish ::
  "externals \<Rightarrow> mqttState \<Rightarrow> IotMqttNetworkInfo_t \<Rightarrow> IotMqttConnectInfo_t \<Rightarrow> 64 word \<Rightarrow>
   (IotMqttError_t \<times> mqttState \<times> bool) option" where
  "Connect_establish ext s pNetworkInfo pConnectInfo timeoutMs =
     (let s0 = (if createNetworkConnection pNetworkInfo then logEvent EvNetworkCreate s else s) in
      if createNetworkConnection pNetworkInfo \<and> network_create ext = None
      then Some (Connect_cleanup IOT_MQTT_NETWORK_ERROR False None False s0)
      else
        let handle = (if createNetworkConnection pNetworkInfo then network_create ext
                      else ni_pNetworkConnection pNetworkInfo);
            own = createNetworkConnection pNetworkInfo
        in (case createMqttConnection ext (ci_awsIotMqttMode pConnectInfo) pNetworkInfo
                   (keepAliveSeconds pConnectInfo) of
              None \<Rightarrow> Some (Connect_cleanup IOT_MQTT_NO_MEMORY True None False s0)
            | Some c \<Rightarrow>
                let c' = c\<lparr>pNetworkConnection := handle, ownNetworkConnection := own,
                           pSerializer := pMqttSerializer pNetworkInfo\<rparr>;
                    s1 = logEvent EvSetReceiveCallback
                           (s0\<lparr>connection := c', connectionFreed := False\<rparr>)
                in if \<not> network_setReceiveCallback ext
                   then Some (Connect_cleanup IOT_MQTT_NETWORK_ERROR True None True s1)
                   else
                     (case IotMqtt_CreateOperation ext s1 IOT_MQTT_FLAG_WAITABLE None of
                        (s2, Inl st) \<Rightarrow> Some (Connect_cleanup st True None True s2)
                      | (s2, Inr op) \<Rightarrow>
                          let s3 = updateOperation op (\<lambda>x. x\<lparr>operation := IOT_MQTT_CONNECT\<rparr>) s2;
                              (st, s4) =
                                (case pPreviousSubscriptions pConnectInfo of
                                   Some subs \<Rightarrow> IotMqtt_AddSubscriptions ext s3 2 subs
                                 | None \<Rightarrow> (IOT_MQTT_SUCCESS, s3))
                          in if st \<noteq> IOT_MQTT_SUCCESS
                             then Some (Connect_cleanup st True (Some op) True s4)
                             else Connect_send ext s4 op pConnectInfo timeoutMs)))"

text \<open>
  \<open>IotMqtt_Connect\<close>. The validator is asked about \<open>pConnectInfo\<close> as it is passed; a
  \<open>NULL\<close> that it lets through is dereferenced by the next line (\<open>None\<close>).
\<close>

definition IotMqtt_Connect ::
  "externals \<Rightarrow> mqttState \<Rightarrow> IotMqttNetworkInfo_t option \<Rightarrow>
   IotMqttConnectInfo_t option \<Rightarrow> 64 word \<Rightarrow> (IotMqttError_t \<times> mqttState \<times> bool) option" where
  "IotMqtt_Connect ext s pNetworkInfo pConnectInfo timeoutMs =
     (case pNetworkInfo of
        None \<Rightarrow> Some (Connect_cleanup IOT_MQTT_BAD_PARAMETER False None False s)
      | Some networkInfo \<Rightarrow>
          if \<not> IotMqtt_ValidateConnect ext pConnectInfo
          then Some (Connect_cleanup IOT_MQTT_BAD_PARAMETER False None False s)
          else
            (case pConnectInfo of
               None \<Rightarrow> None
             | Some connectInfo \<Rightarrow>
                 if \<not> Connect_willValid ext connectInfo
                 then Some (Connect_cleanup IOT_MQTT_BAD_PARAMETER False None False s)
                 else if \<not> Connect_previousSubscriptionsValid ext connectInfo
                 then Some (Connect_cleanup IOT_MQTT_BAD_PARAMETER False None False s)
                 else Connect_establish ext s networkInfo connectInfo timeoutMs))"

section \<open>The conditions and traces the properties speak of\<close>

text \<open>
  A call to \<open>IotMqtt_Publish\<close> validates and schedules its send job successfully when the
  parameters pass the checks, the operation is allocated, the chosen serializer returns
  SUCCESS and the task pool takes the job.
\<close>

definition Publish_scheduled ::
  "externals \<Rightarrow> mqttState \<Rightarrow> IotMqttPublishInfo_t \<Rightarrow> 32 word \<Rightarrow> nat option \<Rightarrow>
   IotMqttReference_t option \<Rightarrow> bool" where
  "Publish_scheduled ext s pPublishInfo flags pCallbackInfo pPublishRef \<longleftrightarrow>
     Publish_parametersValid ext s pPublishInfo flags pCallbackInfo pPublishRef
     \<and> IotMqtt_MallocOperation ext
     \<and> fst (chooseSerializer (IotMqtt_SerializePublish ext) (pSerializer (connection s))
               serialize_publish pPublishInfo) = IOT_MQTT_SUCCESS
     \<and> IotTaskPool_Schedule ext"

text \<open>
  The steps that make and send a packet: the creation of the operation, its
  serialization and the submission of its send job.
\<close>

fun isSendStep :: "event \<Rightarrow> bool" where
  "isSendStep (EvCreateOperation _) = True"
| "isSendStep (EvSerialize _ _) = True"
| "isSendStep (EvScheduleOperation _ _) = True"
| "isSendStep _ = False"

text \<open>A call that only adds events with a given property to the trace.\<close>

definition logsOnly :: "(event \<Rightarrow> bool) \<Rightarrow> mqttState \<Rightarrow> mqttState \<Rightarrow> bool" where
  "logsOnly P s s' \<longleftrightarrow> (\<exists>new. events s' = events s @ new \<and> list_all P new)"

text \<open>
  A SUBSCRIBE call inserts its entries and then fails to schedule when its parameters
  pass the checks, the operation and the subscriptions are allocated, the chosen
  serializer returns SUCCESS with the packet identifier \<open>packetId\<close>, and the task pool
  refuses the send job.
\<close>

definition Subscribe_scheduleFails ::
  "externals \<Rightarrow> mqttState \<Rightarrow> IotMqttSubscription_t list \<Rightarrow> 32 word \<Rightarrow>
   IotMqttReference_t option \<Rightarrow> 16 word \<Rightarrow> bool" where
  "Subscribe_scheduleFails ext s subs flags pSubscribeRef packetId \<longleftrightarrow>
     IotMqtt_ValidateSubscriptionList ext IOT_MQTT_SUBSCRIBE (awsIotMqttMode (connection s)) subs
     \<and> \<not> (flags AND IOT_MQTT_FLAG_WAITABLE = IOT_MQTT_FLAG_WAITABLE \<and> pSubscribeRef = None)
     \<and> IotMqtt_MallocOperation ext
     \<and> fst (chooseSerializer (IotMqtt_SerializeSubscribe ext) (pSerializer (connection s))
               serialize_subscribe subs) = IOT_MQTT_SUCCESS
     \<and> snd (snd (snd (chooseSerializer (IotMqtt_SerializeSubscribe ext)
                           (pSerializer (connection s)) serialize_subscribe subs))) = packetId
     \<and> IotMqtt_MallocSubscription ext
     \<and> \<not> IotTaskPool_Schedule ext"

text \<open>
  The caller's reference of the operation \<open>op\<close> was given up between two states: the
  reference count of the operation is one less, and the operation is gone from the store
  when that made the count 0.
\<close>

definition releasedOnce :: "mqttState \<Rightarrow> nat \<Rightarrow> mqttState \<Rightarrow> bool" where
  "releasedOnce before op after \<longleftrightarrow>
     (case operations before op of
        None \<Rightarrow> False
      | Some x \<Rightarrow>
          if operationReferences x - 1 = 0 then operations after op = None
          else operations after op = Some (x\<lparr>operationReferences := operationReferences x - 1\<rparr>))"

section \<open>A stub platform and example states\<close>

text \<open>
  A platform on which every allocation, mutex and job submission succeeds, the default
  serializers return two-byte packets with packet identifier 1, the validators accept
  what is there, a reference is valid when its operation is waitable, and a job can be
  cancelled while it is scheduled. The AWS keep-alive limits are the 30 and 1200 seconds
  of the AWS IoT service. A wait on a semaphore finds the operation completed: the send
  job ran, set the status SUCCESS and released its reference.
\<close>

definition stubExternals :: externals where
  "stubExternals =
     \<lparr>AWS_IOT_MQTT_SERVER_MIN_KEEPALIVE = 30, AWS_IOT_MQTT_SERVER_MAX_KEEPALIVE = 1200,
      IotMqtt_MallocConnection = True, IotMqtt_MallocOperation = True,
      IotMqtt_MallocSubscription = True,
      IotMutex_Create_referencesMutex = True, IotMutex_Create_subscriptionMutex = True,
      IotMqtt_SerializeConnect = (\<lambda>_. (IOT_MQTT_SUCCESS, Some [16, 0], 2)),
      IotMqtt_SerializePublish = (\<lambda>_. (IOT_MQTT_SUCCESS, Some [48, 0], 2, 1, Some 0)),
      IotMqtt_SerializeSubscribe = (\<lambda>_. (IOT_MQTT_SUCCESS, Some [130, 0], 2, 1)),
      IotMqtt_SerializeUnsubscribe = (\<lambda>_. (IOT_MQTT_SUCCESS, Some [162, 0], 2, 1)),
      IotMqtt_SerializePingreq = (IOT_MQTT_SUCCESS, Some [192, 0], 2),
      IotMqtt_SerializeDisconnect = (IOT_MQTT_SUCCESS, Some [224, 0], 2),
      IotMqtt_ValidateConnect = (\<lambda>pConnectInfo. pConnectInfo \<noteq> None),
      IotMqtt_ValidatePublish = (\<lambda>_ _. True),
      IotMqtt_ValidateSubscriptionList = (\<lambda>_ _ subs. subs \<noteq> []),
      IotMqtt_ValidateReference =
        (\<lambda>x. operationFlags x AND IOT_MQTT_FLAG_WAITABLE = IOT_MQTT_FLAG_WAITABLE),
      IotTaskPool_Schedule = True, IotTaskPool_ScheduleDeferred = True,
      IotTaskPool_TryCancel =
        (\<lambda>op s. case operations s op of None \<Rightarrow> False | Some x \<Rightarrow> jobScheduled x),
      IotSemaphore_TimedWait =
        (\<lambda>op _ s. (True, updateOperation op
                             (\<lambda>x. x\<lparr>status := IOT_MQTT_SUCCESS, jobScheduled := False,
                                     operationReferences := operationReferences x - 1\<rparr>) s)),
      network_create = Some 7, network_setReceiveCallback = True\<rparr>"

text \<open>The same platform with a peer that never answers: every wait times out.\<close>

definition silentExternals :: externals where
  "silentExternals = stubExternals\<lparr>IotSemaphore_TimedWait := (\<lambda>_ _ s. (False, s))\<rparr>"

text \<open>The same platform with a task pool that refuses every job.\<close>

definition busyExternals :: externals where
  "busyExternals = stubExternals\<lparr>IotTaskPool_Schedule := False\<rparr>"

definition stubNetworkInfo :: IotMqttNetworkInfo_t where
  "stubNetworkInfo =
     \<lparr>createNetworkConnection = True, ni_pNetworkConnection = None, pMqttSerializer = None\<rparr>"

text \<open>
  A state before any connection was made, and the state of an established connection
  without keep-alive that only its user references.
\<close>

definition emptyState :: mqttState where
  "emptyState =
     \<lparr>connection = zeroedConnection, connectionFreed = True, operations = (\<lambda>_. None),
      nextOperation = 0, events = []\<rparr>"

definition idleState :: mqttState where
  "idleState =
     \<lparr>connection = zeroedConnection\<lparr>references := 1, pNetworkConnection := Some 7,
                                      ownNetworkConnection := True\<rparr>,
      connectionFreed = False, operations = (\<lambda>_. None), nextOperation = 0, events = []\<rparr>"

text \<open>A connection with a keep-alive of 60 seconds, as \<open>_createMqttConnection\<close> makes it.\<close>

definition keepAliveConnection :: mqttConnection where
  "keepAliveConnection =
     zeroedConnection\<lparr>awsIotMqttMode := True, references := 2, keepAliveMs := 60000,
       nextKeepAliveMs := 60000, keepAliveJob := True, pPingreqPacket := Some [192, 0],
       pingreqPacketSize := 2\<rparr>"

definition keepAliveState :: mqttState where
  "keepAliveState = idleState\<lparr>connection := keepAliveConnection\<rparr>"

text \<open>A connect info that carries a will message with a payload of \<open>n\<close> bytes.\<close>

definition willMessage :: "nat \<Rightarrow> IotMqttPublishInfo_t" where
  "willMessage n = \<lparr>qos = IOT_MQTT_QOS_0, pTopicName = ''will'', payloadLength = n,
                     retryMs = 0, retryLimit = 0\<rparr>"

definition connectInfoWithWill :: "nat \<Rightarrow> IotMqttConnectInfo_t" where
  "connectInfoWithWill n =
     \<lparr>ci_awsIotMqttMode = False, cleanSession = True, pPreviousSubscriptions = None,
      pWillInfo = Some (willMessage n), keepAliveSeconds = 60\<rparr>"

text \<open>A small message to publish at a given quality of service.\<close>

definition telemetry :: "IotMqttQos_t \<Rightarrow> IotMqttPublishInfo_t" where
  "telemetry q = \<lparr>qos = q, pTopicName = ''sensor/temperature'', payloadLength = 4,
                   retryMs = 0, retryLimit = 0\<rparr>"

text \<open>A single subscription to a topic filter, and a table that holds it.\<close>

definition subscriptionTo :: "string \<Rightarrow> IotMqttQos_t \<Rightarrow> IotMqttSubscription_t" where
  "subscriptionTo topic q = \<lparr>sub_qos = q, pTopicFilter = topic, callback = 5\<rparr>"

definition subscribedState :: "string \<Rightarrow> IotMqttQos_t \<Rightarrow> 16 word \<Rightarrow> mqttState" where
  "subscribedState topic q packetId =
     idleState\<lparr>connection := (connection idleState)
       \<lparr>subscriptionList :=
          [\<lparr>topicFilter = topic, requestedQos = q, subscriptionCallback = 5,
            subscriptionPacketIdentifier = packetId, subscriptionReferences = 0,
            unsubscribed = False\<rparr>]\<rparr>\<rparr>"

text \<open>
  A connection with one operation in its send queue, of the given kind, flags and
  reference count, whose job is scheduled; the connection is referenced by its user and by
  the operation.
\<close>

definition pendingOperation :: "IotMqttOperationType_t \<Rightarrow> 32 word \<Rightarrow> int \<Rightarrow> mqttOperation" where
  "pendingOperation kind flags refs =
     \<lparr>operation = kind, operationFlags = flags, operationReferences = refs,
      status = IOT_MQTT_STATUS_PENDING, pMqttPacket = Some [130, 0], packetSize = 2,
      packetIdentifier = 1, pPacketIdentifierHigh = None, retryLimitOp = 0,
      retryNextPeriod = 0, notifyCallback = None, jobScheduled = True\<rparr>"

definition pendingState :: "IotMqttOperationType_t \<Rightarrow> 32 word \<Rightarrow> int \<Rightarrow> mqttState" where
  "pendingState kind flags refs =
     idleState\<lparr>connection := (connection idleState)\<lparr>references := 2, pendingProcessing := [0]\<rparr>,
                operations := (\<lambda>_. None)(0 \<mapsto> pendingOperation kind flags refs),
                nextOperation := 1\<rparr>"

text \<open>
  An established connection that lost its transport (the disconnected flag is set) and
  that only its user references; and an established connection that a running
  subscription callback references too.
\<close>

definition lostState :: mqttState where
  "lostState = idleState\<lparr>connection := (connection idleState)\<lparr>disconnected := True\<rparr>\<rparr>"

definition sharedState :: mqttState where
  "sharedState = idleState\<lparr>connection := (connection idleState)\<lparr>references := 2\<rparr>\<rparr>"

text \<open>
  A step that makes or sends a packet is taken with the subscription table \<open>table\<close>.
\<close>

fun sendStepSees :: "mqttSubscription list \<Rightarrow> event \<Rightarrow> bool" where
  "sendStepSees table (EvCreateOperation t) = (t = table)"
| "sendStepSees table (EvSerialize _ t) = (t = table)"
| "sendStepSees table (EvScheduleOperation _ t) = (t = table)"
| "sendStepSees table _ = True"

text \<open>A connection with three subscriptions, to the topic filters a/b, c/d and e/f.\<close>

definition subscribedTo :: "string \<Rightarrow> mqttSubscription" where
  "subscribedTo topic =
     \<lparr>topicFilter = topic, requestedQos = IOT_MQTT_QOS_1, subscriptionCallback = 5,
      subscriptionPacketIdentifier = 3, subscriptionReferences = 0, unsubscribed = False\<rparr>"

definition threeSubscriptionsState :: mqttState where
  "threeSubscriptionsState =
     idleState\<lparr>connection := (connection idleState)
       \<lparr>subscriptionList := [subscribedTo ''a/b'', subscribedTo ''c/d'', subscribedTo ''e/f'']\<rparr>\<rparr>"

text \<open>
  A PUBLISH serializer installed by the user that returns STATUS\_PENDING and writes no
  packet, and an established connection that uses it.
\<close>

definition pendingPublishSerializer :: IotMqttSerializer_t where
  "pendingPublishSerializer =
     \<lparr>serialize_connect = None,
      serialize_publish = Some (\<lambda>_. (IOT_MQTT_STATUS_PENDING, None, 0, 0, None)),
      serialize_subscribe = None, serialize_unsubscribe = None, serialize_pingreq = None,
      serialize_disconnect = None\<rparr>"

definition overriddenState :: mqttState where
  "overriddenState =
     idleState\<lparr>connection := (connection idleState)\<lparr>pSerializer := Some pendingPublishSerializer\<rparr>\<rparr>"

text \<open>
  What \<open>_mqttOperation_tryDestroy\<close> is to leave of an operation: nothing of an operation
  that is not in the store; the operation as it is when the task pool cannot cancel its
  job; nothing when the job is cancelled and held the last reference; otherwise the
  operation without the reference of the job. The second function tells whether the
  operation is destroyed.
\<close>

definition afterTryDestroy :: "externals \<Rightarrow> mqttState \<Rightarrow> nat \<Rightarrow> mqttOperation option" where
  "afterTryDestroy ext s op =
     (case operations s op of
        None \<Rightarrow> None
      | Some x \<Rightarrow>
          if \<not> IotTaskPool_TryCancel ext op s then Some x
          else if operationReferences x - 1 = 0 then None
          else Some (x\<lparr>operationReferences := operationReferences x - 1, jobScheduled := False\<rparr>))"

definition destroyedByTryDestroy :: "externals \<Rightarrow> mqttState \<Rightarrow> nat \<Rightarrow> bool" where
  "destroyedByTryDestroy ext s op \<longleftrightarrow>
     IotTaskPool_TryCancel ext op s
     \<and> (case operations s op of None \<Rightarrow> False | Some x \<Rightarrow> operationReferences x - 1 = 0)"

text \<open>
  A connection that lost its transport with an operation in each queue: operation 0, whose
  job is scheduled and holds its only reference, and operation 1, whose job runs and
  cannot be cancelled. Operation 2 was taken off the queues before. The connection is
  referenced by its user and by the two queued operations.
\<close>

definition lostQueuedState :: mqttState where
  "lostQueuedState =
     idleState\<lparr>connection := (connection idleState)
                  \<lparr>disconnected := True, references := 3, pendingProcessing := [0],
                    pendingResponse := [1]\<rparr>,
                operations :=
                  (\<lambda>_. None)
                    (0 \<mapsto> pendingOperation IOT_MQTT_PUBLISH_TO_SERVER 0 1,
                     1 \<mapsto> (pendingOperation IOT_MQTT_SUBSCRIBE 0 1)\<lparr>jobScheduled := False\<rparr>,
                     2 \<mapsto> pendingOperation IOT_MQTT_UNSUBSCRIBE 0 1),
                nextOperation := 3\<rparr>"

section \<open>Properties of the static allocator\<close>

lemma FindFree_loop_found:
  assumes "i \<le> k" "0 \<le> i" "k < limit" "nat k < length pInUse"
    and "\<not> pInUse ! nat k"
    and "\<forall>j. i \<le> j \<and> j < k \<longrightarrow> pInUse ! nat j"
  shows "FindFree_loop pInUse limit i = Some (pInUse[nat k := True], k)"
  using assms
proof (induction pInUse limit i rule: FindFree_loop.induct)
  case (1 pInUse limit i)
  show ?case
  proof (cases "i = k")
    case True
    with "1.prems" show ?thesis by simp
  next
    case False
    with "1.prems" have lt: "i < k" by simp
    with "1.prems" have used: "pInUse ! nat i" by simp
    from lt "1.prems" have inrange: "i < limit" "\<not> (i < 0 \<or> int (length pInUse) \<le> i)"
      by auto
    have "FindFree_loop pInUse limit (i + 1) = Some (pInUse[nat k := True], k)"
      using "1.IH" [OF inrange(1) inrange(2)] used lt "1.prems" by simp
    with inrange used show ?thesis by simp
  qed
qed

lemma FindFree_loop_none:
  assumes "0 \<le> i" "nat limit \<le> length pInUse"
    and "\<forall>j. i \<le> j \<and> j < limit \<longrightarrow> pInUse ! nat j"
  shows "FindFree_loop pInUse limit i = Some (pInUse, -1)"
  using assms
proof (induction pInUse limit i rule: FindFree_loop.induct)
  case (1 pInUse limit i)
  show ?case
  proof (cases "i < limit")
    case False
    then show ?thesis by simp
  next
    case True
    with "1.prems" have inrange: "\<not> (i < 0 \<or> int (length pInUse) \<le> i)" by auto
    from True "1.prems" have used: "pInUse ! nat i" by simp
    have "FindFree_loop pInUse limit (i + 1) = Some (pInUse, -1)"
      using "1.IH" [OF True inrange] used "1.prems" by simp
    with True inrange used show ?thesis by simp
  qed
qed

text \<open>
  Claim C10. For a flag array with at least \<open>limit\<close> flags and \<open>limit \<ge> 0\<close>:
  when \<open>k\<close> is the smallest index below \<open>limit\<close> whose flag is false,
  \<open>IotStaticMemory_FindFree\<close> returns \<open>k\<close> and the array with exactly the flag \<open>k\<close>
  set (every other flag, and the length, unchanged); when every flag below \<open>limit\<close> is
  true it returns \<open>-1\<close> and the array as it was.
\<close>

theorem FindFree_smallest_free:
  assumes "0 \<le> limit" and "nat limit \<le> length pInUse"
  shows "(k < nat limit \<and> \<not> pInUse ! k \<and> (\<forall>j<k. pInUse ! j) \<longrightarrow>
            IotStaticMemory_FindFree pInUse limit = Some (pInUse[k := True], int k))
       \<and> ((\<forall>j<nat limit. pInUse ! j) \<longrightarrow>
            IotStaticMemory_FindFree pInUse limit = Some (pInUse, -1))"
proof (intro conjI impI)
  assume h: "k < nat limit \<and> \<not> pInUse ! k \<and> (\<forall>j<k. pInUse ! j)"
  have prev: "\<forall>j. 0 \<le> j \<and> j < int k \<longrightarrow> pInUse ! nat j"
  proof (intro allI impI)
    fix j :: int
    assume "0 \<le> j \<and> j < int k"
    then have "nat j < k" by linarith
    with h show "pInUse ! nat j" by blast
  qed
  have "FindFree_loop pInUse limit 0 = Some (pInUse[nat (int k) := True], int k)"
    using h assms prev by (intro FindFree_loop_found) auto
  then show "IotStaticMemory_FindFree pInUse limit = Some (pInUse[k := True], int k)"
    by (simp add: IotStaticMemory_FindFree_def)
next
  assume h: "\<forall>j<nat limit. pInUse ! j"
  have all: "\<forall>j. 0 \<le> j \<and> j < limit \<longrightarrow> pInUse ! nat j"
  proof (intro allI impI)
    fix j :: int
    assume "0 \<le> j \<and> j < limit"
    then have "nat j < nat limit" by linarith
    with h show "pInUse ! nat j" by blast
  qed
  show "IotStaticMemory_FindFree pInUse limit = Some (pInUse, -1)"
    unfolding IotStaticMemory_FindFree_def
    using assms all by (intro FindFree_loop_none) auto
qed

theorem FindFree_smallest_free_witness:
  "IotStaticMemory_FindFree [True, True, False, True, False] 5
      = Some ([True, True, True, True, False], 2)
   \<and> IotStaticMemory_FindFree [True, True, True] 3 = Some ([True, True, True], -1)"
proof -
  have h1: "(2::nat) < nat 5 \<and> \<not> [True, True, False, True, False] ! 2
      \<and> (\<forall>j<2. [True, True, False, True, False] ! j)"
    by (simp add: less_2_cases_iff)
  have h2: "\<forall>j<nat 3. [True, True, True] ! j"
    by (auto simp: less_Suc_eq numeral_3_eq_3)
  have a: "IotStaticMemory_FindFree [True, True, False, True, False] 5
      = Some ([True, True, False, True, False][2 := True], int 2)"
    using FindFree_smallest_free [of 5 "[True, True, False, True, False]" 2] h1 by simp
  have b: "IotStaticMemory_FindFree [True, True, True] 3 = Some ([True, True, True], -1)"
    using FindFree_smallest_free [of 3 "[True, True, True]" 0] h2 by simp
  from a b show ?thesis by (simp add: numeral_2_eq_2)
qed

section \<open>Properties of the keep-alive\<close>

lemma keepAliveMs_nonzero:
  assumes "k \<noteq> 0"
  shows "(word_of_nat (unat (k :: 16 word) * 1000) :: 32 word) \<noteq> 0"
proof -
  have "unat k < 2 ^ 16" using unsigned_less [of k] by simp
  then have lt: "unat k * 1000 < 2 ^ 32" by simp
  from assms have "unat k \<noteq> 0" by (simp add: unat_eq_0)
  then have pos: "unat k * 1000 \<noteq> 0" by simp
  have gen: "\<And>n. n < 2 ^ 32 \<Longrightarrow> unat (word_of_nat n :: 32 word) = n"
    by (simp add: unat_of_nat)
  from gen [OF lt] pos show ?thesis by (metis unat_0)
qed

lemma createKeepAliveJob_success:
  assumes "createKeepAliveJob ext ni k c = (True, c')"
  shows "references c' = references c + 1 \<and> keepAliveJob c'
    \<and> keepAliveMs c' = word_of_nat (unat k * 1000)"
  using assms
  by (auto simp: createKeepAliveJob_def Let_def split: prod.splits if_splits)

lemma createMqttConnection_references:
  assumes "createMqttConnection ext aws ni k = Some c"
  shows "references c = 1 + (if keepAliveMs c \<noteq> 0 then 1 else 0)
     \<and> (keepAliveJob c \<longleftrightarrow> keepAliveMs c \<noteq> 0)"
proof (cases "adjustKeepAlive ext aws k = 0")
  case True
  with assms show ?thesis
    by (auto simp: createMqttConnection_def Let_def zeroedConnection_def split: if_splits)
next
  case False
  with assms obtain c0 where
    job: "createKeepAliveJob ext ni (adjustKeepAlive ext aws k) c0 = (True, c)"
    and c0: "references c0 = 1"
    by (auto simp: createMqttConnection_def Let_def zeroedConnection_def
        split: if_splits prod.splits bool.splits)
  from createKeepAliveJob_success [OF job] c0 keepAliveMs_nonzero [OF False]
  show ?thesis by simp
qed

lemma destroyMqttConnection_keepAlive:
  "references (connection (destroyMqttConnection s))
      = references (connection s) - (if keepAliveMs (connection s) \<noteq> 0 then 1 else 0)
   \<and> keepAliveMs (connection (destroyMqttConnection s)) = 0
   \<and> (keepAliveMs (connection s) \<noteq> 0 \<longrightarrow>
        pPingreqPacket (connection (destroyMqttConnection s)) = None
        \<and> pingreqPacketSize (connection (destroyMqttConnection s)) = 0)"
  by (simp add: destroyMqttConnection_def Let_def)

text \<open>
  Claim C1 says that in AWS mode a keep-alive of 0 seconds becomes the maximum. The source
  compares with the minimum first: whenever the minimum is positive, 0 is below it and
  becomes the minimum, and the branch \<open>keepAliveSeconds == 0\<close> that would set the
  maximum is never reached.
\<close>

theorem adjustKeepAlive_zero_becomes_minimum:
  "0 < AWS_IOT_MQTT_SERVER_MIN_KEEPALIVE ext \<Longrightarrow>
     adjustKeepAlive ext True 0 = word_of_int (AWS_IOT_MQTT_SERVER_MIN_KEEPALIVE ext)"
  by (simp add: adjustKeepAlive_def)

theorem adjustKeepAlive_zero_becomes_minimum_witness:
  "adjustKeepAlive stubExternals True 0 = 30
   \<and> adjustKeepAlive stubExternals True 0 \<noteq> 1200
   \<and> map_option keepAliveMs (createMqttConnection stubExternals True stubNetworkInfo 0) = Some 30000"
  using adjustKeepAlive_zero_becomes_minimum [of stubExternals]
  by (simp add: createMqttConnection_def stubExternals_def stubNetworkInfo_def
      createKeepAliveJob_def chooseSerializer_def zeroedConnection_def)

text \<open>
  Claim C9. The keep-alive holds exactly one reference of the connection while
  \<open>keepAliveMs\<close> is not 0. \<open>_createKeepAliveJob\<close>, called as \<open>_createMqttConnection\<close>
  calls it (with an interval that is not 0), adds one to \<open>references\<close> when it succeeds
  and leaves \<open>keepAliveMs\<close> nonzero; a connection that \<open>_createMqttConnection\<close> returns
  has a keep-alive job iff its \<open>keepAliveMs\<close> is not 0, and one reference more than the
  first if so; \<open>_destroyMqttConnection\<close> takes one from \<open>references\<close> iff
  \<open>keepAliveMs\<close> is not 0 on entry, and zeroes the keep-alive fields.
\<close>

theorem keepAlive_holds_one_reference:
  "(keepAliveSecs \<noteq> 0 \<and> createKeepAliveJob ext pNetworkInfo keepAliveSecs c = (True, c') \<longrightarrow>
       references c' = references c + 1 \<and> keepAliveMs c' \<noteq> 0 \<and> keepAliveJob c')
   \<and> (createMqttConnection ext awsMode pNetworkInfo secs = Some new \<longrightarrow>
       (keepAliveJob new \<longleftrightarrow> keepAliveMs new \<noteq> 0) \<and>
       references new = 1 + (if keepAliveMs new \<noteq> 0 then 1 else 0))
   \<and> references (connection (destroyMqttConnection s))
       = references (connection s) - (if keepAliveMs (connection s) \<noteq> 0 then 1 else 0)
   \<and> keepAliveMs (connection (destroyMqttConnection s)) = 0
   \<and> (keepAliveMs (connection s) \<noteq> 0 \<longrightarrow>
        pPingreqPacket (connection (destroyMqttConnection s)) = None
        \<and> pingreqPacketSize (connection (destroyMqttConnection s)) = 0)"
proof (intro conjI impI)
  assume h: "keepAliveSecs \<noteq> 0 \<and> createKeepAliveJob ext pNetworkInfo keepAliveSecs c = (True, c')"
  then have job: "createKeepAliveJob ext pNetworkInfo keepAliveSecs c = (True, c')" by simp
  from createKeepAliveJob_success [OF job]
  show "references c' = references c + 1" and "keepAliveJob c'" by simp_all
  from createKeepAliveJob_success [OF job] keepAliveMs_nonzero [of keepAliveSecs] h
  show "keepAliveMs c' \<noteq> 0" by simp
next
  assume "createMqttConnection ext awsMode pNetworkInfo secs = Some new"
  from createMqttConnection_references [OF this]
  show "keepAliveJob new \<longleftrightarrow> keepAliveMs new \<noteq> 0"
    and "references new = 1 + (if keepAliveMs new \<noteq> 0 then 1 else 0)" by simp_all
next
  show "references (connection (destroyMqttConnection s))
       = references (connection s) - (if keepAliveMs (connection s) \<noteq> 0 then 1 else 0)"
    and "keepAliveMs (connection (destroyMqttConnection s)) = 0"
    using destroyMqttConnection_keepAlive [of s] by simp_all
next
  assume "keepAliveMs (connection s) \<noteq> 0"
  with destroyMqttConnection_keepAlive [of s]
  show "pPingreqPacket (connection (destroyMqttConnection s)) = None"
    and "pingreqPacketSize (connection (destroyMqttConnection s)) = 0" by simp_all
qed

theorem keepAlive_holds_one_reference_witness:
  "createKeepAliveJob stubExternals stubNetworkInfo 60
       (zeroedConnection\<lparr>awsIotMqttMode := True, references := 1\<rparr>) = (True, keepAliveConnection)
   \<and> createMqttConnection stubExternals True stubNetworkInfo 60 = Some keepAliveConnection
   \<and> references keepAliveConnection = 2 \<and> keepAliveMs keepAliveConnection = 60000
   \<and> keepAliveJob keepAliveConnection
   \<and> references (connection (destroyMqttConnection keepAliveState)) = 1
   \<and> keepAliveMs (connection (destroyMqttConnection keepAliveState)) = 0
   \<and> pPingreqPacket (connection (destroyMqttConnection keepAliveState)) = None
   \<and> pingreqPacketSize (connection (destroyMqttConnection keepAliveState)) = 0
   \<and> references (connection (destroyMqttConnection idleState)) = 1"
proof -
  have job: "createKeepAliveJob stubExternals stubNetworkInfo 60
       (zeroedConnection\<lparr>awsIotMqttMode := True, references := 1\<rparr>) = (True, keepAliveConnection)"
    by (simp add: createKeepAliveJob_def stubExternals_def stubNetworkInfo_def
        chooseSerializer_def zeroedConnection_def keepAliveConnection_def)
  have new: "createMqttConnection stubExternals True stubNetworkInfo 60 = Some keepAliveConnection"
    by (simp add: createMqttConnection_def adjustKeepAlive_def createKeepAliveJob_def
        stubExternals_def stubNetworkInfo_def chooseSerializer_def zeroedConnection_def
        keepAliveConnection_def)
  have ms: "keepAliveMs (connection keepAliveState) = 60000"
      "references (connection keepAliveState) = 2"
    by (simp_all add: keepAliveState_def keepAliveConnection_def)
  have kc: "keepAliveMs keepAliveConnection = 60000" "references keepAliveConnection = 2"
      "keepAliveJob keepAliveConnection"
    by (simp_all add: keepAliveConnection_def)
  have idle: "keepAliveMs (connection idleState) = 0" "references (connection idleState) = 1"
    by (simp_all add: idleState_def zeroedConnection_def)
  from keepAlive_holds_one_reference [where keepAliveSecs = 60 and ext = stubExternals
      and pNetworkInfo = stubNetworkInfo
      and c = "zeroedConnection\<lparr>awsIotMqttMode := True, references := 1\<rparr>"
      and c' = keepAliveConnection and awsMode = True and secs = 60
      and new = keepAliveConnection and s = keepAliveState]
    keepAlive_holds_one_reference [where s = idleState]
    job new ms idle kc
  show ?thesis by simp
qed

section \<open>Properties of CONNECT and PUBLISH\<close>

lemma Connect_cleanup_nothing [simp]:
  "Connect_cleanup IOT_MQTT_BAD_PARAMETER False None False s = (IOT_MQTT_BAD_PARAMETER, s, False)"
  by (simp add: Connect_cleanup_def)

text \<open>
  Claim C4. When the connect info carries a will message, a payload longer than 65535
  bytes makes \<open>IotMqtt_Connect\<close> return BAD\_PARAMETER with the state untouched
  (no transport, no connection object, no operation, output parameter not set),
  whatever the other arguments are; a payload of exactly 65535 bytes that the publish
  validator accepts passes the check of the will message, and the call goes on to
  establish the connection when the other checks pass too.
\<close>

theorem Connect_will_payload_limit:
  assumes "pWillInfo connectInfo = Some will"
  shows "(payloadLength will > 65535 \<longrightarrow>
            IotMqtt_Connect ext s pNetworkInfo (Some connectInfo) timeoutMs
              = Some (IOT_MQTT_BAD_PARAMETER, s, False))
       \<and> (payloadLength will = 65535
            \<and> IotMqtt_ValidatePublish ext (ci_awsIotMqttMode connectInfo) will \<longrightarrow>
            Connect_willValid ext connectInfo
            \<and> (IotMqtt_ValidateConnect ext (Some connectInfo)
                 \<and> Connect_previousSubscriptionsValid ext connectInfo \<longrightarrow>
                IotMqtt_Connect ext s (Some networkInfo) (Some connectInfo) timeoutMs
                  = Connect_establish ext s networkInfo connectInfo timeoutMs))"
proof (intro conjI impI)
  assume big: "payloadLength will > 65535"
  with assms have "\<not> Connect_willValid ext connectInfo"
    by (simp add: Connect_willValid_def UINT16_MAX_def)
  then show "IotMqtt_Connect ext s pNetworkInfo (Some connectInfo) timeoutMs
      = Some (IOT_MQTT_BAD_PARAMETER, s, False)"
    by (simp add: IotMqtt_Connect_def split: option.splits)
next
  assume h: "payloadLength will = 65535
      \<and> IotMqtt_ValidatePublish ext (ci_awsIotMqttMode connectInfo) will"
  with assms show valid: "Connect_willValid ext connectInfo"
    by (simp add: Connect_willValid_def UINT16_MAX_def)
  assume "IotMqtt_ValidateConnect ext (Some connectInfo)
      \<and> Connect_previousSubscriptionsValid ext connectInfo"
  with valid show "IotMqtt_Connect ext s (Some networkInfo) (Some connectInfo) timeoutMs
      = Connect_establish ext s networkInfo connectInfo timeoutMs"
    by (simp add: IotMqtt_Connect_def)
qed

text \<open>The definitions that evaluate a run on the stub platform.\<close>

lemmas stub_platform =
  chooseSerializer_def zeroedConnection_def IotMqtt_CreateOperation_def
  IotMqtt_ScheduleOperation_def IotMqtt_DecrementOperationReferences_def
  IotMqtt_DestroyOperation_def IotMqtt_DecrementConnectionReferences_def
  destroyMqttConnection_def updateOperation_def logEvent_def stubExternals_def
  stubNetworkInfo_def emptyState_def idleState_def IOT_MQTT_FLAG_WAITABLE_def Let_def

theorem Connect_will_payload_limit_witness:
  "IotMqtt_Connect stubExternals emptyState (Some stubNetworkInfo)
       (Some (connectInfoWithWill 65536)) 1000 = Some (IOT_MQTT_BAD_PARAMETER, emptyState, False)
   \<and> Connect_willValid stubExternals (connectInfoWithWill 65535)
   \<and> map_option fst (IotMqtt_Connect stubExternals emptyState (Some stubNetworkInfo)
       (Some (connectInfoWithWill 65535)) 1000) = Some IOT_MQTT_SUCCESS"
proof -
  have will: "\<And>n. pWillInfo (connectInfoWithWill n) = Some (willMessage n)"
    by (simp add: connectInfoWithWill_def)
  have len: "\<And>n. payloadLength (willMessage n) = n"
    by (simp add: willMessage_def)
  have ok: "IotMqtt_ValidatePublish stubExternals
        (ci_awsIotMqttMode (connectInfoWithWill 65535)) (willMessage 65535)"
      "IotMqtt_ValidateConnect stubExternals (Some (connectInfoWithWill 65535))"
      "Connect_previousSubscriptionsValid stubExternals (connectInfoWithWill 65535)"
    by (simp_all add: stubExternals_def Connect_previousSubscriptionsValid_def
        connectInfoWithWill_def)
  have run: "map_option fst (Connect_establish stubExternals emptyState stubNetworkInfo
        (connectInfoWithWill 65535) 1000) = Some IOT_MQTT_SUCCESS"
    by (simp add: Connect_establish_def Connect_send_def Connect_cleanup_def
        createMqttConnection_def adjustKeepAlive_def createKeepAliveJob_def
        IotMqtt_Wait_def Wait_release_def connectInfoWithWill_def stub_platform)
  from Connect_will_payload_limit [OF will [of 65536], of stubExternals emptyState
      "Some stubNetworkInfo" 1000 stubNetworkInfo]
    Connect_will_payload_limit [OF will [of 65535], of stubExternals emptyState
      "Some stubNetworkInfo" 1000 stubNetworkInfo]
    len ok run
  show ?thesis by simp
qed

lemma Publish_cleanup_bad_parameter:
  "Publish_cleanup pPublishInfo IOT_MQTT_BAD_PARAMETER None s = (IOT_MQTT_BAD_PARAMETER, s)"
  by (simp add: Publish_cleanup_def)

text \<open>
  Claim C5. For a publish info of QoS 0, \<open>IotMqtt_Publish\<close> called with a callback
  record or with the WAITABLE flag returns BAD\_PARAMETER and leaves the state as it was
  (no operation is created, nothing is logged); a reference output pointer alone changes
  nothing: the call returns the status and state it returns for a \<open>NULL\<close> pointer,
  and what the pointer holds is not written.
\<close>

theorem Publish_qos0_notification_rejected:
  assumes "qos pPublishInfo = IOT_MQTT_QOS_0"
  shows "(pCallbackInfo \<noteq> None \<or> flags AND IOT_MQTT_FLAG_WAITABLE \<noteq> 0 \<longrightarrow>
            IotMqtt_Publish ext s pPublishInfo flags pCallbackInfo pPublishRef
              = ((IOT_MQTT_BAD_PARAMETER, s), pPublishRef))
       \<and> (flags AND IOT_MQTT_FLAG_WAITABLE = 0 \<longrightarrow>
            IotMqtt_Publish ext s pPublishInfo flags None (Some r)
              = (fst (IotMqtt_Publish ext s pPublishInfo flags None None), Some r))"
proof (intro conjI impI)
  assume "pCallbackInfo \<noteq> None \<or> flags AND IOT_MQTT_FLAG_WAITABLE \<noteq> 0"
  with assms have "\<not> Publish_parametersValid ext s pPublishInfo flags pCallbackInfo pPublishRef"
    by (auto simp: Publish_parametersValid_def)
  then show "IotMqtt_Publish ext s pPublishInfo flags pCallbackInfo pPublishRef
      = ((IOT_MQTT_BAD_PARAMETER, s), pPublishRef)"
    by (simp add: IotMqtt_Publish_def Publish_cleanup_bad_parameter)
next
  assume nw: "flags AND IOT_MQTT_FLAG_WAITABLE = 0"
  then have notw: "flags AND IOT_MQTT_FLAG_WAITABLE \<noteq> IOT_MQTT_FLAG_WAITABLE"
    by (simp add: IOT_MQTT_FLAG_WAITABLE_def)
  have valid: "Publish_parametersValid ext s pPublishInfo flags None (Some r)
      = Publish_parametersValid ext s pPublishInfo flags None None"
    using notw by (simp add: Publish_parametersValid_def)
  have send: "\<And>s1 op. Publish_send ext s1 op pPublishInfo (Some r)
      = (fst (Publish_send ext s1 op pPublishInfo None), Some r)"
    using assms by (simp add: Publish_send_def Let_def split: prod.splits)
  show "IotMqtt_Publish ext s pPublishInfo flags None (Some r)
      = (fst (IotMqtt_Publish ext s pPublishInfo flags None None), Some r)"
    unfolding IotMqtt_Publish_def valid
    by (simp add: send split: prod.splits sum.splits)
qed

theorem Publish_qos0_notification_rejected_witness:
  "IotMqtt_Publish stubExternals idleState (telemetry IOT_MQTT_QOS_0) 0 (Some 3) None
      = ((IOT_MQTT_BAD_PARAMETER, idleState), None)
   \<and> IotMqtt_Publish stubExternals idleState (telemetry IOT_MQTT_QOS_0) IOT_MQTT_FLAG_WAITABLE
        None (Some None) = ((IOT_MQTT_BAD_PARAMETER, idleState), Some None)
   \<and> fst (fst (IotMqtt_Publish stubExternals idleState (telemetry IOT_MQTT_QOS_0) 0 None
        (Some None))) = IOT_MQTT_SUCCESS
   \<and> snd (IotMqtt_Publish stubExternals idleState (telemetry IOT_MQTT_QOS_0) 0 None
        (Some None)) = Some None"
proof -
  have q: "qos (telemetry IOT_MQTT_QOS_0) = IOT_MQTT_QOS_0" by (simp add: telemetry_def)
  have run: "fst (fst (IotMqtt_Publish stubExternals idleState (telemetry IOT_MQTT_QOS_0) 0 None
        None)) = IOT_MQTT_SUCCESS"
    by (simp add: IotMqtt_Publish_def Publish_parametersValid_def Publish_send_def
        Publish_cleanup_def telemetry_def stub_platform)
  from Publish_qos0_notification_rejected [OF q, of "Some 3" 0 stubExternals idleState None None]
    Publish_qos0_notification_rejected [OF q, of None IOT_MQTT_FLAG_WAITABLE stubExternals
      idleState "Some None" None]
    Publish_qos0_notification_rejected [OF q, of None 0 stubExternals idleState None None]
    run
  show ?thesis by (simp add: IOT_MQTT_FLAG_WAITABLE_def)
qed

lemma Publish_cleanup_status:
  "fst (Publish_cleanup pPublishInfo st pOp s)
     = (if st = IOT_MQTT_SUCCESS \<and> qos pPublishInfo \<noteq> IOT_MQTT_QOS_0
        then IOT_MQTT_STATUS_PENDING else st)"
  by (simp add: Publish_cleanup_def split: option.splits)

lemma CreateOperation_result:
  "IotMqtt_CreateOperation ext s flags cb = (s1, r) \<Longrightarrow>
     pSerializer (connection s1) = pSerializer (connection s)
     \<and> (IotMqtt_MallocOperation ext \<longrightarrow> r = Inr (nextOperation s))
     \<and> (\<not> IotMqtt_MallocOperation ext \<longrightarrow> r = Inl IOT_MQTT_NO_MEMORY)"
  by (auto simp: IotMqtt_CreateOperation_def logEvent_def Let_def split: if_splits)

lemma Publish_send_status:
  "fst (fst (Publish_send ext s op pPublishInfo pPublishRef))
     = (let st = fst (chooseSerializer (IotMqtt_SerializePublish ext) (pSerializer (connection s))
                        serialize_publish pPublishInfo)
        in if st \<noteq> IOT_MQTT_SUCCESS then st
           else if \<not> IotTaskPool_Schedule ext then IOT_MQTT_SCHEDULING_ERROR
           else if qos pPublishInfo \<noteq> IOT_MQTT_QOS_0 then IOT_MQTT_STATUS_PENDING
           else IOT_MQTT_SUCCESS)"
  by (simp add: Publish_send_def Publish_cleanup_status IotMqtt_ScheduleOperation_def Let_def
      split: prod.splits)

lemma Publish_status:
  "fst (fst (IotMqtt_Publish ext s pPublishInfo flags pCallbackInfo pPublishRef))
     = (if \<not> Publish_parametersValid ext s pPublishInfo flags pCallbackInfo pPublishRef
          then IOT_MQTT_BAD_PARAMETER
        else if \<not> IotMqtt_MallocOperation ext then IOT_MQTT_NO_MEMORY
        else let st = fst (chooseSerializer (IotMqtt_SerializePublish ext)
                             (pSerializer (connection s)) serialize_publish pPublishInfo)
             in if st \<noteq> IOT_MQTT_SUCCESS then st
                else if \<not> IotTaskPool_Schedule ext then IOT_MQTT_SCHEDULING_ERROR
                else if qos pPublishInfo \<noteq> IOT_MQTT_QOS_0 then IOT_MQTT_STATUS_PENDING
                else IOT_MQTT_SUCCESS)"
proof -
  obtain s1 r where cr: "IotMqtt_CreateOperation ext s flags pCallbackInfo = (s1, r)"
    by (cases "IotMqtt_CreateOperation ext s flags pCallbackInfo")
  from CreateOperation_result [OF cr] show ?thesis
    by (cases "IotMqtt_MallocOperation ext")
       (simp_all add: IotMqtt_Publish_def cr Publish_cleanup_status Publish_send_status)
qed

section \<open>Properties of the trace\<close>

lemma logsOnly_refl [simp]: "logsOnly P s s"
  by (simp add: logsOnly_def)

lemma logsOnly_trans: "logsOnly P s s' \<Longrightarrow> logsOnly P s' s'' \<Longrightarrow> logsOnly P s s''"
  by (auto simp: logsOnly_def)

lemma events_updateOperation [simp]: "events (updateOperation op f s) = events s"
  by (simp add: updateOperation_def)

lemma logsOnly_destroyMqttConnection:
  "logsOnly (\<lambda>e. \<not> isSendStep e) s (destroyMqttConnection s)"
  by (simp add: logsOnly_def destroyMqttConnection_def Let_def)

lemma logsOnly_DecrementConnectionReferences:
  "logsOnly (\<lambda>e. \<not> isSendStep e) s (IotMqtt_DecrementConnectionReferences s)"
  by (simp add: logsOnly_def IotMqtt_DecrementConnectionReferences_def
      destroyMqttConnection_def Let_def)

lemma logsOnly_DestroyOperation:
  "logsOnly (\<lambda>e. \<not> isSendStep e) s (IotMqtt_DestroyOperation s op)"
  by (simp add: logsOnly_def IotMqtt_DestroyOperation_def logEvent_def
      IotMqtt_DecrementConnectionReferences_def destroyMqttConnection_def Let_def)

lemma logsOnly_DecrementOperationReferences:
  "logsOnly (\<lambda>e. \<not> isSendStep e) s (snd (IotMqtt_DecrementOperationReferences ext s op cancelJob))"
  by (simp add: logsOnly_def IotMqtt_DecrementOperationReferences_def logEvent_def Let_def
      split: option.splits)

lemma logsOnly_tryDestroy:
  "logsOnly (\<lambda>e. \<not> isSendStep e) s (mqttOperation_tryDestroy ext s op)"
proof -
  obtain b s' where d: "IotMqtt_DecrementOperationReferences ext s op True = (b, s')"
    by (cases "IotMqtt_DecrementOperationReferences ext s op True")
  from logsOnly_DecrementOperationReferences [of s ext op True] d
  have one: "logsOnly (\<lambda>e. \<not> isSendStep e) s s'" by simp
  show ?thesis
  proof (cases b)
    case True
    with d logsOnly_trans [OF one logsOnly_DestroyOperation [of s' op]]
    show ?thesis by (simp add: mqttOperation_tryDestroy_def)
  next
    case False
    with d one show ?thesis by (simp add: mqttOperation_tryDestroy_def)
  qed
qed

lemma logsOnly_foldl_tryDestroy:
  "logsOnly (\<lambda>e. \<not> isSendStep e) s (foldl (mqttOperation_tryDestroy ext) s ops)"
proof (induction ops arbitrary: s)
  case Nil
  show ?case by simp
next
  case (Cons op ops)
  from logsOnly_trans [OF logsOnly_tryDestroy [of s ext op] Cons.IH]
  show ?case by simp
qed

section \<open>Properties of SUBSCRIBE\<close>

lemma Subscribe_rollback_result:
  assumes "Subscribe_scheduleFails ext s subs flags pSubscribeRef packetId"
    and "references (connection s) \<noteq> 0"
  shows "fst (fst (IotMqtt_Subscribe ext s subs flags pCallbackInfo pSubscribeRef))
           = IOT_MQTT_SCHEDULING_ERROR"
    and "snd (IotMqtt_Subscribe ext s subs flags pCallbackInfo pSubscribeRef)
           = (if pSubscribeRef = None then None else Some IOT_MQTT_REFERENCE_INITIALIZER)"
    and "operations (snd (fst (IotMqtt_Subscribe ext s subs flags pCallbackInfo pSubscribeRef)))
           = (operations s)(nextOperation s := None)"
    and "subscriptionList (connection (snd (fst
            (IotMqtt_Subscribe ext s subs flags pCallbackInfo pSubscribeRef))))
           = removeMatching (\<lambda>sub. subscriptionPacketIdentifier sub = packetId)
               (foldl (addSubscription packetId) (subscriptionList (connection s)) subs)"
    and "references (connection (snd (fst
            (IotMqtt_Subscribe ext s subs flags pCallbackInfo pSubscribeRef))))
           = references (connection s)"
proof -
  from assms(1) obtain pkt size where
    ser: "chooseSerializer (IotMqtt_SerializeSubscribe ext) (pSerializer (connection s))
            serialize_subscribe subs = (IOT_MQTT_SUCCESS, pkt, size, packetId)"
    and rest: "IotMqtt_ValidateSubscriptionList ext IOT_MQTT_SUBSCRIBE
                 (awsIotMqttMode (connection s)) subs"
      "\<not> (flags AND IOT_MQTT_FLAG_WAITABLE = IOT_MQTT_FLAG_WAITABLE \<and> pSubscribeRef = None)"
      "IotMqtt_MallocOperation ext" "IotMqtt_MallocSubscription ext" "\<not> IotTaskPool_Schedule ext"
    by (cases "chooseSerializer (IotMqtt_SerializeSubscribe ext) (pSerializer (connection s))
            serialize_subscribe subs") (auto simp: Subscribe_scheduleFails_def)
  note defs = IotMqtt_Subscribe_def subscriptionCommon_def subscriptionCommon_send_def
    subscriptionCommon_schedule_def subscriptionCommon_cleanup_def IotMqtt_CreateOperation_def
    IotMqtt_AddSubscriptions_def IotMqtt_ScheduleOperation_def
    IotMqtt_RemoveSubscriptionByPacket_def IotMqtt_DestroyOperation_def
    IotMqtt_DecrementConnectionReferences_def updateOperation_def logEvent_def Let_def
  show "fst (fst (IotMqtt_Subscribe ext s subs flags pCallbackInfo pSubscribeRef))
           = IOT_MQTT_SCHEDULING_ERROR"
    using ser rest assms(2) by (simp add: defs)
  show "snd (IotMqtt_Subscribe ext s subs flags pCallbackInfo pSubscribeRef)
           = (if pSubscribeRef = None then None else Some IOT_MQTT_REFERENCE_INITIALIZER)"
    using ser rest assms(2) by (auto simp: defs)
  show "operations (snd (fst (IotMqtt_Subscribe ext s subs flags pCallbackInfo pSubscribeRef)))
           = (operations s)(nextOperation s := None)"
    using ser rest assms(2) by (auto simp: defs)
  show "subscriptionList (connection (snd (fst
            (IotMqtt_Subscribe ext s subs flags pCallbackInfo pSubscribeRef))))
           = removeMatching (\<lambda>sub. subscriptionPacketIdentifier sub = packetId)
               (foldl (addSubscription packetId) (subscriptionList (connection s)) subs)"
    using ser rest assms(2) by (auto simp: defs)
  show "references (connection (snd (fst
            (IotMqtt_Subscribe ext s subs flags pCallbackInfo pSubscribeRef))))
           = references (connection s)"
    using ser rest assms(2) by (auto simp: defs)
qed

lemma addSubscription_fresh:
  assumes "\<forall>old\<in>set t. \<not> sameSubscription new old"
    and "\<forall>x\<in>set extra. subscriptionPacketIdentifier x = packetId \<and> subscriptionReferences x = 0"
  shows "\<exists>extra'. addSubscription packetId (t @ extra) new = t @ extra'
      \<and> (\<forall>x\<in>set extra'. subscriptionPacketIdentifier x = packetId \<and> subscriptionReferences x = 0)"
proof (cases "list_ex (sameSubscription new) (t @ extra)")
  case True
  have keep: "map (\<lambda>old. if sameSubscription new old then old\<lparr>requestedQos := sub_qos new\<rparr> else old) t = t"
    using assms(1) by (intro map_idI) simp
  from True keep have "addSubscription packetId (t @ extra) new
      = t @ map (\<lambda>old. if sameSubscription new old then old\<lparr>requestedQos := sub_qos new\<rparr> else old) extra"
    by (simp add: addSubscription_def)
  moreover have "\<forall>x\<in>set (map (\<lambda>old. if sameSubscription new old
        then old\<lparr>requestedQos := sub_qos new\<rparr> else old) extra).
      subscriptionPacketIdentifier x = packetId \<and> subscriptionReferences x = 0"
    using assms(2) by auto
  ultimately show ?thesis by blast
next
  case False
  then have "addSubscription packetId (t @ extra) new
      = t @ (extra @ [\<lparr>topicFilter = pTopicFilter new, requestedQos = sub_qos new,
                    subscriptionCallback = callback new,
                    subscriptionPacketIdentifier = packetId,
                    subscriptionReferences = 0, unsubscribed = False\<rparr>])"
    by (simp add: addSubscription_def)
  moreover have "\<forall>x\<in>set (extra @ [\<lparr>topicFilter = pTopicFilter new, requestedQos = sub_qos new,
                    subscriptionCallback = callback new,
                    subscriptionPacketIdentifier = packetId,
                    subscriptionReferences = 0, unsubscribed = False\<rparr>]).
      subscriptionPacketIdentifier x = packetId \<and> subscriptionReferences x = 0"
    using assms(2) by auto
  ultimately show ?thesis by blast
qed

lemma foldl_addSubscription_fresh:
  assumes "\<forall>old\<in>set t. \<forall>new\<in>set subs. \<not> sameSubscription new old"
    and "\<forall>x\<in>set extra. subscriptionPacketIdentifier x = packetId \<and> subscriptionReferences x = 0"
  shows "\<exists>extra'. foldl (addSubscription packetId) (t @ extra) subs = t @ extra'
      \<and> (\<forall>x\<in>set extra'. subscriptionPacketIdentifier x = packetId \<and> subscriptionReferences x = 0)"
  using assms
proof (induction subs arbitrary: extra)
  case Nil
  then show ?case by simp
next
  case (Cons new subs)
  from Cons.prems(1) have fresh: "\<forall>old\<in>set t. \<not> sameSubscription new old" by simp
  from addSubscription_fresh [OF fresh Cons.prems(2)] obtain extra1 where
    one: "addSubscription packetId (t @ extra) new = t @ extra1"
    and tagged: "\<forall>x\<in>set extra1. subscriptionPacketIdentifier x = packetId
        \<and> subscriptionReferences x = 0"
    by blast
  from Cons.prems(1) have "\<forall>old\<in>set t. \<forall>new\<in>set subs. \<not> sameSubscription new old" by simp
  from Cons.IH [OF this tagged] one show ?case by simp
qed

lemma removeMatching_append:
  "removeMatching m (xs @ ys) = removeMatching m xs @ removeMatching m ys"
  by (simp add: removeMatching_def)

lemma removeMatching_Nil [simp]: "removeMatching m [] = []"
  by (simp add: removeMatching_def)

lemma removeMatching_Cons:
  "removeMatching m (x # xs) =
     (if m x \<and> subscriptionReferences x = 0 then removeMatching m xs
      else (if m x then x\<lparr>unsubscribed := True\<rparr> else x) # removeMatching m xs)"
  by (simp add: removeMatching_def)

lemma removeMatching_none: "\<forall>x\<in>set xs. \<not> m x \<Longrightarrow> removeMatching m xs = xs"
  by (induction xs) (simp_all add: removeMatching_Cons)

lemma removeMatching_all:
  "\<forall>x\<in>set xs. m x \<and> subscriptionReferences x = 0 \<Longrightarrow> removeMatching m xs = []"
  by (induction xs) (simp_all add: removeMatching_Cons)

lemma removeMatching_by_packet_left:
  assumes "x \<in> set (removeMatching (\<lambda>sub. subscriptionPacketIdentifier sub = packetId) xs)"
    and "subscriptionPacketIdentifier x = packetId"
  shows "unsubscribed x \<and> subscriptionReferences x \<noteq> 0"
proof -
  from assms(1) obtain y where
    kept: "\<not> (subscriptionPacketIdentifier y = packetId \<and> subscriptionReferences y = 0)"
    and x: "x = (if subscriptionPacketIdentifier y = packetId then y\<lparr>unsubscribed := True\<rparr> else y)"
    unfolding removeMatching_def set_map set_filter by blast
  show ?thesis
  proof (cases "subscriptionPacketIdentifier y = packetId")
    case True
    with x have "x = y\<lparr>unsubscribed := True\<rparr>" by simp
    with True kept show ?thesis by simp
  next
    case False
    with x have "x = y" by simp
    with False assms(2) show ?thesis by simp
  qed
qed

lemma rollback_restores_table:
  assumes "\<forall>old\<in>set t. subscriptionPacketIdentifier old \<noteq> packetId
             \<and> (\<forall>new\<in>set subs. \<not> sameSubscription new old)"
  shows "removeMatching (\<lambda>sub. subscriptionPacketIdentifier sub = packetId)
           (foldl (addSubscription packetId) t subs) = t"
proof -
  from assms have fresh: "\<forall>old\<in>set t. \<forall>new\<in>set subs. \<not> sameSubscription new old" by simp
  from foldl_addSubscription_fresh [OF fresh, of "[]" packetId] obtain extra where
    added: "foldl (addSubscription packetId) t subs = t @ extra"
    and tagged: "\<forall>x\<in>set extra. subscriptionPacketIdentifier x = packetId
        \<and> subscriptionReferences x = 0"
    by auto
  from assms have "removeMatching (\<lambda>sub. subscriptionPacketIdentifier sub = packetId) t = t"
    by (intro removeMatching_none) simp
  moreover from tagged
  have "removeMatching (\<lambda>sub. subscriptionPacketIdentifier sub = packetId) extra = []"
    by (intro removeMatching_all) simp
  ultimately show ?thesis by (simp add: added removeMatching_append)
qed

text \<open>
  Claim C7, as the code has it. When a SUBSCRIBE has inserted its entries and the send job
  cannot be scheduled, the call returns SCHEDULING\_ERROR, resets a reference output to
  the initializer, destroys the operation and gives its reference of the connection back,
  and removes the entries tagged with the packet identifier of the operation: the table is
  the table after the insertion with those entries taken out, and an entry with that
  identifier that is still there is a tombstone a callback holds. The table is as it was
  before the call when no entry carried that packet identifier before and no entry of the
  list named a subscription the table already had.
\<close>

theorem Subscribe_schedule_failure_rolls_back:
  assumes "Subscribe_scheduleFails ext s subs flags pSubscribeRef packetId"
    and "references (connection s) \<noteq> 0"
  shows "fst (fst (IotMqtt_Subscribe ext s subs flags pCallbackInfo pSubscribeRef))
           = IOT_MQTT_SCHEDULING_ERROR
       \<and> snd (IotMqtt_Subscribe ext s subs flags pCallbackInfo pSubscribeRef)
           = (if pSubscribeRef = None then None else Some IOT_MQTT_REFERENCE_INITIALIZER)
       \<and> operations (snd (fst (IotMqtt_Subscribe ext s subs flags pCallbackInfo pSubscribeRef)))
           (nextOperation s) = None
       \<and> references (connection (snd (fst
            (IotMqtt_Subscribe ext s subs flags pCallbackInfo pSubscribeRef))))
           = references (connection s)
       \<and> subscriptionList (connection (snd (fst
            (IotMqtt_Subscribe ext s subs flags pCallbackInfo pSubscribeRef))))
           = removeMatching (\<lambda>sub. subscriptionPacketIdentifier sub = packetId)
               (foldl (addSubscription packetId) (subscriptionList (connection s)) subs)
       \<and> (\<forall>sub\<in>set (subscriptionList (connection (snd (fst
               (IotMqtt_Subscribe ext s subs flags pCallbackInfo pSubscribeRef))))).
             subscriptionPacketIdentifier sub = packetId \<longrightarrow>
             unsubscribed sub \<and> subscriptionReferences sub \<noteq> 0)
       \<and> ((\<forall>old\<in>set (subscriptionList (connection s)).
              subscriptionPacketIdentifier old \<noteq> packetId
              \<and> (\<forall>new\<in>set subs. \<not> sameSubscription new old)) \<longrightarrow>
            subscriptionList (connection (snd (fst
               (IotMqtt_Subscribe ext s subs flags pCallbackInfo pSubscribeRef))))
              = subscriptionList (connection s))"
proof -
  note result = Subscribe_rollback_result [OF assms, of pCallbackInfo]
  have tagged: "\<forall>sub\<in>set (subscriptionList (connection (snd (fst
               (IotMqtt_Subscribe ext s subs flags pCallbackInfo pSubscribeRef))))).
             subscriptionPacketIdentifier sub = packetId \<longrightarrow>
             unsubscribed sub \<and> subscriptionReferences sub \<noteq> 0"
    unfolding result(4) using removeMatching_by_packet_left by blast
  have restored: "(\<forall>old\<in>set (subscriptionList (connection s)).
              subscriptionPacketIdentifier old \<noteq> packetId
              \<and> (\<forall>new\<in>set subs. \<not> sameSubscription new old)) \<longrightarrow>
            subscriptionList (connection (snd (fst
               (IotMqtt_Subscribe ext s subs flags pCallbackInfo pSubscribeRef))))
              = subscriptionList (connection s)"
    unfolding result(4) using rollback_restores_table by blast
  have destroyed: "operations (snd (fst (IotMqtt_Subscribe ext s subs flags pCallbackInfo
      pSubscribeRef))) (nextOperation s) = None"
    by (simp add: result(3))
  from result(1) result(2) destroyed result(5) result(4) tagged restored
  show ?thesis by (intro conjI)
qed


theorem Subscribe_schedule_failure_rolls_back_witness:
  "Subscribe_scheduleFails busyExternals (subscribedState ''a/b'' IOT_MQTT_QOS_0 3)
      [subscriptionTo ''c/d'' IOT_MQTT_QOS_1] IOT_MQTT_FLAG_WAITABLE (Some None) 1
   \<and> fst (fst (IotMqtt_Subscribe busyExternals (subscribedState ''a/b'' IOT_MQTT_QOS_0 3)
        [subscriptionTo ''c/d'' IOT_MQTT_QOS_1] IOT_MQTT_FLAG_WAITABLE None (Some None)))
        = IOT_MQTT_SCHEDULING_ERROR
   \<and> snd (IotMqtt_Subscribe busyExternals (subscribedState ''a/b'' IOT_MQTT_QOS_0 3)
        [subscriptionTo ''c/d'' IOT_MQTT_QOS_1] IOT_MQTT_FLAG_WAITABLE None (Some None))
        = Some None
   \<and> subscriptionList (connection (snd (fst (IotMqtt_Subscribe busyExternals
        (subscribedState ''a/b'' IOT_MQTT_QOS_0 3)
        [subscriptionTo ''c/d'' IOT_MQTT_QOS_1] IOT_MQTT_FLAG_WAITABLE None (Some None)))))
        = subscriptionList (connection (subscribedState ''a/b'' IOT_MQTT_QOS_0 3))"
proof -
  have fails: "Subscribe_scheduleFails busyExternals (subscribedState ''a/b'' IOT_MQTT_QOS_0 3)
      [subscriptionTo ''c/d'' IOT_MQTT_QOS_1] IOT_MQTT_FLAG_WAITABLE (Some None) 1"
    by (simp add: Subscribe_scheduleFails_def busyExternals_def subscribedState_def
        subscriptionTo_def stub_platform)
  have live: "references (connection (subscribedState ''a/b'' IOT_MQTT_QOS_0 3)) \<noteq> 0"
    by (simp add: subscribedState_def stub_platform)
  have fresh: "\<forall>old\<in>set (subscriptionList (connection (subscribedState ''a/b'' IOT_MQTT_QOS_0 3))).
      subscriptionPacketIdentifier old \<noteq> 1
      \<and> (\<forall>new\<in>set [subscriptionTo ''c/d'' IOT_MQTT_QOS_1]. \<not> sameSubscription new old)"
    by (simp add: subscribedState_def subscriptionTo_def sameSubscription_def stub_platform)
  note rolled = Subscribe_schedule_failure_rolls_back [OF fails live, of None]
  from rolled have st: "fst (fst (IotMqtt_Subscribe busyExternals
        (subscribedState ''a/b'' IOT_MQTT_QOS_0 3)
        [subscriptionTo ''c/d'' IOT_MQTT_QOS_1] IOT_MQTT_FLAG_WAITABLE None (Some None)))
        = IOT_MQTT_SCHEDULING_ERROR"
    by (rule conjunct1)
  from rolled have ref: "snd (IotMqtt_Subscribe busyExternals
        (subscribedState ''a/b'' IOT_MQTT_QOS_0 3)
        [subscriptionTo ''c/d'' IOT_MQTT_QOS_1] IOT_MQTT_FLAG_WAITABLE None (Some None))
        = (if Some None = (None :: IotMqttReference_t option) then None
           else Some IOT_MQTT_REFERENCE_INITIALIZER)"
    by (rule conjunct2 [THEN conjunct1])
  from rolled fresh have table: "subscriptionList (connection (snd (fst (IotMqtt_Subscribe
        busyExternals (subscribedState ''a/b'' IOT_MQTT_QOS_0 3)
        [subscriptionTo ''c/d'' IOT_MQTT_QOS_1] IOT_MQTT_FLAG_WAITABLE None (Some None)))))
        = subscriptionList (connection (subscribedState ''a/b'' IOT_MQTT_QOS_0 3))"
    by blast
  from ref have ref': "snd (IotMqtt_Subscribe busyExternals
        (subscribedState ''a/b'' IOT_MQTT_QOS_0 3)
        [subscriptionTo ''c/d'' IOT_MQTT_QOS_1] IOT_MQTT_FLAG_WAITABLE None (Some None))
        = Some None"
    by (simp add: IOT_MQTT_REFERENCE_INITIALIZER_def)
  from fails st ref' table show ?thesis by (intro conjI)
qed

text \<open>
  Claim C7 as stated ends with "the subscription table is left as it was before the
  call". Two calls on which it is not: a SUBSCRIBE that names a subscription the table
  already has (its QoS stays updated after the rollback), and a SUBSCRIBE whose packet
  identifier an older entry carries (the rollback removes the older entry too).
\<close>

theorem Subscribe_rollback_table_counterexample:
  "Subscribe_scheduleFails busyExternals (subscribedState ''a/b'' IOT_MQTT_QOS_0 3)
      [subscriptionTo ''a/b'' IOT_MQTT_QOS_1, subscriptionTo ''c/d'' IOT_MQTT_QOS_1] 0 None 1
   \<and> subscriptionList (connection (snd (fst (IotMqtt_Subscribe busyExternals
        (subscribedState ''a/b'' IOT_MQTT_QOS_0 3)
        [subscriptionTo ''a/b'' IOT_MQTT_QOS_1, subscriptionTo ''c/d'' IOT_MQTT_QOS_1] 0 None None))))
        = subscriptionList (connection (subscribedState ''a/b'' IOT_MQTT_QOS_1 3))
   \<and> subscriptionList (connection (subscribedState ''a/b'' IOT_MQTT_QOS_1 3))
        \<noteq> subscriptionList (connection (subscribedState ''a/b'' IOT_MQTT_QOS_0 3))
   \<and> Subscribe_scheduleFails busyExternals (subscribedState ''a/b'' IOT_MQTT_QOS_0 1)
      [subscriptionTo ''c/d'' IOT_MQTT_QOS_1] 0 None 1
   \<and> subscriptionList (connection (snd (fst (IotMqtt_Subscribe busyExternals
        (subscribedState ''a/b'' IOT_MQTT_QOS_0 1) [subscriptionTo ''c/d'' IOT_MQTT_QOS_1] 0
        None None)))) = []
   \<and> subscriptionList (connection (subscribedState ''a/b'' IOT_MQTT_QOS_0 1)) \<noteq> []"
  by (simp add: Subscribe_scheduleFails_def IotMqtt_Subscribe_def subscriptionCommon_def
      subscriptionCommon_send_def subscriptionCommon_schedule_def subscriptionCommon_cleanup_def
      IotMqtt_AddSubscriptions_def IotMqtt_RemoveSubscriptionByPacket_def addSubscription_def
      sameSubscription_def removeMatching_def busyExternals_def subscribedState_def
      subscriptionTo_def stub_platform)

section \<open>Properties of the wait\<close>

lemma operations_DecrementConnectionReferences [simp]:
  "operations (IotMqtt_DecrementConnectionReferences s) = operations s"
  by (simp add: IotMqtt_DecrementConnectionReferences_def destroyMqttConnection_def Let_def)

lemma Wait_release_releasedOnce:
  assumes "operations s op = Some x"
  shows "releasedOnce s op (snd (Wait_release ext st s op))"
    and "fst (Wait_release ext st s op) = st"
  using assms
  by (simp_all add: releasedOnce_def Wait_release_def IotMqtt_DecrementOperationReferences_def
      IotMqtt_DestroyOperation_def logEvent_def Let_def split: bool.splits)

lemma operations_RemoveSubscriptionByPacket [simp]:
  "operations (IotMqtt_RemoveSubscriptionByPacket s packetId) = operations s"
  by (simp add: IotMqtt_RemoveSubscriptionByPacket_def logEvent_def Let_def)

lemma DecrementOperationReferences_cancel:
  assumes "operations s op = Some x"
  shows "operations (snd (IotMqtt_DecrementOperationReferences ext s op True)) op
     = Some (if IotTaskPool_TryCancel ext op s
             then x\<lparr>operationReferences := operationReferences x - 1, jobScheduled := False\<rparr>
             else x)"
  using assms
  by (simp add: IotMqtt_DecrementOperationReferences_def logEvent_def Let_def)

lemma Wait_valid_reference_released:
  assumes "operations s op = Some x" and "IotMqtt_ValidateReference ext x"
    and "IotSemaphore_TimedWait ext op timeoutMs (logEvent (EvSemaphoreTimedWait op) s)
           = (posted, s1)"
    and "operations s1 op = Some x1"
  shows "\<exists>st s' before.
           IotMqtt_Wait ext s (Some op) timeoutMs = Some (st, s')
         \<and> releasedOnce before op s'
         \<and> (disconnected (connection s) \<longrightarrow> st = IOT_MQTT_NETWORK_ERROR \<and> before = s)
         \<and> (\<not> disconnected (connection s) \<and> posted \<longrightarrow> st = status x1 \<and> before = s1)
         \<and> (\<not> disconnected (connection s) \<and> \<not> posted \<longrightarrow>
              st = IOT_MQTT_TIMEOUT
              \<and> map_option operationReferences (operations before op)
                  = Some (operationReferences x1 - (if IotTaskPool_TryCancel ext op s1 then 1 else 0)))"
proof (cases "disconnected (connection s)")
  case True
  with assms(1,2) have "IotMqtt_Wait ext s (Some op) timeoutMs
      = Some (Wait_release ext IOT_MQTT_NETWORK_ERROR s op)"
    by (simp add: IotMqtt_Wait_def)
  with Wait_release_releasedOnce [OF assms(1), of ext IOT_MQTT_NETWORK_ERROR] True
  show ?thesis
    by (intro exI [of _ IOT_MQTT_NETWORK_ERROR]
        exI [of _ "snd (Wait_release ext IOT_MQTT_NETWORK_ERROR s op)"] exI [of _ s])
       (simp add: prod_eq_iff)
next
  case False
  show ?thesis
  proof (cases posted)
    case True
    with False assms have "IotMqtt_Wait ext s (Some op) timeoutMs
        = Some (Wait_release ext (status x1) s1 op)"
      by (simp add: IotMqtt_Wait_def)
    with Wait_release_releasedOnce [OF assms(4), of ext "status x1"] True False
    show ?thesis
      by (intro exI [of _ "status x1"]
          exI [of _ "snd (Wait_release ext (status x1) s1 op)"] exI [of _ s1])
         (simp add: prod_eq_iff)
  next
    case timeout: False
    define s2 where "s2 = snd (IotMqtt_DecrementOperationReferences ext s1 op True)"
    define s3 where "s3 = (if operation x1 = IOT_MQTT_SUBSCRIBE
       then IotMqtt_RemoveSubscriptionByPacket s2 (packetIdentifier x1) else s2)"
    from DecrementOperationReferences_cancel [OF assms(4), of ext]
    have ops3: "operations s3 op
       = Some (if IotTaskPool_TryCancel ext op s1
               then x1\<lparr>operationReferences := operationReferences x1 - 1, jobScheduled := False\<rparr>
               else x1)"
      by (simp add: s3_def s2_def)
    then obtain x3 where x3: "operations s3 op = Some x3" by blast
    from timeout False assms have "IotMqtt_Wait ext s (Some op) timeoutMs
        = Some (Wait_release ext IOT_MQTT_TIMEOUT s3 op)"
      by (simp add: IotMqtt_Wait_def s3_def s2_def case_prod_beta)
    with Wait_release_releasedOnce [OF x3, of ext IOT_MQTT_TIMEOUT] timeout False ops3
    show ?thesis
      by (intro exI [of _ IOT_MQTT_TIMEOUT]
          exI [of _ "snd (Wait_release ext IOT_MQTT_TIMEOUT s3 op)"] exI [of _ s3])
         (simp add: prod_eq_iff)
  qed
qed

text \<open>
  Claim C3, as the code has it. \<open>IotMqtt_Wait\<close> is called with a reference to a live
  operation. When the reference fails the validation, the call returns BAD\_PARAMETER
  and the state is the state of the call: the operation and its reference count are
  untouched. When the reference passes the validation, the call gives up the reference of
  the caller exactly once, at its end, whatever status it returns, and destroys the
  operation when the count became 0: on a disconnected connection it returns
  NETWORK\_ERROR and releases straight from the state of the call; otherwise (the
  operation stays alive over the wait, since the caller holds a reference to it) it
  returns the status of the operation when the semaphore was posted, releasing from the
  state after the wait, and TIMEOUT when it was not, releasing after the attempt to
  cancel the job, which takes the reference of the job when it succeeds.
\<close>

theorem Wait_releases_reference_once:
  assumes "operations s op = Some x"
  shows "(\<not> IotMqtt_ValidateReference ext x \<longrightarrow>
            IotMqtt_Wait ext s (Some op) timeoutMs = Some (IOT_MQTT_BAD_PARAMETER, s))
       \<and> (IotMqtt_ValidateReference ext x \<and> disconnected (connection s) \<longrightarrow>
            (\<exists>s'. IotMqtt_Wait ext s (Some op) timeoutMs = Some (IOT_MQTT_NETWORK_ERROR, s')
                  \<and> releasedOnce s op s'))
       \<and> (\<forall>posted s1 x1.
            IotMqtt_ValidateReference ext x \<and> \<not> disconnected (connection s)
            \<and> IotSemaphore_TimedWait ext op timeoutMs (logEvent (EvSemaphoreTimedWait op) s)
                = (posted, s1)
            \<and> operations s1 op = Some x1 \<longrightarrow>
            (\<exists>st s' before.
                IotMqtt_Wait ext s (Some op) timeoutMs = Some (st, s')
              \<and> releasedOnce before op s'
              \<and> (posted \<longrightarrow> st = status x1 \<and> before = s1)
              \<and> (\<not> posted \<longrightarrow>
                   st = IOT_MQTT_TIMEOUT
                   \<and> map_option operationReferences (operations before op)
                       = Some (operationReferences x1
                                 - (if IotTaskPool_TryCancel ext op s1 then 1 else 0)))))"
proof (intro conjI impI allI)
  assume "\<not> IotMqtt_ValidateReference ext x"
  with assms show "IotMqtt_Wait ext s (Some op) timeoutMs = Some (IOT_MQTT_BAD_PARAMETER, s)"
    by (simp add: IotMqtt_Wait_def)
next
  assume "IotMqtt_ValidateReference ext x \<and> disconnected (connection s)"
  with assms have "IotMqtt_Wait ext s (Some op) timeoutMs
      = Some (Wait_release ext IOT_MQTT_NETWORK_ERROR s op)"
    by (simp add: IotMqtt_Wait_def)
  with Wait_release_releasedOnce [OF assms, of ext IOT_MQTT_NETWORK_ERROR]
  show "\<exists>s'. IotMqtt_Wait ext s (Some op) timeoutMs = Some (IOT_MQTT_NETWORK_ERROR, s')
            \<and> releasedOnce s op s'"
    by (intro exI [of _ "snd (Wait_release ext IOT_MQTT_NETWORK_ERROR s op)"])
       (simp add: prod_eq_iff)
next
  fix posted s1 x1
  assume given: "IotMqtt_ValidateReference ext x \<and> \<not> disconnected (connection s)
      \<and> IotSemaphore_TimedWait ext op timeoutMs (logEvent (EvSemaphoreTimedWait op) s)
          = (posted, s1)
      \<and> operations s1 op = Some x1"
  with Wait_valid_reference_released [OF assms, of ext timeoutMs posted s1 x1]
  obtain st s' before where
    "IotMqtt_Wait ext s (Some op) timeoutMs = Some (st, s')" "releasedOnce before op s'"
    "posted \<longrightarrow> st = status x1 \<and> before = s1"
    "\<not> posted \<longrightarrow> st = IOT_MQTT_TIMEOUT
       \<and> map_option operationReferences (operations before op)
           = Some (operationReferences x1 - (if IotTaskPool_TryCancel ext op s1 then 1 else 0))"
    by blast
  then show "\<exists>st s' before.
                IotMqtt_Wait ext s (Some op) timeoutMs = Some (st, s')
              \<and> releasedOnce before op s'
              \<and> (posted \<longrightarrow> st = status x1 \<and> before = s1)
              \<and> (\<not> posted \<longrightarrow>
                   st = IOT_MQTT_TIMEOUT
                   \<and> map_option operationReferences (operations before op)
                       = Some (operationReferences x1
                                 - (if IotTaskPool_TryCancel ext op s1 then 1 else 0)))"
    by blast
qed

theorem Wait_releases_reference_once_witness:
  "map_option fst (IotMqtt_Wait stubExternals
       (pendingState IOT_MQTT_PUBLISH_TO_SERVER IOT_MQTT_FLAG_WAITABLE 2) (Some 0) 100)
     = Some IOT_MQTT_SUCCESS
   \<and> map_option (\<lambda>r. operations (snd r) 0) (IotMqtt_Wait stubExternals
       (pendingState IOT_MQTT_PUBLISH_TO_SERVER IOT_MQTT_FLAG_WAITABLE 2) (Some 0) 100)
     = Some None
   \<and> map_option fst (IotMqtt_Wait silentExternals
       (pendingState IOT_MQTT_SUBSCRIBE IOT_MQTT_FLAG_WAITABLE 2) (Some 0) 100)
     = Some IOT_MQTT_TIMEOUT
   \<and> map_option (\<lambda>r. operations (snd r) 0) (IotMqtt_Wait silentExternals
       (pendingState IOT_MQTT_SUBSCRIBE IOT_MQTT_FLAG_WAITABLE 2) (Some 0) 100)
     = Some None
   \<and> (\<exists>st s' before. IotMqtt_Wait stubExternals
          (pendingState IOT_MQTT_PUBLISH_TO_SERVER IOT_MQTT_FLAG_WAITABLE 2) (Some 0) 100
            = Some (st, s')
        \<and> releasedOnce before 0 s')
   \<and> IotMqtt_Wait stubExternals (pendingState IOT_MQTT_SUBSCRIBE 0 1) (Some 0) 100
     = Some (IOT_MQTT_BAD_PARAMETER, pendingState IOT_MQTT_SUBSCRIBE 0 1)"
proof -
  note run = IotMqtt_Wait_def Wait_release_def IotMqtt_RemoveSubscriptionByPacket_def
    removeMatching_def pendingState_def pendingOperation_def silentExternals_def stub_platform
  have evaluated:
    "map_option fst (IotMqtt_Wait stubExternals
       (pendingState IOT_MQTT_PUBLISH_TO_SERVER IOT_MQTT_FLAG_WAITABLE 2) (Some 0) 100)
     = Some IOT_MQTT_SUCCESS"
    "map_option (\<lambda>r. operations (snd r) 0) (IotMqtt_Wait stubExternals
       (pendingState IOT_MQTT_PUBLISH_TO_SERVER IOT_MQTT_FLAG_WAITABLE 2) (Some 0) 100)
     = Some None"
    "map_option fst (IotMqtt_Wait silentExternals
       (pendingState IOT_MQTT_SUBSCRIBE IOT_MQTT_FLAG_WAITABLE 2) (Some 0) 100)
     = Some IOT_MQTT_TIMEOUT"
    "map_option (\<lambda>r. operations (snd r) 0) (IotMqtt_Wait silentExternals
       (pendingState IOT_MQTT_SUBSCRIBE IOT_MQTT_FLAG_WAITABLE 2) (Some 0) 100)
     = Some None"
    by (simp_all add: run)
  have live: "operations (pendingState IOT_MQTT_PUBLISH_TO_SERVER IOT_MQTT_FLAG_WAITABLE 2) 0
      = Some (pendingOperation IOT_MQTT_PUBLISH_TO_SERVER IOT_MQTT_FLAG_WAITABLE 2)"
    by (simp add: pendingState_def)
  have valid: "IotMqtt_ValidateReference stubExternals
      (pendingOperation IOT_MQTT_PUBLISH_TO_SERVER IOT_MQTT_FLAG_WAITABLE 2)"
    by (simp add: stubExternals_def pendingOperation_def)
  obtain posted s1 where wait: "IotSemaphore_TimedWait stubExternals 0 100
      (logEvent (EvSemaphoreTimedWait 0)
         (pendingState IOT_MQTT_PUBLISH_TO_SERVER IOT_MQTT_FLAG_WAITABLE 2)) = (posted, s1)"
    by (cases "IotSemaphore_TimedWait stubExternals 0 100
      (logEvent (EvSemaphoreTimedWait 0)
         (pendingState IOT_MQTT_PUBLISH_TO_SERVER IOT_MQTT_FLAG_WAITABLE 2))")
  then have "\<exists>x1. operations s1 0 = Some x1"
    by (auto simp: stubExternals_def updateOperation_def logEvent_def pendingState_def)
  then obtain x1 where live1: "operations s1 0 = Some x1" by blast
  have connected: "\<not> disconnected (connection
      (pendingState IOT_MQTT_PUBLISH_TO_SERVER IOT_MQTT_FLAG_WAITABLE 2))"
    by (simp add: pendingState_def stub_platform)
  from Wait_releases_reference_once [OF live, of stubExternals 100] valid connected wait live1
  have released: "\<exists>st s' before. IotMqtt_Wait stubExternals
          (pendingState IOT_MQTT_PUBLISH_TO_SERVER IOT_MQTT_FLAG_WAITABLE 2) (Some 0) 100
            = Some (st, s')
        \<and> releasedOnce before 0 s'"
    by blast
  have live': "operations (pendingState IOT_MQTT_SUBSCRIBE 0 1) 0
      = Some (pendingOperation IOT_MQTT_SUBSCRIBE 0 1)"
    by (simp add: pendingState_def)
  have refused: "\<not> IotMqtt_ValidateReference stubExternals (pendingOperation IOT_MQTT_SUBSCRIBE 0 1)"
    by (simp add: stubExternals_def pendingOperation_def IOT_MQTT_FLAG_WAITABLE_def)
  from Wait_releases_reference_once [OF live', of stubExternals 100] refused
  have untouched: "IotMqtt_Wait stubExternals (pendingState IOT_MQTT_SUBSCRIBE 0 1) (Some 0) 100
     = Some (IOT_MQTT_BAD_PARAMETER, pendingState IOT_MQTT_SUBSCRIBE 0 1)"
    by blast
  from evaluated released untouched show ?thesis by (intro conjI)
qed

text \<open>
  Claim C3 as stated counts BAD\_PARAMETER among the statuses after which the reference of
  the caller is decremented. A reference to an operation that is not waitable fails the
  validation, and the call returns BAD\_PARAMETER with the state as it was: the reference
  count of the operation is still 1.
\<close>

theorem Wait_bad_parameter_counterexample:
  "IotMqtt_Wait stubExternals (pendingState IOT_MQTT_PUBLISH_TO_SERVER 0 1) (Some 0) 100
     = Some (IOT_MQTT_BAD_PARAMETER, pendingState IOT_MQTT_PUBLISH_TO_SERVER 0 1)
   \<and> map_option operationReferences
        (operations (pendingState IOT_MQTT_PUBLISH_TO_SERVER 0 1) 0) = Some 1
   \<and> \<not> releasedOnce (pendingState IOT_MQTT_PUBLISH_TO_SERVER 0 1) 0
          (pendingState IOT_MQTT_PUBLISH_TO_SERVER 0 1)"
  by (simp add: IotMqtt_Wait_def releasedOnce_def pendingState_def pendingOperation_def
      stubExternals_def IOT_MQTT_FLAG_WAITABLE_def)

section \<open>Properties of DISCONNECT\<close>

lemma tryDestroy_keeps:
  "nextOperation (mqttOperation_tryDestroy ext s op) = nextOperation s"
  "pendingProcessing (connection s) = [] \<Longrightarrow>
     pendingProcessing (connection (mqttOperation_tryDestroy ext s op)) = []"
  "pendingResponse (connection s) = [] \<Longrightarrow>
     pendingResponse (connection (mqttOperation_tryDestroy ext s op)) = []"
  by (simp_all add: mqttOperation_tryDestroy_def IotMqtt_DecrementOperationReferences_def
      IotMqtt_DestroyOperation_def IotMqtt_DecrementConnectionReferences_def
      destroyMqttConnection_def logEvent_def Let_def split: option.splits bool.splits)

lemma foldl_tryDestroy_keeps:
  "nextOperation (foldl (mqttOperation_tryDestroy ext) s ops) = nextOperation s"
  "pendingProcessing (connection s) = [] \<Longrightarrow>
     pendingProcessing (connection (foldl (mqttOperation_tryDestroy ext) s ops)) = []"
  "pendingResponse (connection s) = [] \<Longrightarrow>
     pendingResponse (connection (foldl (mqttOperation_tryDestroy ext) s ops)) = []"
  by (induction ops arbitrary: s) (simp_all add: tryDestroy_keeps)

lemma DecrementConnectionReferences_keeps:
  "nextOperation (IotMqtt_DecrementConnectionReferences s) = nextOperation s"
  "pendingProcessing (connection (IotMqtt_DecrementConnectionReferences s))
     = pendingProcessing (connection s)"
  "pendingResponse (connection (IotMqtt_DecrementConnectionReferences s))
     = pendingResponse (connection s)"
  by (simp_all add: IotMqtt_DecrementConnectionReferences_def destroyMqttConnection_def Let_def)

lemma Disconnect_release_queues:
  "nextOperation (Disconnect_release ext s) = nextOperation s"
  "pendingProcessing (connection (Disconnect_release ext s)) = []"
  "pendingResponse (connection (Disconnect_release ext s)) = []"
  by (simp_all add: Disconnect_release_def removeAll_pendingProcessing_def
      removeAll_pendingResponse_def DecrementConnectionReferences_keeps foldl_tryDestroy_keeps
      IotMqtt_CloseNetworkConnection_def logEvent_def Let_def)

lemma Disconnect_release_events:
  "\<exists>more. events (Disconnect_release ext s) = events s @ EvNetworkClose # more
      \<and> list_all (\<lambda>e. \<not> isSendStep e) more"
proof -
  define s1 where "s1 = IotMqtt_CloseNetworkConnection s"
  have closed: "events s1 = events s @ [EvNetworkClose]"
    by (simp add: s1_def IotMqtt_CloseNetworkConnection_def logEvent_def Let_def)
  have one: "logsOnly (\<lambda>e. \<not> isSendStep e) s1 (removeAll_pendingProcessing ext s1)"
    unfolding removeAll_pendingProcessing_def
    by (rule logsOnly_trans [OF _ logsOnly_foldl_tryDestroy]) (simp add: logsOnly_def)
  have two: "logsOnly (\<lambda>e. \<not> isSendStep e) (removeAll_pendingProcessing ext s1)
      (removeAll_pendingResponse ext (removeAll_pendingProcessing ext s1))"
    unfolding removeAll_pendingResponse_def
    by (rule logsOnly_trans [OF _ logsOnly_foldl_tryDestroy]) (simp add: logsOnly_def)
  have "logsOnly (\<lambda>e. \<not> isSendStep e) s1 (Disconnect_release ext s)"
    unfolding Disconnect_release_def s1_def [symmetric]
    by (rule logsOnly_trans [OF logsOnly_trans [OF one two]
          logsOnly_DecrementConnectionReferences])
  then obtain more where "events (Disconnect_release ext s) = events s1 @ more"
    and "list_all (\<lambda>e. \<not> isSendStep e) more"
    by (auto simp: logsOnly_def)
  with closed show ?thesis by simp
qed

lemma Disconnect_release_idle:
  assumes "pendingProcessing (connection s) = []" and "pendingResponse (connection s) = []"
    and "keepAliveMs (connection s) = 0"
  shows "references (connection (Disconnect_release ext s)) = references (connection s) - 1"
  using assms
  by (simp add: Disconnect_release_def removeAll_pendingProcessing_def
      removeAll_pendingResponse_def IotMqtt_CloseNetworkConnection_def
      IotMqtt_DecrementConnectionReferences_def destroyMqttConnection_def logEvent_def Let_def)

lemma tryDestroy_step:
  assumes "keepAliveMs (connection s) = 0"
  shows "operations (mqttOperation_tryDestroy ext s op)
           = (operations s)(op := afterTryDestroy ext s op)"
    and "references (connection (mqttOperation_tryDestroy ext s op))
           = references (connection s) - (if destroyedByTryDestroy ext s op then 1 else 0)"
    and "connectionFreed (mqttOperation_tryDestroy ext s op)
           \<longleftrightarrow> connectionFreed s
               \<or> (destroyedByTryDestroy ext s op \<and> references (connection s) = 1)"
    and "keepAliveMs (connection (mqttOperation_tryDestroy ext s op)) = 0"
  using assms
  by (auto simp: mqttOperation_tryDestroy_def IotMqtt_DecrementOperationReferences_def
      IotMqtt_DestroyOperation_def IotMqtt_DecrementConnectionReferences_def
      destroyMqttConnection_def afterTryDestroy_def destroyedByTryDestroy_def
      logEvent_def Let_def fun_eq_iff split: option.splits bool.splits)

lemma tryDestroy_local:
  assumes "\<forall>op t t'. operations t op = operations t' op \<longrightarrow>
             IotTaskPool_TryCancel ext op t = IotTaskPool_TryCancel ext op t'"
    and "operations t op = operations t' op"
  shows "afterTryDestroy ext t op = afterTryDestroy ext t' op"
    and "destroyedByTryDestroy ext t op = destroyedByTryDestroy ext t' op"
proof -
  from assms have "IotTaskPool_TryCancel ext op t = IotTaskPool_TryCancel ext op t'" by blast
  with assms(2) show "afterTryDestroy ext t op = afterTryDestroy ext t' op"
    and "destroyedByTryDestroy ext t op = destroyedByTryDestroy ext t' op"
    by (simp_all add: afterTryDestroy_def destroyedByTryDestroy_def split: option.splits)
qed

lemma foldl_tryDestroy_result:
  assumes local: "\<forall>op t t'. operations t op = operations t' op \<longrightarrow>
             IotTaskPool_TryCancel ext op t = IotTaskPool_TryCancel ext op t'"
    and "distinct ops" and "keepAliveMs (connection s) = 0"
  shows "operations (foldl (mqttOperation_tryDestroy ext) s ops) op
           = (if op \<in> set ops then afterTryDestroy ext s op else operations s op)
       \<and> references (connection (foldl (mqttOperation_tryDestroy ext) s ops))
           = references (connection s)
               - int (length (filter (destroyedByTryDestroy ext s) ops))
       \<and> (connectionFreed (foldl (mqttOperation_tryDestroy ext) s ops)
           \<longleftrightarrow> connectionFreed s
               \<or> (0 < references (connection s)
                  \<and> references (connection s)
                      \<le> int (length (filter (destroyedByTryDestroy ext s) ops))))
       \<and> keepAliveMs (connection (foldl (mqttOperation_tryDestroy ext) s ops)) = 0"
  using assms(2,3)
proof (induction ops arbitrary: s)
  case Nil
  then show ?case by auto
next
  case (Cons a ops)
  define s1 where "s1 = mqttOperation_tryDestroy ext s a"
  note step = tryDestroy_step [OF Cons.prems(2), of ext a, folded s1_def]
  from Cons.prems(1) have fresh: "a \<notin> set ops" and rest: "distinct ops" by simp_all
  note IH = Cons.IH [OF rest step(4)]
  have same: "\<And>b. b \<noteq> a \<Longrightarrow> operations s1 b = operations s b"
    by (simp add: step(1))
  have same_after: "\<And>b. b \<noteq> a \<Longrightarrow> afterTryDestroy ext s1 b = afterTryDestroy ext s b"
    and same_destroyed:
      "\<And>b. b \<noteq> a \<Longrightarrow> destroyedByTryDestroy ext s1 b = destroyedByTryDestroy ext s b"
    using tryDestroy_local [OF local same] by blast+
  have count: "filter (destroyedByTryDestroy ext s1) ops = filter (destroyedByTryDestroy ext s) ops"
    using fresh by (intro filter_cong refl same_destroyed) auto
  have ops: "operations (foldl (mqttOperation_tryDestroy ext) s (a # ops)) op
           = (if op \<in> set (a # ops) then afterTryDestroy ext s op else operations s op)"
  proof (cases "op = a")
    case True
    with IH fresh show ?thesis by (simp add: s1_def [symmetric] step(1))
  next
    case False
    with IH same [OF False] same_after [OF False] show ?thesis
      by (simp add: s1_def [symmetric])
  qed
  have refs: "references (connection (foldl (mqttOperation_tryDestroy ext) s (a # ops)))
           = references (connection s)
               - int (length (filter (destroyedByTryDestroy ext s) (a # ops)))"
    using IH by (simp add: s1_def [symmetric] count step(2))
  have freed: "connectionFreed (foldl (mqttOperation_tryDestroy ext) s (a # ops))
           \<longleftrightarrow> connectionFreed s
               \<or> (0 < references (connection s)
                  \<and> references (connection s)
                      \<le> int (length (filter (destroyedByTryDestroy ext s) (a # ops))))"
  proof -
    from IH have "connectionFreed (foldl (mqttOperation_tryDestroy ext) s (a # ops))
        \<longleftrightarrow> connectionFreed s1
            \<or> (0 < references (connection s1)
               \<and> references (connection s1)
                   \<le> int (length (filter (destroyedByTryDestroy ext s) ops)))"
      by (simp add: s1_def [symmetric] count)
    then show ?thesis
      unfolding step(2,3) by (cases "destroyedByTryDestroy ext s a") auto
  qed
  have ka: "keepAliveMs (connection (foldl (mqttOperation_tryDestroy ext) s (a # ops))) = 0"
    using IH by (simp add: s1_def [symmetric])
  from ops refs freed ka show ?case by (intro conjI)
qed

lemma foldl_tryDestroy_pendingResponse:
  assumes "set ops \<inter> set (pendingResponse (connection s)) = {}"
  shows "pendingResponse (connection (foldl (mqttOperation_tryDestroy ext) s ops))
     = pendingResponse (connection s)"
  using assms
proof (induction ops arbitrary: s)
  case Nil
  show ?case by simp
next
  case (Cons a ops)
  from Cons.prems have "a \<notin> set (pendingResponse (connection s))" by simp
  then have step: "pendingResponse (connection (mqttOperation_tryDestroy ext s a))
      = pendingResponse (connection s)"
    by (simp add: mqttOperation_tryDestroy_def IotMqtt_DecrementOperationReferences_def
        IotMqtt_DestroyOperation_def IotMqtt_DecrementConnectionReferences_def
        destroyMqttConnection_def logEvent_def Let_def
        split: option.splits bool.splits)
  with Cons.prems Cons.IH [of "mqttOperation_tryDestroy ext s a"] show ?case by simp
qed

lemma Disconnect_release_result:
  assumes local: "\<forall>op t t'. operations t op = operations t' op \<longrightarrow>
             IotTaskPool_TryCancel ext op t = IotTaskPool_TryCancel ext op t'"
    and dist: "distinct (pendingProcessing (connection s) @ pendingResponse (connection s))"
  defines "r \<equiv> references (connection s) - (if keepAliveMs (connection s) \<noteq> 0 then 1 else 0)"
    and "d \<equiv> int (length (filter (destroyedByTryDestroy ext s)
                 (pendingProcessing (connection s) @ pendingResponse (connection s))))"
  shows "operations (Disconnect_release ext s) op
           = (if op \<in> set (pendingProcessing (connection s) @ pendingResponse (connection s))
              then afterTryDestroy ext s op else operations s op)"
    and "references (connection (Disconnect_release ext s)) = r - d - 1"
    and "connectionFreed (Disconnect_release ext s)
           \<longleftrightarrow> connectionFreed s \<or> (0 < r \<and> r \<le> d + 1)"
proof -
  define pp where "pp = pendingProcessing (connection s)"
  define pr where "pr = pendingResponse (connection s)"
  define sA where "sA = (IotMqtt_CloseNetworkConnection s)
      \<lparr>connection := (connection (IotMqtt_CloseNetworkConnection s))\<lparr>pendingProcessing := []\<rparr>\<rparr>"
  define s1 where "s1 = foldl (mqttOperation_tryDestroy ext) sA pp"
  define sB where "sB = s1\<lparr>connection := (connection s1)\<lparr>pendingResponse := []\<rparr>\<rparr>"
  define s2 where "s2 = foldl (mqttOperation_tryDestroy ext) sB pr"
  from dist have dpp: "distinct pp" and dpr: "distinct pr" and disj: "set pp \<inter> set pr = {}"
    by (simp_all add: pp_def pr_def)
  have A: "operations sA = operations s" "references (connection sA) = r"
      "connectionFreed sA = connectionFreed s" "keepAliveMs (connection sA) = 0"
      "pendingResponse (connection sA) = pr"
    by (simp_all add: sA_def r_def pr_def IotMqtt_CloseNetworkConnection_def logEvent_def Let_def)
  have first: "removeAll_pendingProcessing ext (IotMqtt_CloseNetworkConnection s) = s1"
    by (simp add: removeAll_pendingProcessing_def s1_def sA_def pp_def
        IotMqtt_CloseNetworkConnection_def logEvent_def Let_def)
  from disj A(5) have "pendingResponse (connection s1) = pr"
    unfolding s1_def by (simp add: foldl_tryDestroy_pendingResponse)
  then have second: "removeAll_pendingResponse ext s1 = s2"
    by (simp add: removeAll_pendingResponse_def s2_def sB_def)
  have release: "Disconnect_release ext s = IotMqtt_DecrementConnectionReferences s2"
    by (simp add: Disconnect_release_def first second)
  define d1 where "d1 = int (length (filter (destroyedByTryDestroy ext s) pp))"
  define d2 where "d2 = int (length (filter (destroyedByTryDestroy ext s) pr))"
  have d: "d = d1 + d2" by (simp add: d_def d1_def d2_def pp_def pr_def)
  have localA: "\<And>b. afterTryDestroy ext sA b = afterTryDestroy ext s b"
      "\<And>b. destroyedByTryDestroy ext sA b = destroyedByTryDestroy ext s b"
    using tryDestroy_local [OF local, of sA _ s] by (simp_all add: A(1))
  have countA: "destroyedByTryDestroy ext sA = destroyedByTryDestroy ext s"
    by (rule ext) (rule localA(2))
  from foldl_tryDestroy_result [OF local dpp A(4), folded s1_def]
  have one: "\<And>b. operations s1 b = (if b \<in> set pp then afterTryDestroy ext s b else operations s b)"
      "references (connection s1) = r - d1"
      "connectionFreed s1 \<longleftrightarrow> connectionFreed s \<or> (0 < r \<and> r \<le> d1)"
      "keepAliveMs (connection s1) = 0"
    by (simp_all add: localA(1) countA A d1_def)
  have B: "operations sB = operations s1" "references (connection sB) = r - d1"
      "connectionFreed sB = connectionFreed s1" "keepAliveMs (connection sB) = 0"
    by (simp_all add: sB_def one)
  have sameB: "\<And>b. b \<in> set pr \<Longrightarrow> operations sB b = operations s b"
    using disj by (auto simp: B(1) one(1))
  have localB: "\<And>b. b \<in> set pr \<Longrightarrow> afterTryDestroy ext sB b = afterTryDestroy ext s b"
      "\<And>b. b \<in> set pr \<Longrightarrow> destroyedByTryDestroy ext sB b = destroyedByTryDestroy ext s b"
    using tryDestroy_local [OF local sameB] by blast+
  have countB: "filter (destroyedByTryDestroy ext sB) pr = filter (destroyedByTryDestroy ext s) pr"
    by (intro filter_cong refl localB)
  from foldl_tryDestroy_result [OF local dpr B(4), folded s2_def]
  have two: "\<And>b. operations s2 b = (if b \<in> set pr then afterTryDestroy ext sB b else operations sB b)"
      "references (connection s2) = r - d1 - d2"
      "connectionFreed s2 \<longleftrightarrow> connectionFreed s1 \<or> (0 < r - d1 \<and> r - d1 \<le> d2)"
      "keepAliveMs (connection s2) = 0"
    by (simp_all add: countB B d2_def)
  have nonneg: "0 \<le> d1" "0 \<le> d2" by (simp_all add: d1_def d2_def)
  show "operations (Disconnect_release ext s) op
           = (if op \<in> set (pendingProcessing (connection s) @ pendingResponse (connection s))
              then afterTryDestroy ext s op else operations s op)"
    using disj localB(1) [of op]
    by (auto simp: release two(1) B(1) one(1) pp_def [symmetric] pr_def [symmetric])
  show "references (connection (Disconnect_release ext s)) = r - d - 1"
    using two(2,4)
    by (simp add: release d IotMqtt_DecrementConnectionReferences_def destroyMqttConnection_def
        Let_def)
  have "connectionFreed (Disconnect_release ext s) \<longleftrightarrow> connectionFreed s2 \<or> r - d1 - d2 = 1"
    using two(2)
    by (auto simp: release IotMqtt_DecrementConnectionReferences_def destroyMqttConnection_def
        Let_def)
  with two(3) one(3) nonneg d
  show "connectionFreed (Disconnect_release ext s)
           \<longleftrightarrow> connectionFreed s \<or> (0 < r \<and> r \<le> d + 1)"
    by auto
qed

lemma Disconnect_release_empty_queues:
  assumes "pendingProcessing (connection s) = []" and "pendingResponse (connection s) = []"
    and "keepAliveMs (connection s) = 0"
  shows "operations (Disconnect_release ext s) = operations s"
    and "connectionFreed (Disconnect_release ext s)
           \<longleftrightarrow> connectionFreed s \<or> references (connection s) = 1"
  using assms
  by (auto simp: Disconnect_release_def removeAll_pendingProcessing_def
      removeAll_pendingResponse_def IotMqtt_CloseNetworkConnection_def
      IotMqtt_DecrementConnectionReferences_def destroyMqttConnection_def logEvent_def Let_def)

text \<open>
  Claim C2, as the code has it. \<open>IotMqtt_Disconnect\<close> on a connection whose
  disconnected flag is already set creates, serializes and schedules no DISCONNECT
  operation, but it is not without effect: it is exactly the part of the function that
  every call runs. It calls \<open>_IotMqtt_CloseNetworkConnection\<close> again, empties both
  operation queues, and gives up one reference of the connection. With empty queues and
  no keep-alive the store of operations is as it was, the count is one less afterwards,
  and the connection is freed exactly when that was its last reference.

  In general (no operation is linked twice, and whether the task pool can cancel the job
  of an operation depends on that operation alone) every queued operation gets what
  \<open>_mqttOperation_tryDestroy\<close> leaves of it: an operation whose job cannot be cancelled
  stays as it is, unlinked; an operation whose job is cancelled loses the reference of the
  job and is destroyed when that was its last one. The operations that were in no queue
  are untouched. The count of the connection goes down by one for the keep-alive, if
  there was one, by one for every operation destroyed, and by one for the caller; the
  connection is freed exactly when the count reaches 0 on the way.
\<close>

theorem Disconnect_again_releases_reference:
  assumes "disconnected (connection s)"
  shows "IotMqtt_Disconnect ext s flags = Some (Disconnect_release ext s)
       \<and> nextOperation (Disconnect_release ext s) = nextOperation s
       \<and> (\<exists>more. events (Disconnect_release ext s) = events s @ EvNetworkClose # more
                   \<and> list_all (\<lambda>e. \<not> isSendStep e) more)
       \<and> pendingProcessing (connection (Disconnect_release ext s)) = []
       \<and> pendingResponse (connection (Disconnect_release ext s)) = []
       \<and> (pendingProcessing (connection s) = [] \<and> pendingResponse (connection s) = []
            \<and> keepAliveMs (connection s) = 0 \<longrightarrow>
           references (connection (Disconnect_release ext s)) = references (connection s) - 1
           \<and> operations (Disconnect_release ext s) = operations s
           \<and> (connectionFreed (Disconnect_release ext s)
                \<longleftrightarrow> connectionFreed s \<or> references (connection s) = 1))
       \<and> (distinct (pendingProcessing (connection s) @ pendingResponse (connection s))
            \<and> (\<forall>op t t'. operations t op = operations t' op \<longrightarrow>
                   IotTaskPool_TryCancel ext op t = IotTaskPool_TryCancel ext op t') \<longrightarrow>
           (\<forall>op. operations (Disconnect_release ext s) op
                    = (if op \<in> set (pendingProcessing (connection s)
                                      @ pendingResponse (connection s))
                       then afterTryDestroy ext s op else operations s op))
           \<and> references (connection (Disconnect_release ext s))
               = references (connection s)
                   - (if keepAliveMs (connection s) \<noteq> 0 then 1 else 0)
                   - int (length (filter (destroyedByTryDestroy ext s)
                        (pendingProcessing (connection s) @ pendingResponse (connection s))))
                   - 1
           \<and> (connectionFreed (Disconnect_release ext s)
                \<longleftrightarrow> connectionFreed s
                    \<or> (0 < references (connection s)
                             - (if keepAliveMs (connection s) \<noteq> 0 then 1 else 0)
                       \<and> references (connection s)
                             - (if keepAliveMs (connection s) \<noteq> 0 then 1 else 0)
                           \<le> int (length (filter (destroyedByTryDestroy ext s)
                                  (pendingProcessing (connection s)
                                     @ pendingResponse (connection s)))) + 1)))"
proof -
  from assms have run: "IotMqtt_Disconnect ext s flags = Some (Disconnect_release ext s)"
    by (simp add: IotMqtt_Disconnect_def)
  have empty: "pendingProcessing (connection s) = [] \<and> pendingResponse (connection s) = []
            \<and> keepAliveMs (connection s) = 0 \<longrightarrow>
           references (connection (Disconnect_release ext s)) = references (connection s) - 1
           \<and> operations (Disconnect_release ext s) = operations s
           \<and> (connectionFreed (Disconnect_release ext s)
                \<longleftrightarrow> connectionFreed s \<or> references (connection s) = 1)"
    using Disconnect_release_idle [of s ext] Disconnect_release_empty_queues [of s ext]
    by blast
  have general: "distinct (pendingProcessing (connection s) @ pendingResponse (connection s))
            \<and> (\<forall>op t t'. operations t op = operations t' op \<longrightarrow>
                   IotTaskPool_TryCancel ext op t = IotTaskPool_TryCancel ext op t') \<longrightarrow>
           (\<forall>op. operations (Disconnect_release ext s) op
                    = (if op \<in> set (pendingProcessing (connection s)
                                      @ pendingResponse (connection s))
                       then afterTryDestroy ext s op else operations s op))
           \<and> references (connection (Disconnect_release ext s))
               = references (connection s)
                   - (if keepAliveMs (connection s) \<noteq> 0 then 1 else 0)
                   - int (length (filter (destroyedByTryDestroy ext s)
                        (pendingProcessing (connection s) @ pendingResponse (connection s))))
                   - 1
           \<and> (connectionFreed (Disconnect_release ext s)
                \<longleftrightarrow> connectionFreed s
                    \<or> (0 < references (connection s)
                             - (if keepAliveMs (connection s) \<noteq> 0 then 1 else 0)
                       \<and> references (connection s)
                             - (if keepAliveMs (connection s) \<noteq> 0 then 1 else 0)
                           \<le> int (length (filter (destroyedByTryDestroy ext s)
                                  (pendingProcessing (connection s)
                                     @ pendingResponse (connection s)))) + 1))"
  proof (intro impI, elim conjE, intro conjI allI)
    fix op
    assume dist: "distinct (pendingProcessing (connection s) @ pendingResponse (connection s))"
      and local: "\<forall>op t t'. operations t op = operations t' op \<longrightarrow>
                   IotTaskPool_TryCancel ext op t = IotTaskPool_TryCancel ext op t'"
    from Disconnect_release_result(1) [OF local dist]
    show "operations (Disconnect_release ext s) op
                    = (if op \<in> set (pendingProcessing (connection s)
                                      @ pendingResponse (connection s))
                       then afterTryDestroy ext s op else operations s op)" .
  next
    assume dist: "distinct (pendingProcessing (connection s) @ pendingResponse (connection s))"
      and local: "\<forall>op t t'. operations t op = operations t' op \<longrightarrow>
                   IotTaskPool_TryCancel ext op t = IotTaskPool_TryCancel ext op t'"
    from Disconnect_release_result(2) [OF local dist]
    show "references (connection (Disconnect_release ext s))
               = references (connection s)
                   - (if keepAliveMs (connection s) \<noteq> 0 then 1 else 0)
                   - int (length (filter (destroyedByTryDestroy ext s)
                        (pendingProcessing (connection s) @ pendingResponse (connection s))))
                   - 1" .
    from Disconnect_release_result(3) [OF local dist]
    show "connectionFreed (Disconnect_release ext s)
                \<longleftrightarrow> connectionFreed s
                    \<or> (0 < references (connection s)
                             - (if keepAliveMs (connection s) \<noteq> 0 then 1 else 0)
                       \<and> references (connection s)
                             - (if keepAliveMs (connection s) \<noteq> 0 then 1 else 0)
                           \<le> int (length (filter (destroyedByTryDestroy ext s)
                                  (pendingProcessing (connection s)
                                     @ pendingResponse (connection s)))) + 1)" .
  qed
  from run Disconnect_release_queues [of ext s] Disconnect_release_events [of ext s]
    empty general
  show ?thesis by (intro conjI)
qed

theorem Disconnect_again_releases_reference_witness:
  "disconnected (connection lostState)
   \<and> IotMqtt_Disconnect stubExternals lostState 0 = Some (Disconnect_release stubExternals lostState)
   \<and> references (connection lostState) = 1
   \<and> references (connection (Disconnect_release stubExternals lostState)) = 0
   \<and> connectionFreed (Disconnect_release stubExternals lostState)
   \<and> events (Disconnect_release stubExternals lostState)
       = [EvNetworkClose, EvNetworkDestroy, EvFreeConnection]
   \<and> disconnected (connection lostQueuedState)
   \<and> IotMqtt_Disconnect stubExternals lostQueuedState 0
       = Some (Disconnect_release stubExternals lostQueuedState)
   \<and> operations (Disconnect_release stubExternals lostQueuedState) 0 = None
   \<and> operations (Disconnect_release stubExternals lostQueuedState) 1
       = operations lostQueuedState 1
   \<and> operations (Disconnect_release stubExternals lostQueuedState) 2
       = operations lostQueuedState 2
   \<and> references (connection lostQueuedState) = 3
   \<and> references (connection (Disconnect_release stubExternals lostQueuedState)) = 1
   \<and> connectionFreed (Disconnect_release stubExternals lostQueuedState) = False"
proof -
  have lost: "disconnected (connection lostState)" "references (connection lostState) = 1"
      "pendingProcessing (connection lostState) = []"
      "pendingResponse (connection lostState) = []" "keepAliveMs (connection lostState) = 0"
      "connectionFreed lostState = False"
    by (simp_all add: lostState_def idleState_def zeroedConnection_def)
  have ev: "events (Disconnect_release stubExternals lostState)
       = [EvNetworkClose, EvNetworkDestroy, EvFreeConnection]"
    by (simp add: Disconnect_release_def removeAll_pendingProcessing_def
        removeAll_pendingResponse_def IotMqtt_CloseNetworkConnection_def lostState_def
        stub_platform)
  note first = Disconnect_again_releases_reference [OF lost(1), of stubExternals 0]
  from first lost
  have one: "IotMqtt_Disconnect stubExternals lostState 0
        = Some (Disconnect_release stubExternals lostState)"
    "references (connection (Disconnect_release stubExternals lostState)) = 0"
    "connectionFreed (Disconnect_release stubExternals lostState)"
    by simp_all
  have queued: "disconnected (connection lostQueuedState)"
      "references (connection lostQueuedState) = 3"
      "pendingProcessing (connection lostQueuedState) = [0]"
      "pendingResponse (connection lostQueuedState) = [1]"
      "keepAliveMs (connection lostQueuedState) = 0"
      "connectionFreed lostQueuedState = False"
    by (simp_all add: lostQueuedState_def idleState_def zeroedConnection_def)
  have local: "\<forall>op t t'. operations t op = operations t' op \<longrightarrow>
      IotTaskPool_TryCancel stubExternals op t = IotTaskPool_TryCancel stubExternals op t'"
    by (simp add: stubExternals_def)
  have outcome: "afterTryDestroy stubExternals lostQueuedState 0 = None"
      "afterTryDestroy stubExternals lostQueuedState 1 = operations lostQueuedState 1"
      "destroyedByTryDestroy stubExternals lostQueuedState 0"
      "\<not> destroyedByTryDestroy stubExternals lostQueuedState 1"
    by (simp_all add: afterTryDestroy_def destroyedByTryDestroy_def lostQueuedState_def
        pendingOperation_def stubExternals_def)
  note second = Disconnect_again_releases_reference [OF queued(1), of stubExternals 0]
  from second have run: "IotMqtt_Disconnect stubExternals lostQueuedState 0
       = Some (Disconnect_release stubExternals lostQueuedState)"
    by blast
  have dist: "distinct (pendingProcessing (connection lostQueuedState)
      @ pendingResponse (connection lostQueuedState))"
    by (simp add: queued)
  note general = second [THEN conjunct2, THEN conjunct2, THEN conjunct2, THEN conjunct2,
      THEN conjunct2, THEN conjunct2, rule_format, OF conjI [OF dist local]]
  from general
  have ops: "\<forall>op. operations (Disconnect_release stubExternals lostQueuedState) op
        = (if op \<in> set ([0] @ [1]) then afterTryDestroy stubExternals lostQueuedState op
           else operations lostQueuedState op)"
    and refs: "references (connection (Disconnect_release stubExternals lostQueuedState))
        = references (connection lostQueuedState)
            - (if keepAliveMs (connection lostQueuedState) \<noteq> 0 then 1 else 0)
            - int (length (filter (destroyedByTryDestroy stubExternals lostQueuedState)
                 ([0] @ [1]))) - 1"
    and freed: "connectionFreed (Disconnect_release stubExternals lostQueuedState)
        \<longleftrightarrow> connectionFreed lostQueuedState
            \<or> (0 < references (connection lostQueuedState)
                     - (if keepAliveMs (connection lostQueuedState) \<noteq> 0 then 1 else 0)
               \<and> references (connection lostQueuedState)
                     - (if keepAliveMs (connection lostQueuedState) \<noteq> 0 then 1 else 0)
                   \<le> int (length (filter (destroyedByTryDestroy stubExternals lostQueuedState)
                          ([0] @ [1]))) + 1)"
    by (simp_all add: queued(3,4))
  from ops outcome have two: "operations (Disconnect_release stubExternals lostQueuedState) 0 = None"
      "operations (Disconnect_release stubExternals lostQueuedState) 1 = operations lostQueuedState 1"
      "operations (Disconnect_release stubExternals lostQueuedState) 2 = operations lostQueuedState 2"
    by simp_all
  from refs outcome queued
  have three: "references (connection (Disconnect_release stubExternals lostQueuedState)) = 1"
    by simp
  from freed outcome queued
  have four: "connectionFreed (Disconnect_release stubExternals lostQueuedState) = False"
    by simp
  from lost(1) one(1) lost(2) one(2,3) ev queued(1) run two queued(2) three four
  show ?thesis by (intro conjI)
qed

text \<open>
  Claim C2 as stated calls the second disconnect a no-op. On a connection that lost its
  transport, the call of the user closes the transport again, takes the last reference
  and frees the connection; and of two calls in a row on a connection that a callback
  still references, the second one, made with the flag already set, closes the transport
  again and takes the reference count from 1 to 0.
\<close>

theorem Disconnect_again_counterexample:
  "disconnected (connection lostState)
   \<and> map_option (\<lambda>s'. references (connection s')) (IotMqtt_Disconnect stubExternals lostState 0)
       = Some (references (connection lostState) - 1)
   \<and> map_option connectionFreed (IotMqtt_Disconnect stubExternals lostState 0) = Some True
   \<and> map_option events (IotMqtt_Disconnect stubExternals lostState 0)
       = Some (events lostState @ [EvNetworkClose, EvNetworkDestroy, EvFreeConnection])
   \<and> map_option (\<lambda>s'. (disconnected (connection s'), references (connection s')))
        (IotMqtt_Disconnect stubExternals sharedState 0) = Some (True, 1)
   \<and> map_option (\<lambda>s'. (disconnected (connection s'), references (connection s')))
        (Option.bind (IotMqtt_Disconnect stubExternals sharedState 0)
           (\<lambda>s'. IotMqtt_Disconnect stubExternals s' 0)) = Some (True, 0)"
  by (simp add: IotMqtt_Disconnect_def Disconnect_send_def Disconnect_release_def
      removeAll_pendingProcessing_def removeAll_pendingResponse_def
      IotMqtt_CloseNetworkConnection_def IotMqtt_Wait_def Wait_release_def
      mqttOperation_tryDestroy_def lostState_def sharedState_def
      IOT_MQTT_FLAG_CLEANUP_ONLY_def stub_platform)

section \<open>Properties of UNSUBSCRIBE\<close>

lemma Unsubscribe_after_removal:
  assumes "subscriptionList (connection s1) = table"
  shows "logsOnly (sendStepSees table) s1
     (snd (fst (case IotMqtt_CreateOperation ext s1 flags pCallbackInfo of
                  (s2, Inl st) \<Rightarrow> (subscriptionCommon_cleanup st None s2, pUnsubscribeRef)
                | (s2, Inr op) \<Rightarrow>
                    subscriptionCommon_send ext IOT_MQTT_UNSUBSCRIBE s2 op subs pUnsubscribeRef)))"
  using assms
  by (simp add: logsOnly_def IotMqtt_CreateOperation_def subscriptionCommon_send_def
      subscriptionCommon_schedule_def subscriptionCommon_cleanup_def
      IotMqtt_ScheduleOperation_def IotMqtt_DestroyOperation_def
      IotMqtt_DecrementConnectionReferences_def destroyMqttConnection_def
      updateOperation_def logEvent_def Let_def split: prod.splits)

lemma RemoveSubscriptionByTopicFilter_effect:
  "events (IotMqtt_RemoveSubscriptionByTopicFilter s subs)
     = events s @ [EvRemoveSubscriptionByTopicFilter (map pTopicFilter subs)]"
  "subscriptionList (connection (IotMqtt_RemoveSubscriptionByTopicFilter s subs))
     = removeMatching (\<lambda>sub. topicFilter sub \<in> set (map pTopicFilter subs))
         (subscriptionList (connection s))"
  by (simp_all add: IotMqtt_RemoveSubscriptionByTopicFilter_def logEvent_def Let_def)

text \<open>
  Claim C8. In every call of \<open>_subscriptionCommon\<close> for an UNSUBSCRIBE, the events the
  call adds to the trace are none at all when the parameters are refused, and otherwise
  begin with the removal by topic filter, handed the topic filters of the whole list.
  Every step after it that creates, serializes or schedules the UNSUBSCRIBE operation is
  taken with the table the removal left: the table of the call with every entry that
  matches a filter of the list removed (or tombstoned, when a callback holds it). So no
  such step precedes the removal.
\<close>

theorem Unsubscribe_removes_before_sending:
  "\<exists>new. events (snd (fst (subscriptionCommon ext IOT_MQTT_UNSUBSCRIBE s subs flags
                               pCallbackInfo pUnsubscribeRef))) = events s @ new
      \<and> (new = [] \<longleftrightarrow>
            \<not> IotMqtt_ValidateSubscriptionList ext IOT_MQTT_UNSUBSCRIBE
                 (awsIotMqttMode (connection s)) subs
            \<or> (flags AND IOT_MQTT_FLAG_WAITABLE = IOT_MQTT_FLAG_WAITABLE
                \<and> pUnsubscribeRef = None))
      \<and> (new = [] \<or>
           (\<exists>rest. new = EvRemoveSubscriptionByTopicFilter (map pTopicFilter subs) # rest
              \<and> list_all
                   (sendStepSees
                      (removeMatching (\<lambda>sub. topicFilter sub \<in> set (map pTopicFilter subs))
                         (subscriptionList (connection s)))) rest))
      \<and> (new = [] \<or> hd new = EvRemoveSubscriptionByTopicFilter (map pTopicFilter subs))
      \<and> (\<forall>i<length new. isSendStep (new ! i) \<longrightarrow>
            (\<exists>j<i. new ! j = EvRemoveSubscriptionByTopicFilter (map pTopicFilter subs)))"
proof -
  define s' where "s' = snd (fst (subscriptionCommon ext IOT_MQTT_UNSUBSCRIBE s subs flags
                               pCallbackInfo pUnsubscribeRef))"
  define refused where "refused \<longleftrightarrow>
     \<not> IotMqtt_ValidateSubscriptionList ext IOT_MQTT_UNSUBSCRIBE (awsIotMqttMode (connection s)) subs
     \<or> (flags AND IOT_MQTT_FLAG_WAITABLE = IOT_MQTT_FLAG_WAITABLE \<and> pUnsubscribeRef = None)"
  define table where "table = removeMatching (\<lambda>sub. topicFilter sub \<in> set (map pTopicFilter subs))
                         (subscriptionList (connection s))"
  define removal where "removal = EvRemoveSubscriptionByTopicFilter (map pTopicFilter subs)"
  have shape: "\<exists>new. events s' = events s @ new
      \<and> (new = [] \<longleftrightarrow> refused)
      \<and> (new = [] \<or> (\<exists>rest. new = removal # rest \<and> list_all (sendStepSees table) rest))"
  proof (cases refused)
    case True
    then have "s' = s"
      by (auto simp: s'_def refused_def subscriptionCommon_def subscriptionCommon_cleanup_def)
    with True show ?thesis by simp
  next
    case False
    define s1 where "s1 = IotMqtt_RemoveSubscriptionByTopicFilter s subs"
    have removed: "events s1 = events s @ [removal]" "subscriptionList (connection s1) = table"
      by (simp_all add: s1_def removal_def table_def RemoveSubscriptionByTopicFilter_effect)
    from False have "s' = snd (fst (case IotMqtt_CreateOperation ext s1 flags pCallbackInfo of
                  (s2, Inl st) \<Rightarrow> (subscriptionCommon_cleanup st None s2, pUnsubscribeRef)
                | (s2, Inr op) \<Rightarrow>
                    subscriptionCommon_send ext IOT_MQTT_UNSUBSCRIBE s2 op subs pUnsubscribeRef))"
      by (auto simp: s'_def refused_def subscriptionCommon_def s1_def [symmetric])
    with Unsubscribe_after_removal [OF removed(2), where ext = ext and flags = flags
        and pCallbackInfo = pCallbackInfo and pUnsubscribeRef = pUnsubscribeRef and subs = subs]
    have "logsOnly (sendStepSees table) s1 s'" by simp
    then obtain rest where "events s' = events s1 @ rest" and "list_all (sendStepSees table) rest"
      by (auto simp: logsOnly_def)
    with removed(1) False show ?thesis by simp
  qed
  then obtain new where new: "events s' = events s @ new"
    and empty: "new = [] \<longleftrightarrow> refused"
    and first: "new = [] \<or> (\<exists>rest. new = removal # rest \<and> list_all (sendStepSees table) rest)"
    by blast
  from first have hd: "new = [] \<or> hd new = removal" by auto
  have before: "\<forall>i<length new. isSendStep (new ! i) \<longrightarrow> (\<exists>j<i. new ! j = removal)"
  proof (intro allI impI)
    fix i assume i: "i < length new" and send: "isSendStep (new ! i)"
    from i first obtain rest where rest: "new = removal # rest" by auto
    with send have "i \<noteq> 0" by (cases i) (auto simp: removal_def)
    with rest show "\<exists>j<i. new ! j = removal"
      by (intro exI [of _ 0]) simp
  qed
  from new empty first hd before show ?thesis
    unfolding s'_def refused_def table_def removal_def
    by (intro exI [of _ new] conjI)
qed

theorem Unsubscribe_removes_before_sending_witness:
  "events (snd (fst (subscriptionCommon stubExternals IOT_MQTT_UNSUBSCRIBE threeSubscriptionsState
       [subscriptionTo ''a/b'' IOT_MQTT_QOS_1, subscriptionTo ''c/d'' IOT_MQTT_QOS_1] 0 None None)))
     = [EvRemoveSubscriptionByTopicFilter [''a/b'', ''c/d''],
        EvCreateOperation [subscribedTo ''e/f''],
        EvSerialize IOT_MQTT_UNSUBSCRIBE [subscribedTo ''e/f''],
        EvScheduleOperation 0 [subscribedTo ''e/f'']]
   \<and> subscriptionList (connection (snd (fst (subscriptionCommon stubExternals IOT_MQTT_UNSUBSCRIBE
       threeSubscriptionsState
       [subscriptionTo ''a/b'' IOT_MQTT_QOS_1, subscriptionTo ''c/d'' IOT_MQTT_QOS_1] 0 None None))))
     = [subscribedTo ''e/f'']
   \<and> (\<exists>new. events (snd (fst (subscriptionCommon stubExternals IOT_MQTT_UNSUBSCRIBE
       threeSubscriptionsState
       [subscriptionTo ''a/b'' IOT_MQTT_QOS_1, subscriptionTo ''c/d'' IOT_MQTT_QOS_1] 0 None None)))
         = events threeSubscriptionsState @ new
       \<and> (new = [] \<or> hd new = EvRemoveSubscriptionByTopicFilter [''a/b'', ''c/d'']))"
proof -
  have run: "events (snd (fst (subscriptionCommon stubExternals IOT_MQTT_UNSUBSCRIBE
       threeSubscriptionsState
       [subscriptionTo ''a/b'' IOT_MQTT_QOS_1, subscriptionTo ''c/d'' IOT_MQTT_QOS_1] 0 None None)))
     = [EvRemoveSubscriptionByTopicFilter [''a/b'', ''c/d''],
        EvCreateOperation [subscribedTo ''e/f''],
        EvSerialize IOT_MQTT_UNSUBSCRIBE [subscribedTo ''e/f''],
        EvScheduleOperation 0 [subscribedTo ''e/f'']]"
    "subscriptionList (connection (snd (fst (subscriptionCommon stubExternals IOT_MQTT_UNSUBSCRIBE
       threeSubscriptionsState
       [subscriptionTo ''a/b'' IOT_MQTT_QOS_1, subscriptionTo ''c/d'' IOT_MQTT_QOS_1] 0 None None))))
     = [subscribedTo ''e/f'']"
    by (simp_all add: subscriptionCommon_def subscriptionCommon_send_def
        subscriptionCommon_schedule_def subscriptionCommon_cleanup_def
        IotMqtt_RemoveSubscriptionByTopicFilter_def removeMatching_def
        threeSubscriptionsState_def subscribedTo_def subscriptionTo_def stub_platform)
  have filters: "map pTopicFilter
      [subscriptionTo ''a/b'' IOT_MQTT_QOS_1, subscriptionTo ''c/d'' IOT_MQTT_QOS_1]
      = [''a/b'', ''c/d'']"
    by (simp add: subscriptionTo_def)
  from Unsubscribe_removes_before_sending [of stubExternals threeSubscriptionsState
      "[subscriptionTo ''a/b'' IOT_MQTT_QOS_1, subscriptionTo ''c/d'' IOT_MQTT_QOS_1]" 0 None None]
  obtain new where "events (snd (fst (subscriptionCommon stubExternals IOT_MQTT_UNSUBSCRIBE
       threeSubscriptionsState
       [subscriptionTo ''a/b'' IOT_MQTT_QOS_1, subscriptionTo ''c/d'' IOT_MQTT_QOS_1] 0 None None)))
         = events threeSubscriptionsState @ new
       \<and> (new = [] \<or> hd new = EvRemoveSubscriptionByTopicFilter [''a/b'', ''c/d''])"
    unfolding filters by blast
  with run show ?thesis by blast
qed

section \<open>Properties of the status of PUBLISH\<close>

lemma Publish_scheduled_state:
  assumes "Publish_scheduled ext s pPublishInfo flags pCallbackInfo pPublishRef"
  defines "s' \<equiv> snd (fst (IotMqtt_Publish ext s pPublishInfo flags pCallbackInfo pPublishRef))"
  shows "events s' = events s @
            [EvCreateOperation (subscriptionList (connection s)),
             EvSerialize IOT_MQTT_PUBLISH_TO_SERVER (subscriptionList (connection s)),
             EvScheduleOperation (nextOperation s) (subscriptionList (connection s))]"
    and "map_option (\<lambda>x. (operation x, jobScheduled x, status x, pMqttPacket x))
           (operations s' (nextOperation s))
         = Some (IOT_MQTT_PUBLISH_TO_SERVER, True, IOT_MQTT_STATUS_PENDING,
                 fst (snd (chooseSerializer (IotMqtt_SerializePublish ext)
                             (pSerializer (connection s)) serialize_publish pPublishInfo)))"
    and "pendingProcessing (connection s') = pendingProcessing (connection s) @ [nextOperation s]"
    and "references (connection s') = references (connection s) + 1"
proof -
  obtain st pkt size packetId idHigh where ser:
    "chooseSerializer (IotMqtt_SerializePublish ext) (pSerializer (connection s))
       serialize_publish pPublishInfo = (st, pkt, size, packetId, idHigh)"
    by (metis prod_cases5)
  with assms(1) have ok: "Publish_parametersValid ext s pPublishInfo flags pCallbackInfo pPublishRef"
    "IotMqtt_MallocOperation ext" "st = IOT_MQTT_SUCCESS" "IotTaskPool_Schedule ext"
    by (simp_all add: Publish_scheduled_def)
  show "events s' = events s @
            [EvCreateOperation (subscriptionList (connection s)),
             EvSerialize IOT_MQTT_PUBLISH_TO_SERVER (subscriptionList (connection s)),
             EvScheduleOperation (nextOperation s) (subscriptionList (connection s))]"
    and "map_option (\<lambda>x. (operation x, jobScheduled x, status x, pMqttPacket x))
           (operations s' (nextOperation s))
         = Some (IOT_MQTT_PUBLISH_TO_SERVER, True, IOT_MQTT_STATUS_PENDING,
                 fst (snd (chooseSerializer (IotMqtt_SerializePublish ext)
                             (pSerializer (connection s)) serialize_publish pPublishInfo)))"
    and "pendingProcessing (connection s') = pendingProcessing (connection s) @ [nextOperation s]"
    and "references (connection s') = references (connection s) + 1"
    unfolding s'_def
    by (simp_all add: ok ser IotMqtt_Publish_def IotMqtt_CreateOperation_def
        Publish_send_def Publish_cleanup_def IotMqtt_ScheduleOperation_def updateOperation_def
        logEvent_def Let_def)
qed

lemma Publish_unscheduled_operations:
  assumes "\<not> Publish_scheduled ext s pPublishInfo flags pCallbackInfo pPublishRef"
  shows "operations (snd (fst (IotMqtt_Publish ext s pPublishInfo flags pCallbackInfo pPublishRef)))
     = (if Publish_parametersValid ext s pPublishInfo flags pCallbackInfo pPublishRef
           \<and> IotMqtt_MallocOperation ext
        then (operations s)(nextOperation s := None) else operations s)"
proof -
  obtain st pkt size packetId idHigh where ser:
    "chooseSerializer (IotMqtt_SerializePublish ext) (pSerializer (connection s))
       serialize_publish pPublishInfo = (st, pkt, size, packetId, idHigh)"
    by (metis prod_cases5)
  with assms have "\<not> Publish_parametersValid ext s pPublishInfo flags pCallbackInfo pPublishRef
      \<or> \<not> IotMqtt_MallocOperation ext \<or> st \<noteq> IOT_MQTT_SUCCESS \<or> \<not> IotTaskPool_Schedule ext"
    by (simp add: Publish_scheduled_def)
  then show ?thesis
    by (auto simp: ser IotMqtt_Publish_def IotMqtt_CreateOperation_def
        Publish_send_def Publish_cleanup_def IotMqtt_ScheduleOperation_def
        IotMqtt_DestroyOperation_def updateOperation_def logEvent_def Let_def)
qed

text \<open>
  Claim C6, as the code has it. A call to \<open>IotMqtt_Publish\<close> that validates and schedules its
  send job returns STATUS\_PENDING for a QoS above 0 and SUCCESS for QoS 0, and it has
  done the scheduling: the call added the creation, the serialization and the submission
  of the operation to the trace, and the new operation is a PUBLISH in the send queue of
  the connection, pending, with the packet of the serializer and its job scheduled. Every
  other call returns BAD\_PARAMETER, NO\_MEMORY, the status of the serializer or
  SCHEDULING\_ERROR, in this order of the checks, never SUCCESS, and leaves no operation
  behind. That status is STATUS\_PENDING exactly when the serializer, a function the user
  may replace, returned STATUS\_PENDING itself; with every other serializer it is an
  error.
\<close>

theorem Publish_returned_status:
  "(Publish_scheduled ext s pPublishInfo flags pCallbackInfo pPublishRef \<longrightarrow>
      fst (fst (IotMqtt_Publish ext s pPublishInfo flags pCallbackInfo pPublishRef))
        = (if qos pPublishInfo \<noteq> IOT_MQTT_QOS_0 then IOT_MQTT_STATUS_PENDING
           else IOT_MQTT_SUCCESS)
      \<and> events (snd (fst (IotMqtt_Publish ext s pPublishInfo flags pCallbackInfo pPublishRef)))
        = events s @
            [EvCreateOperation (subscriptionList (connection s)),
             EvSerialize IOT_MQTT_PUBLISH_TO_SERVER (subscriptionList (connection s)),
             EvScheduleOperation (nextOperation s) (subscriptionList (connection s))]
      \<and> map_option (\<lambda>x. (operation x, jobScheduled x, status x, pMqttPacket x))
           (operations (snd (fst (IotMqtt_Publish ext s pPublishInfo flags pCallbackInfo
              pPublishRef))) (nextOperation s))
        = Some (IOT_MQTT_PUBLISH_TO_SERVER, True, IOT_MQTT_STATUS_PENDING,
                fst (snd (chooseSerializer (IotMqtt_SerializePublish ext)
                            (pSerializer (connection s)) serialize_publish pPublishInfo)))
      \<and> pendingProcessing (connection (snd (fst (IotMqtt_Publish ext s pPublishInfo flags
           pCallbackInfo pPublishRef))))
        = pendingProcessing (connection s) @ [nextOperation s])
   \<and> (\<not> Publish_scheduled ext s pPublishInfo flags pCallbackInfo pPublishRef \<longrightarrow>
      fst (fst (IotMqtt_Publish ext s pPublishInfo flags pCallbackInfo pPublishRef))
        = (if \<not> Publish_parametersValid ext s pPublishInfo flags pCallbackInfo pPublishRef
             then IOT_MQTT_BAD_PARAMETER
           else if \<not> IotMqtt_MallocOperation ext then IOT_MQTT_NO_MEMORY
           else if fst (chooseSerializer (IotMqtt_SerializePublish ext)
                          (pSerializer (connection s)) serialize_publish pPublishInfo)
                     \<noteq> IOT_MQTT_SUCCESS
             then fst (chooseSerializer (IotMqtt_SerializePublish ext)
                         (pSerializer (connection s)) serialize_publish pPublishInfo)
           else IOT_MQTT_SCHEDULING_ERROR)
      \<and> fst (fst (IotMqtt_Publish ext s pPublishInfo flags pCallbackInfo pPublishRef))
           \<noteq> IOT_MQTT_SUCCESS
      \<and> (fst (fst (IotMqtt_Publish ext s pPublishInfo flags pCallbackInfo pPublishRef))
             = IOT_MQTT_STATUS_PENDING
           \<longleftrightarrow> Publish_parametersValid ext s pPublishInfo flags pCallbackInfo pPublishRef
               \<and> IotMqtt_MallocOperation ext
               \<and> fst (chooseSerializer (IotMqtt_SerializePublish ext)
                         (pSerializer (connection s)) serialize_publish pPublishInfo)
                   = IOT_MQTT_STATUS_PENDING)
      \<and> operations (snd (fst (IotMqtt_Publish ext s pPublishInfo flags pCallbackInfo
           pPublishRef)))
        = (if Publish_parametersValid ext s pPublishInfo flags pCallbackInfo pPublishRef
              \<and> IotMqtt_MallocOperation ext
           then (operations s)(nextOperation s := None) else operations s))"
proof (intro conjI impI)
  assume sch: "Publish_scheduled ext s pPublishInfo flags pCallbackInfo pPublishRef"
  then show "fst (fst (IotMqtt_Publish ext s pPublishInfo flags pCallbackInfo pPublishRef))
        = (if qos pPublishInfo \<noteq> IOT_MQTT_QOS_0 then IOT_MQTT_STATUS_PENDING
           else IOT_MQTT_SUCCESS)"
    by (simp add: Publish_status Publish_scheduled_def)
  from Publish_scheduled_state [OF sch]
  show "events (snd (fst (IotMqtt_Publish ext s pPublishInfo flags pCallbackInfo pPublishRef)))
        = events s @
            [EvCreateOperation (subscriptionList (connection s)),
             EvSerialize IOT_MQTT_PUBLISH_TO_SERVER (subscriptionList (connection s)),
             EvScheduleOperation (nextOperation s) (subscriptionList (connection s))]"
    and "map_option (\<lambda>x. (operation x, jobScheduled x, status x, pMqttPacket x))
           (operations (snd (fst (IotMqtt_Publish ext s pPublishInfo flags pCallbackInfo
              pPublishRef))) (nextOperation s))
        = Some (IOT_MQTT_PUBLISH_TO_SERVER, True, IOT_MQTT_STATUS_PENDING,
                fst (snd (chooseSerializer (IotMqtt_SerializePublish ext)
                            (pSerializer (connection s)) serialize_publish pPublishInfo)))"
    and "pendingProcessing (connection (snd (fst (IotMqtt_Publish ext s pPublishInfo flags
           pCallbackInfo pPublishRef))))
        = pendingProcessing (connection s) @ [nextOperation s]"
    by blast+
next
  assume un: "\<not> Publish_scheduled ext s pPublishInfo flags pCallbackInfo pPublishRef"
  then show st: "fst (fst (IotMqtt_Publish ext s pPublishInfo flags pCallbackInfo pPublishRef))
        = (if \<not> Publish_parametersValid ext s pPublishInfo flags pCallbackInfo pPublishRef
             then IOT_MQTT_BAD_PARAMETER
           else if \<not> IotMqtt_MallocOperation ext then IOT_MQTT_NO_MEMORY
           else if fst (chooseSerializer (IotMqtt_SerializePublish ext)
                          (pSerializer (connection s)) serialize_publish pPublishInfo)
                     \<noteq> IOT_MQTT_SUCCESS
             then fst (chooseSerializer (IotMqtt_SerializePublish ext)
                         (pSerializer (connection s)) serialize_publish pPublishInfo)
           else IOT_MQTT_SCHEDULING_ERROR)"
    by (auto simp: Publish_status Publish_scheduled_def Let_def)
  show "fst (fst (IotMqtt_Publish ext s pPublishInfo flags pCallbackInfo pPublishRef))
           \<noteq> IOT_MQTT_SUCCESS"
    unfolding st by simp
  show "fst (fst (IotMqtt_Publish ext s pPublishInfo flags pCallbackInfo pPublishRef))
             = IOT_MQTT_STATUS_PENDING
           \<longleftrightarrow> Publish_parametersValid ext s pPublishInfo flags pCallbackInfo pPublishRef
               \<and> IotMqtt_MallocOperation ext
               \<and> fst (chooseSerializer (IotMqtt_SerializePublish ext)
                         (pSerializer (connection s)) serialize_publish pPublishInfo)
                   = IOT_MQTT_STATUS_PENDING"
    unfolding st by auto
  from Publish_unscheduled_operations [OF un]
  show "operations (snd (fst (IotMqtt_Publish ext s pPublishInfo flags pCallbackInfo
           pPublishRef)))
        = (if Publish_parametersValid ext s pPublishInfo flags pCallbackInfo pPublishRef
              \<and> IotMqtt_MallocOperation ext
           then (operations s)(nextOperation s := None) else operations s)" .
qed

theorem Publish_returned_status_witness:
  "fst (fst (IotMqtt_Publish stubExternals idleState (telemetry IOT_MQTT_QOS_1) 0 None None))
      = IOT_MQTT_STATUS_PENDING
   \<and> map_option (\<lambda>x. (operation x, jobScheduled x, status x, pMqttPacket x))
        (operations (snd (fst (IotMqtt_Publish stubExternals idleState
           (telemetry IOT_MQTT_QOS_1) 0 None None))) 0)
      = Some (IOT_MQTT_PUBLISH_TO_SERVER, True, IOT_MQTT_STATUS_PENDING, Some [48, 0])
   \<and> events (snd (fst (IotMqtt_Publish stubExternals idleState (telemetry IOT_MQTT_QOS_1) 0
        None None)))
      = [EvCreateOperation [], EvSerialize IOT_MQTT_PUBLISH_TO_SERVER [],
         EvScheduleOperation 0 []]
   \<and> fst (fst (IotMqtt_Publish stubExternals idleState (telemetry IOT_MQTT_QOS_0) 0 None None))
      = IOT_MQTT_SUCCESS
   \<and> fst (fst (IotMqtt_Publish busyExternals idleState (telemetry IOT_MQTT_QOS_1) 0 None None))
      = IOT_MQTT_SCHEDULING_ERROR
   \<and> operations (snd (fst (IotMqtt_Publish busyExternals idleState (telemetry IOT_MQTT_QOS_1) 0
        None None))) 0 = None"
proof -
  have sched: "Publish_scheduled stubExternals idleState (telemetry IOT_MQTT_QOS_1) 0 None None"
      "Publish_scheduled stubExternals idleState (telemetry IOT_MQTT_QOS_0) 0 None None"
      "\<not> Publish_scheduled busyExternals idleState (telemetry IOT_MQTT_QOS_1) 0 None None"
    by (simp_all add: Publish_scheduled_def Publish_parametersValid_def telemetry_def
        busyExternals_def stub_platform)
  have given: "qos (telemetry IOT_MQTT_QOS_1) = IOT_MQTT_QOS_1"
      "qos (telemetry IOT_MQTT_QOS_0) = IOT_MQTT_QOS_0"
      "subscriptionList (connection idleState) = []" "nextOperation idleState = 0"
      "events idleState = []" "operations idleState 0 = None"
      "fst (snd (chooseSerializer (IotMqtt_SerializePublish stubExternals)
                   (pSerializer (connection idleState)) serialize_publish
                   (telemetry IOT_MQTT_QOS_1))) = Some [48, 0]"
      "Publish_parametersValid busyExternals idleState (telemetry IOT_MQTT_QOS_1) 0 None None"
      "IotMqtt_MallocOperation busyExternals"
      "fst (chooseSerializer (IotMqtt_SerializePublish busyExternals)
              (pSerializer (connection idleState)) serialize_publish
              (telemetry IOT_MQTT_QOS_1)) = IOT_MQTT_SUCCESS"
    by (simp_all add: Publish_parametersValid_def telemetry_def busyExternals_def stub_platform)
  from Publish_returned_status [of stubExternals idleState "telemetry IOT_MQTT_QOS_1" 0 None None]
    Publish_returned_status [of stubExternals idleState "telemetry IOT_MQTT_QOS_0" 0 None None]
    Publish_returned_status [of busyExternals idleState "telemetry IOT_MQTT_QOS_1" 0 None None]
    sched given
  show ?thesis by simp
qed

text \<open>
  Claim C6 as stated promises an error status whenever the send job was not scheduled. On
  a connection whose user installed a PUBLISH serializer that returns STATUS\_PENDING, a
  publish at QoS 1 schedules nothing, destroys its operation, and returns
  STATUS\_PENDING, the status of a successful schedule.
\<close>

theorem Publish_pending_serializer_counterexample:
  "\<not> Publish_scheduled stubExternals overriddenState (telemetry IOT_MQTT_QOS_1) 0 None None
   \<and> fst (fst (IotMqtt_Publish stubExternals overriddenState (telemetry IOT_MQTT_QOS_1) 0
        None None)) = IOT_MQTT_STATUS_PENDING
   \<and> operations (snd (fst (IotMqtt_Publish stubExternals overriddenState
        (telemetry IOT_MQTT_QOS_1) 0 None None))) 0 = None
   \<and> events (snd (fst (IotMqtt_Publish stubExternals overriddenState
        (telemetry IOT_MQTT_QOS_1) 0 None None)))
      = [EvCreateOperation [], EvSerialize IOT_MQTT_PUBLISH_TO_SERVER [], EvDestroyOperation 0]"
  by (simp add: Publish_scheduled_def IotMqtt_Publish_def Publish_parametersValid_def
      Publish_send_def Publish_cleanup_def IotMqtt_DestroyOperation_def
      overriddenState_def pendingPublishSerializer_def telemetry_def stub_platform)

end
